theory Spec2Isabelle
  imports Main "HOL-Library.Char_ord" "HOL-Library.List_Lexorder" "HOL-Library.Multiset"
begin

section \<open>The Snowflake warehouse integration (warehouse/integrations/snowflake/snowflake.go)\<close>

text \<open>
  The integration builds SQL statements as text, sends them over a database handle,
  logs what it does and returns Go errors. The embedding keeps these four things apart:
  \<^item> the statement builders are functions on \<open>string\<close> that follow the
    \<^verbatim>\<open>fmt.Sprintf\<close> templates of the source byte for byte;
  \<^item> the database handle is a function from the statement text to the answer of the
    backend, so every error branch of the source is a branch of the model;
  \<^item> every method returns, next to its result, the list of the effects it had
    (connections opened and closed, statements executed, log lines, counters);
  \<^item> a MERGE statement is read back from its text as a value of type \<open>merge_stmt\<close>
    by \<open>readMerge\<close>, which stands for the backend reading the statement, and the
    meaning of that value on tables is given by \<open>merge_into\<close>.
\<close>

subsection \<open>Go values: errors, quoting, joining\<close>

text \<open>
  A Go \<^verbatim>\<open>error\<close>. \<open>SnowflakeError\<close> is the driver's
  \<^verbatim>\<open>*gosnowflake.SnowflakeError\<close> with its \<^verbatim>\<open>SQLState\<close> and the text the
  driver renders for it; \<open>ErrNoRows\<close> is \<^verbatim>\<open>sql.ErrNoRows\<close>; \<open>Wrapf p e\<close> is \<^verbatim>\<open>fmt.Errorf(p + "%w", e)\<close>. A nil error
  is \<open>None\<close> of \<open>go_error option\<close>.
\<close>

datatype go_error =
    SnowflakeError (SQLState: string) (driverText: string)
  | ErrNoRows
  | PlainError string
  | Wrapf string go_error

fun Error :: "go_error \<Rightarrow> string" where
  "Error (SnowflakeError st m) = m"
| "Error ErrNoRows = ''sql: no rows in result set''"
| "Error (PlainError m) = m"
| "Error (Wrapf p e) = p @ Error e"

definition dquote :: char where
  "dquote = CHR 0x22"

definition backslash :: char where
  "backslash = CHR 0x5C"

definition hexDigit :: "nat \<Rightarrow> char" where
  "hexDigit n = ''0123456789abcdef'' ! (n mod 16)"

text \<open>
  The verb \<^verbatim>\<open>%q\<close> of \<^verbatim>\<open>fmt\<close> on a string (\<^verbatim>\<open>strconv.Quote\<close>): the text between
  double quotes, the double quote and the backslash escaped by a backslash, the control
  bytes written as Go escapes. This is \<^verbatim>\<open>strconv.Quote\<close> on every ASCII text. Bytes
  from 0x80 on are kept as they are, which is what \<^verbatim>\<open>strconv.Quote\<close> does for the
  bytes of a printable rune in valid UTF-8; it writes a byte that is not valid UTF-8, and
  a rune that is not printable, as an escape in hexadecimal digits, which is not followed
  here.
\<close>

definition quoteByte :: "char \<Rightarrow> string" where
  "quoteByte c =
     (if c = dquote then [backslash, dquote]
      else if c = backslash then [backslash, backslash]
      else if c = CHR 0x07 then [backslash, CHR ''a'']
      else if c = CHR 0x08 then [backslash, CHR ''b'']
      else if c = CHR 0x0C then [backslash, CHR ''f'']
      else if c = CHR 0x0A then [backslash, CHR ''n'']
      else if c = CHR 0x0D then [backslash, CHR ''r'']
      else if c = CHR 0x09 then [backslash, CHR ''t'']
      else if c = CHR 0x0B then [backslash, CHR ''v'']
      else if of_char c < (0x20 :: nat) \<or> c = CHR 0x7F
        then [backslash, CHR ''x'', hexDigit (of_char c div 16), hexDigit (of_char c)]
      else [c])"

definition quoted :: "string \<Rightarrow> string" where
  "quoted s = dquote # concat (map quoteByte s) @ [dquote]"

text \<open>\<^verbatim>\<open>strings.Join\<close>.\<close>

fun Join :: "string list \<Rightarrow> string \<Rightarrow> string" where
  "Join [] sep = []"
| "Join [x] sep = x"
| "Join (x # y # zs) sep = x @ sep @ Join (y # zs) sep"

text \<open>\<^verbatim>\<open>strings.HasSuffix\<close> and \<^verbatim>\<open>strings.TrimSuffix\<close>.\<close>

definition HasSuffix :: "string \<Rightarrow> string \<Rightarrow> bool" where
  "HasSuffix s suf = (length suf \<le> length s \<and> drop (length s - length suf) s = suf)"

definition TrimSuffix :: "string \<Rightarrow> string \<Rightarrow> string" where
  "TrimSuffix s suf = (if HasSuffix s suf then take (length s - length suf) s else s)"

text \<open>
  Two names for \<open>string\<close>, to tell the arguments of the statement builders apart: the
  name of a table or of a column, and the text of a statement or of a part of one.
\<close>

type_synonym ident = string

type_synonym sql = string

definition squote :: char where
  "squote = CHR 0x27"

definition tab :: char where
  "tab = CHR 0x09"

definition tabs :: "nat \<Rightarrow> string" where
  "tabs n = replicate n tab"

subsection \<open>The driver value and the effects of a call\<close>

text \<open>
  The fields of \<^verbatim>\<open>Snowflake\<close> that the modelled methods read. \<open>DestinationID\<close> is
  \<^verbatim>\<open>sf.Warehouse.Destination.ID\<close>. The three last fields are what \<^verbatim>\<open>authString\<close>
  obtains from the destination configuration through helpers of other packages:
  \<^verbatim>\<open>misc.IsConfiguredToUseRudderObjectStorage\<close>, \<^verbatim>\<open>warehouseutils.GetConfigValue\<close>
  for the key \<^verbatim>\<open>storageIntegration\<close>, and \<^verbatim>\<open>warehouseutils.GetTemporaryS3Cred\<close>
  (key id, secret key, token).
\<close>

record snowflake =
  Namespace :: string
  CloudProvider :: string
  ObjectStorage :: string
  DestinationID :: string
  useRudderObjectStorage :: bool
  storageIntegrationValue :: string
  temporaryS3Cred :: "string \<times> string \<times> string"

text \<open>
  The fields of a structured log call (\<^verbatim>\<open>Infow\<close>, \<^verbatim>\<open>Debugw\<close>, \<^verbatim>\<open>Warnw\<close>) that
  change from call to call: \<^verbatim>\<open>logfield.TableName\<close>, \<^verbatim>\<open>logfield.StagingTableName\<close>,
  \<^verbatim>\<open>logfield.Query\<close>, \<^verbatim>\<open>logfield.Error\<close>. The fields that identify the source, the
  destination, the workspace and the namespace are the same on every call of a run and
  are left out.
\<close>

datatype logfield = FieldTableName | FieldStagingTableName | FieldQuery | FieldError

text \<open>
  What a call does besides returning: a connection opened by \<^verbatim>\<open>sf.connect\<close> and
  closed by \<^verbatim>\<open>db.Close\<close>, a statement sent with \<^verbatim>\<open>ExecContext\<close> or
  \<^verbatim>\<open>QueryRowContext\<close>, a formatted line given to the logger (\<^verbatim>\<open>Infof\<close>,
  \<^verbatim>\<open>Errorf\<close>), a structured log call with its message and fields, a counter
  incremented (name, table tag, amount).
\<close>

datatype event =
    Opened
  | Closed
  | Executed string
  | Logged string
  | Logw string "(logfield \<times> string) list"
  | Counted string string int

text \<open>
  What a call comes to: it returns a value, or it panics (a Go run-time panic with its
  message).
\<close>

datatype 'a outcome = Returns 'a | Panics string

text \<open>The answer of the backend to a statement: the error of \<^verbatim>\<open>ExecContext\<close>.\<close>

type_synonym backend = "string \<Rightarrow> go_error option"

definition schemaIdentifier :: "snowflake \<Rightarrow> string" where
  "schemaIdentifier sf = quoted (Namespace sf)"

fun checkAndIgnoreAlreadyExistError :: "go_error option \<Rightarrow> bool" where
  "checkAndIgnoreAlreadyExistError None = True"
| "checkAndIgnoreAlreadyExistError (Some (SnowflakeError st m)) = (st = ''42601'')"
| "checkAndIgnoreAlreadyExistError (Some e) = False"

subsection \<open>AddColumns\<close>

text \<open>\<^verbatim>\<open>warehouseutils.ColumnInfo\<close>.\<close>

record ColumnInfo =
  Name :: string
  Type :: string

text \<open>
  The query of \<^verbatim>\<open>AddColumns\<close>. \<open>dataTypesMap\<close> is the package's table from abstract
  to Snowflake types, a parameter here; a Go map gives the empty string for a missing key.
\<close>

definition addColumnsQuery ::
  "(string \<Rightarrow> string) \<Rightarrow> snowflake \<Rightarrow> string \<Rightarrow> ColumnInfo list \<Rightarrow> string" where
  "addColumnsQuery dataTypesMap sf tableName columnsInfo =
     TrimSuffix
       (''\<newline>'' @ tabs 2 @ ''ALTER TABLE\<newline>'' @ tabs 2 @ ''  ''
          @ schemaIdentifier sf @ ''.'' @ quoted tableName @ ''\<newline>'' @ tabs 2 @ ''ADD COLUMN''
          @ concat (map (\<lambda>columnInfo. '' '' @ quoted (Name columnInfo) @ '' ''
                          @ dataTypesMap (Type columnInfo) @ '','') columnsInfo))
       '',''
     @ '';''"

definition AddColumns ::
  "(string \<Rightarrow> string) \<Rightarrow> backend \<Rightarrow> snowflake \<Rightarrow> string \<Rightarrow> ColumnInfo list
     \<Rightarrow> go_error option \<times> event list" where
  "AddColumns dataTypesMap db sf tableName columnsInfo =
     (let query = addColumnsQuery dataTypesMap sf tableName columnsInfo;
          logged = Logged (''SF: Adding columns for destinationID: '' @ DestinationID sf
                     @ '', tableName: '' @ tableName @ '' with query: '' @ query);
          err = db query
      in if length columnsInfo = 1 then
           (case err of
              Some e \<Rightarrow>
                if checkAndIgnoreAlreadyExistError err
                then (None, [logged, Executed query,
                        Logged (''SF: Column '' @ Name (columnsInfo ! 0) @ '' already exists on ''
                          @ schemaIdentifier sf @ ''.'' @ tableName @ '' \<newline>Response: '' @ Error e)])
                else (err, [logged, Executed query])
            | None \<Rightarrow> (err, [logged, Executed query]))
         else (err, [logged, Executed query]))"

subsection \<open>The surroundings of a load\<close>

text \<open>
  Everything a load reads from outside this file, as answers:
  \<^item> the package variables \<^verbatim>\<open>usersTable\<close>, \<^verbatim>\<open>identifiesTable\<close>, \<^verbatim>\<open>discardsTable\<close>,
    \<^verbatim>\<open>identityMergeRulesTable\<close>, \<^verbatim>\<open>identityMappingsTable\<close>, which the source obtains
    from \<^verbatim>\<open>warehouseutils.ToProviderCase\<close>;
  \<^item> what \<^verbatim>\<open>sf.connect\<close> calls: the error of \<^verbatim>\<open>snowflake.DSN\<close>, the error of
    \<^verbatim>\<open>sql.Open\<close>, and the error with which the new handle answers
    \<^verbatim>\<open>ALTER SESSION SET ABORT_DETACHED_QUERY=TRUE\<close>;
  \<^item> the connection that \<^verbatim>\<open>sf.connect\<close> gives: the error of \<^verbatim>\<open>ExecContext\<close> for a
    statement, and for \<^verbatim>\<open>QueryRowContext\<close> the pair of \<^verbatim>\<open>row.Err()\<close> and what
    \<^verbatim>\<open>row.Scan(&inserted, &updated)\<close> gives;
  \<^item> the \<^verbatim>\<open>Uploader\<close>: \<^verbatim>\<open>GetSampleLoadFileLocation\<close>, \<^verbatim>\<open>GetSingleLoadFile\<close> (the
    \<^verbatim>\<open>Location\<close> of the load file), \<^verbatim>\<open>ShouldOnDedupUseNewRecord\<close>,
    \<^verbatim>\<open>GetTableSchemaInUpload\<close>, \<^verbatim>\<open>GetTableSchemaInWarehouse\<close>; a
    \<^verbatim>\<open>model.TableSchema\<close> is the list of its (column, type) entries in the order in which
    this run iterates over the Go map;
  \<^item> helpers of other packages: \<^verbatim>\<open>warehouseutils.StagingTableName(provider, tableName,
    tableNameLimit)\<close>, \<^verbatim>\<open>warehouseutils.GetObjectFolder\<close>, \<^verbatim>\<open>warehouseutils.GetObjectLocation\<close>,
    and \<^verbatim>\<open>misc.ReplaceMultiRegex\<close> applied to the three credential patterns.
\<close>

type_synonym TableSchema = "(string \<times> string) list"

record env =
  usersTable :: string
  identifiesTable :: string
  discardsTable :: string
  identityMergeRulesTable :: string
  identityMappingsTable :: string
  DSN :: "go_error option"
  sqlOpen :: "go_error option"
  alterSession :: "go_error option"
  ExecContext :: backend
  QueryRowContext :: "string \<Rightarrow> go_error option \<times> (go_error + int \<times> int)"
  GetSampleLoadFileLocation :: "string \<Rightarrow> go_error + string"
  GetSingleLoadFile :: "string \<Rightarrow> go_error + string"
  ShouldOnDedupUseNewRecord :: bool
  GetTableSchemaInUpload :: "string \<Rightarrow> TableSchema"
  GetTableSchemaInWarehouse :: "string \<Rightarrow> TableSchema"
  StagingTableName :: "string \<Rightarrow> string"
  GetObjectFolder :: "string \<Rightarrow> string \<Rightarrow> string"
  GetObjectLocation :: "string \<Rightarrow> string \<Rightarrow> string"
  ReplaceMultiRegex :: "string \<Rightarrow> go_error + string"

text \<open>
  \<^verbatim>\<open>sf.connect\<close>: the data source name, the handle that \<^verbatim>\<open>sql.Open\<close> gives, and
  the \<^verbatim>\<open>ALTER SESSION\<close> on that handle; the error of each step is written into a new
  error with \<^verbatim>\<open>%v\<close>. \<open>connect\<close> is the error that the method returns.
  \<open>connectEvents\<close> is what a call that returns an error has done: when it is the
  \<^verbatim>\<open>ALTER SESSION\<close> that fails, the handle has been opened, and the method returns
  without closing it.
\<close>

definition connect :: "env \<Rightarrow> go_error option" where
  "connect env =
     (case DSN env of
        Some err \<Rightarrow>
          Some (PlainError (''SF: Error costructing DSN to connect : ('' @ Error err @ '')''))
      | None \<Rightarrow>
     (case sqlOpen env of
        Some err \<Rightarrow> Some (PlainError (''SF: snowflake connect error : ('' @ Error err @ '')''))
      | None \<Rightarrow>
     (case alterSession env of
        Some err \<Rightarrow>
          Some (PlainError (''SF: snowflake alter session error : ('' @ Error err @ '')''))
      | None \<Rightarrow> None)))"

definition connectEvents :: "env \<Rightarrow> event list" where
  "connectEvents env = (if DSN env = None \<and> sqlOpen env = None then [Opened] else [])"

text \<open>
  Modelled from the spec: \<^verbatim>\<open>warehouseutils.GetColumnsFromTableSchema\<close> and
  \<^verbatim>\<open>warehouseutils.JoinWithFormatting\<close> are not in this file. The first gives the
  column names of a schema (in the iteration order of the map), the second joins the
  formatted names with the separator (the "comma-joined, quoted column list").
\<close>

definition GetColumnsFromTableSchema :: "TableSchema \<Rightarrow> string list" where
  "GetColumnsFromTableSchema schema = map fst schema"

definition JoinWithFormatting ::
  "string list \<Rightarrow> (nat \<Rightarrow> string \<Rightarrow> string) \<Rightarrow> string \<Rightarrow> string" where
  "JoinWithFormatting keys format separator =
     Join (map (\<lambda>(idx, name). format idx name) (enumerate 0 keys)) separator"

definition primaryKeyMap :: "env \<Rightarrow> string \<rightharpoonup> string" where
  "primaryKeyMap env =
     [usersTable env \<mapsto> ''ID'', identifiesTable env \<mapsto> ''ID'', discardsTable env \<mapsto> ''ROW_ID'']"

definition partitionKeyMap :: "env \<Rightarrow> string \<rightharpoonup> string" where
  "partitionKeyMap env =
     [usersTable env \<mapsto> [dquote] @ ''ID'' @ [dquote],
      identifiesTable env \<mapsto> [dquote] @ ''ID'' @ [dquote],
      discardsTable env \<mapsto>
        concat [[dquote], ''ROW_ID'', [dquote], '', '', [dquote], ''COLUMN_NAME'', [dquote],
                '', '', [dquote], ''TABLE_NAME'', [dquote]]]"

text \<open>
  The primary key and the partition key of a table as \<^verbatim>\<open>loadTable\<close> takes them:
  the entry of the map, or the default \<^verbatim>\<open>ID\<close>.
\<close>

definition primaryKeyOf :: "env \<Rightarrow> string \<Rightarrow> string" where
  "primaryKeyOf env tableName =
     (case primaryKeyMap env tableName of Some column \<Rightarrow> column | None \<Rightarrow> ''ID'')"

definition partitionKeyOf :: "env \<Rightarrow> string \<Rightarrow> string" where
  "partitionKeyOf env tableName =
     (case partitionKeyMap env tableName of
        Some column \<Rightarrow> column | None \<Rightarrow> [dquote] @ ''ID'' @ [dquote])"

definition authString :: "snowflake \<Rightarrow> string" where
  "authString sf =
     (if useRudderObjectStorage sf \<or> (CloudProvider sf = ''AWS'' \<and> storageIntegrationValue sf = '''')
      then (case temporaryS3Cred sf of (tempAccessKeyId, tempSecretAccessKey, token) \<Rightarrow>
              concat [''CREDENTIALS = (AWS_KEY_ID='', [squote], tempAccessKeyId, [squote],
                      '' AWS_SECRET_KEY='', [squote], tempSecretAccessKey, [squote],
                      '' AWS_TOKEN='', [squote], token, [squote], '')''])
      else ''STORAGE_INTEGRATION = '' @ storageIntegrationValue sf)"

subsection \<open>loadTable: the statements\<close>

definition createTemporaryTableStatement :: "snowflake \<Rightarrow> ident \<Rightarrow> ident \<Rightarrow> sql" where
  "createTemporaryTableStatement sf stagingTableName tableName =
      concat
       [''\<newline>'',
        tabs 2, ''CREATE TEMPORARY TABLE '', schemaIdentifier sf, ''.'', quoted stagingTableName,
          '' LIKE '', schemaIdentifier sf, ''.'', quoted tableName, '';\<newline>'']"

definition copyStatement :: "sql \<Rightarrow> sql \<Rightarrow> string \<Rightarrow> sql \<Rightarrow> sql" where
  "copyStatement target sortedColumnNames loadFolder auth =
      concat
       [''\<newline>'',
        tabs 2, ''COPY INTO\<newline>'',
        tabs 3, target, ''('', sortedColumnNames, '')\<newline>'',
        tabs 2, ''FROM\<newline>'',
        tabs 2, ''  '', [squote], loadFolder, [squote], '' '', auth, ''\<newline>'',
        tabs 2, ''PATTERN = '', [squote], ''.*'', [backslash], ''.csv'', [backslash], ''.gz'',
          [squote], ''\<newline>'',
        tabs 2, ''FILE_FORMAT = ( TYPE = csv FIELD_OPTIONALLY_ENCLOSED_BY = '', [squote],
          [dquote], [squote], '' ESCAPE_UNENCLOSED_FIELD = NONE)\<newline>'',
        tabs 2, ''TRUNCATECOLUMNS = TRUE;\<newline>'']"

text \<open>
  The MERGE of \<^verbatim>\<open>loadTable\<close>. Both branches of the source use this template (they
  number their arguments differently); \<open>updateSet\<close> is \<^verbatim>\<open>columnsWithValues\<close> in the
  branch that keeps the latest record and \<^verbatim>\<open>dummyColumnWithValues\<close> in the other.
\<close>

definition mergeStatement ::
  "ident \<Rightarrow> ident \<Rightarrow> ident \<Rightarrow> sql \<Rightarrow> sql \<Rightarrow> sql \<Rightarrow> sql \<Rightarrow> sql \<Rightarrow> sql \<Rightarrow> sql" where
  "mergeStatement tableName stagingTableName primaryKey sortedColumnNames stagingColumnNames
       updateSet additionalJoinClause partitionKey schemaIdent =
      concat
       [''\<newline>'',
        tabs 3, ''MERGE INTO '', schemaIdent, ''.'', quoted tableName,
          '' AS original USING (\<newline>'',
        tabs 3, ''  SELECT\<newline>'',
        tabs 4, ''*\<newline>'',
        tabs 3, ''  FROM\<newline>'',
        tabs 4, ''(\<newline>'',
        tabs 4, ''  SELECT\<newline>'',
        tabs 5, ''*,\<newline>'',
        tabs 5, ''row_number() OVER (\<newline>'',
        tabs 5, ''  PARTITION BY '', partitionKey, ''\<newline>'',
        tabs 5, ''  ORDER BY\<newline>'',
        tabs 6, ''RECEIVED_AT DESC\<newline>'',
        tabs 5, '') AS _rudder_staging_row_number\<newline>'',
        tabs 4, ''  FROM\<newline>'',
        tabs 5, schemaIdent, ''.'', quoted stagingTableName, ''\<newline>'',
        tabs 4, '') AS q\<newline>'',
        tabs 3, ''  WHERE\<newline>'',
        tabs 4, ''_rudder_staging_row_number = 1\<newline>'',
        tabs 3, '') AS staging ON (\<newline>'',
        tabs 3, ''  original.'', quoted primaryKey, '' = staging.'', quoted primaryKey, '' '',
          additionalJoinClause, ''\<newline>'',
        tabs 3, '')\<newline>'',
        tabs 3, ''WHEN NOT MATCHED THEN\<newline>'',
        tabs 3, ''  INSERT ('', sortedColumnNames, '') VALUES ('', stagingColumnNames, '')\<newline>'',
        tabs 3, ''WHEN MATCHED THEN\<newline>'',
        tabs 3, ''  UPDATE SET '', updateSet, '';\<newline>'']"

definition additionalJoinClause :: "env \<Rightarrow> string \<Rightarrow> string" where
  "additionalJoinClause env tableName =
     (if tableName = discardsTable env
      then concat [''AND original.'', quoted ''TABLE_NAME'', '' = staging.'', quoted ''TABLE_NAME'',
                   '' AND original.'', quoted ''COLUMN_NAME'', '' = staging.'', quoted ''COLUMN_NAME'']
      else '''')"

text \<open>
  The statement of the deduplication, from the sorted column names. In the branch that
  keeps the first record the source reads \<^verbatim>\<open>strKeys[0]\<close>, which panics on an empty
  slice.
\<close>

definition dedupStatement ::
  "env \<Rightarrow> snowflake \<Rightarrow> ident \<Rightarrow> ident \<Rightarrow> ident list \<Rightarrow> sql outcome" where
  "dedupStatement env sf tableName stagingTableName strKeys =
     (let sortedColumnNames = JoinWithFormatting strKeys (\<lambda>idx name. quoted name) '','';
          keepLatestRecordOnDedup = ShouldOnDedupUseNewRecord env;
          stagingColumnNames =
            JoinWithFormatting strKeys (\<lambda>idx name. ''staging.'' @ quoted name) '','';
          columnsWithValues =
            JoinWithFormatting strKeys
              (\<lambda>idx name. ''original.'' @ quoted name @ '' = staging.'' @ quoted name) '',''
      in if keepLatestRecordOnDedup then
           Returns (mergeStatement tableName stagingTableName (primaryKeyOf env tableName)
                      sortedColumnNames stagingColumnNames columnsWithValues
                      (additionalJoinClause env tableName) (partitionKeyOf env tableName)
                      (schemaIdentifier sf))
         else
           (case strKeys of
              [] \<Rightarrow> Panics ''runtime error: index out of range [0] with length 0''
            | key0 # rest \<Rightarrow>
                (let dummyColumnWithValues =
                       ''original.'' @ quoted key0 @ '' = original.'' @ quoted key0
                 in Returns (mergeStatement tableName stagingTableName
                      (primaryKeyOf env tableName) sortedColumnNames stagingColumnNames
                      dummyColumnWithValues (additionalJoinClause env tableName)
                      (partitionKeyOf env tableName) (schemaIdentifier sf)))))"

subsection \<open>loadTable: the control flow\<close>

text \<open>
  \<^verbatim>\<open>tableLoadResp\<close>. Its \<^verbatim>\<open>db\<close> field is the connection the call opened; a call opens
  one connection, whose answers are in the environment, so the field carries nothing
  more here.
\<close>

record tableLoadResp =
  stagingTable :: string

text \<open>
  The part of \<^verbatim>\<open>loadTable\<close> after the COPY succeeded: the MERGE, the counts it
  reports, the counter.
\<close>

definition loadTableDedup ::
  "env \<Rightarrow> snowflake \<Rightarrow> ident \<Rightarrow> ident \<Rightarrow> ident list
     \<Rightarrow> (go_error + tableLoadResp) outcome \<times> event list" where
  "loadTableDedup env sf tableName stagingTableName strKeys =
     (case dedupStatement env sf tableName stagingTableName strKeys of
        Panics msg \<Rightarrow> (Panics msg, [])
      | Returns sqlStatement \<Rightarrow>
          (let logged = [Logw ''deduplication''
                           [(FieldTableName, tableName), (FieldQuery, sqlStatement)],
                         Executed sqlStatement]
           in case QueryRowContext env sqlStatement of
                (Some rowErr, scan) \<Rightarrow>
                  (Returns (Inl (Wrapf ''merge into table: '' rowErr)),
                   logged @ [Logw ''failure running deduplication''
                     [(FieldTableName, tableName), (FieldQuery, sqlStatement),
                      (FieldError, Error rowErr)]])
              | (None, Inl err) \<Rightarrow>
                  (Returns (Inl (Wrapf ''getting rows affected for dedup: '' err)),
                   logged @ [Logw ''getting rows affected for dedup''
                     [(FieldTableName, tableName), (FieldQuery, sqlStatement),
                      (FieldError, Error err)]])
              | (None, Inr (inserted, updated)) \<Rightarrow>
                  (Returns (Inr \<lparr>stagingTable = stagingTableName\<rparr>),
                   logged @ [Counted ''dedup_rows'' tableName updated,
                             Logw ''completed loading'' [(FieldTableName, tableName)]])))"

text \<open>
  The part of \<^verbatim>\<open>loadTable\<close> that runs on the connection: the temporary table, the
  load file location, the COPY and its log line, then the deduplication.
\<close>

definition loadTableStaging ::
  "env \<Rightarrow> snowflake \<Rightarrow> string \<Rightarrow> TableSchema
     \<Rightarrow> (go_error + tableLoadResp) outcome \<times> event list" where
  "loadTableStaging env sf tableName tableSchemaInUpload =
     (let strKeys = sort (GetColumnsFromTableSchema tableSchemaInUpload);
          sortedColumnNames = JoinWithFormatting strKeys (\<lambda>idx name. quoted name) '','';
          stagingTableName = StagingTableName env tableName;
          sqlStatement = createTemporaryTableStatement sf stagingTableName tableName;
          created = [Logw ''creating temporary table''
                       [(FieldTableName, tableName), (FieldStagingTableName, stagingTableName)],
                     Executed sqlStatement]
      in case ExecContext env sqlStatement of
           Some err \<Rightarrow>
             (Returns (Inl (Wrapf ''create temporary table: '' err)),
              created @ [Logw ''failure creating temporary table''
                [(FieldTableName, tableName), (FieldStagingTableName, stagingTableName),
                 (FieldError, Error err)]])
         | None \<Rightarrow>
             (case GetSampleLoadFileLocation env tableName of
                Inl err \<Rightarrow>
                  (Returns (Inl (Wrapf ''getting sample load file location: '' err)), created)
              | Inr csvObjectLocation \<Rightarrow>
                  (let loadFolder = GetObjectFolder env (ObjectStorage sf) csvObjectLocation;
                       copyStmt = copyStatement
                                    (schemaIdentifier sf @ ''.'' @ quoted stagingTableName)
                                    sortedColumnNames loadFolder (authString sf);
                       sanitisedQuery = (case ReplaceMultiRegex env copyStmt of
                                           Inl regexErr \<Rightarrow> '''' | Inr sanitised \<Rightarrow> sanitised);
                       copied = created @
                                [Logw ''copy command''
                                   [(FieldTableName, tableName), (FieldQuery, sanitisedQuery)],
                                 Executed copyStmt]
                   in case ExecContext env copyStmt of
                        Some err \<Rightarrow>
                          (Returns (Inl (Wrapf ''copy into table: '' err)),
                           copied @ [Logw ''failure running COPY command''
                             [(FieldTableName, tableName), (FieldQuery, sanitisedQuery),
                              (FieldError, Error err)]])
                      | None \<Rightarrow>
                          (case loadTableDedup env sf tableName stagingTableName strKeys of
                             (result, events) \<Rightarrow> (result, copied @ events)))))"

text \<open>
  \<^verbatim>\<open>loadTable\<close>: the connection, the deferred \<^verbatim>\<open>db.Close()\<close> that is registered only
  when \<open>skipClosingDBSession\<close> is false (a deferred call runs on every exit of the
  function, a panic included), and the rest. When \<^verbatim>\<open>sf.connect\<close> returns an error the
  function returns before it registers anything.
\<close>

definition loadTable ::
  "env \<Rightarrow> snowflake \<Rightarrow> string \<Rightarrow> TableSchema \<Rightarrow> bool
     \<Rightarrow> (go_error + tableLoadResp) outcome \<times> event list" where
  "loadTable env sf tableName tableSchemaInUpload skipClosingDBSession =
     (let started = Logw ''started loading'' [(FieldTableName, tableName)]
      in case connect env of
           Some err \<Rightarrow>
             (Returns (Inl (Wrapf ''connect: '' err)), started # connectEvents env)
         | None \<Rightarrow>
             (case loadTableStaging env sf tableName tableSchemaInUpload of
                (result, events) \<Rightarrow>
                  (result,
                   [started, Opened] @ events
                     @ (if \<not> skipClosingDBSession then [Closed] else []))))"

text \<open>\<^verbatim>\<open>LoadTable\<close>, the exported entry: the error of \<^verbatim>\<open>loadTable\<close>.\<close>

definition LoadTable :: "env \<Rightarrow> snowflake \<Rightarrow> string \<Rightarrow> go_error option outcome \<times> event list" where
  "LoadTable env sf tableName =
     (case loadTable env sf tableName (GetTableSchemaInUpload env tableName) False of
        (Returns (Inl err), events) \<Rightarrow> (Returns (Some err), events)
      | (Returns (Inr resp), events) \<Rightarrow> (Returns None, events)
      | (Panics msg, events) \<Rightarrow> (Panics msg, events))"

subsection \<open>The identity tables\<close>

definition identityCopyStatement :: "sql \<Rightarrow> sql \<Rightarrow> string \<Rightarrow> sql \<Rightarrow> sql" where
  "identityCopyStatement target sortedColumnNames loadLocation auth =
      concat
       [''COPY INTO '', target, ''('', sortedColumnNames, '') FROM '', [squote], loadLocation,
          [squote], '' '', auth, '' PATTERN = '', [squote], ''.*'', [backslash], ''.csv'',
          [backslash], ''.gz'', [squote], ''\<newline>'',
        tabs 2, ''FILE_FORMAT = ( TYPE = csv FIELD_OPTIONALLY_ENCLOSED_BY = '', [squote],
          [dquote], [squote], '' ESCAPE_UNENCLOSED_FIELD = NONE ) TRUNCATECOLUMNS = TRUE'']"

text \<open>
  \<^verbatim>\<open>LoadIdentityMergeRulesTable\<close>. The connection it opens is not closed by the
  method. The COPY statement is logged only in its sanitised form, and only when the
  replacement gave no error.
\<close>

definition LoadIdentityMergeRulesTable :: "env \<Rightarrow> snowflake \<Rightarrow> go_error option \<times> event list" where
  "LoadIdentityMergeRulesTable env sf =
     (let started = [Logged (''SF: Starting load for table:'' @ identityMergeRulesTable env
                              @ ''\<newline>''),
                     Logged (''SF: Fetching load file location for ''
                              @ identityMergeRulesTable env)]
      in case GetSingleLoadFile env (identityMergeRulesTable env) of
           Inl err \<Rightarrow> (Some err, started)
         | Inr location \<Rightarrow>
             (case connect env of
                Some err \<Rightarrow>
                  (Some err,
                   started @ connectEvents env
                     @ [Logged (''SF: Error establishing connection for copying table:''
                          @ identityMergeRulesTable env @ '': '' @ Error err @ ''\<newline>'')])
              | None \<Rightarrow>
                  (let sortedColumnNames =
                         Join [''MERGE_PROPERTY_1_TYPE'', ''MERGE_PROPERTY_1_VALUE'',
                               ''MERGE_PROPERTY_2_TYPE'', ''MERGE_PROPERTY_2_VALUE''] '','';
                       loadLocation = GetObjectLocation env (ObjectStorage sf) location;
                       sqlStatement = identityCopyStatement
                         (schemaIdentifier sf @ ''.'' @ quoted (identityMergeRulesTable env))
                         sortedColumnNames loadLocation (authString sf);
                       sanitised = (case ReplaceMultiRegex env sqlStatement of
                          Inr sanitisedSQLStmt \<Rightarrow>
                            [Logged (''SF: Dedup records for table:''
                               @ identityMergeRulesTable env @ '' using staging table: ''
                               @ sanitisedSQLStmt @ ''\<newline>'')]
                        | Inl regexErr \<Rightarrow> []);
                       events = started @ [Opened] @ sanitised @ [Executed sqlStatement]
                   in case ExecContext env sqlStatement of
                        Some err \<Rightarrow>
                          (Some err,
                           events @ [Logged (''SF: Error running MERGE for dedup: ''
                                              @ Error err @ ''\<newline>'')])
                      | None \<Rightarrow>
                          (None,
                           events @ [Logged (''SF: Complete load for table:''
                                      @ identityMergeRulesTable env @ ''\<newline>'')]))))"

definition mappingsCreateStatement :: "env \<Rightarrow> snowflake \<Rightarrow> string \<Rightarrow> string" where
  "mappingsCreateStatement env sf stagingTableName =
      concat
       [''CREATE TEMPORARY TABLE '', schemaIdentifier sf, ''.'', quoted stagingTableName,
          '' LIKE '', schemaIdentifier sf, ''.'', quoted (identityMappingsTable env)]"

definition mappingsAlterStatement :: "snowflake \<Rightarrow> string \<Rightarrow> string" where
  "mappingsAlterStatement sf stagingTableName =
      concat
       [''ALTER TABLE '', schemaIdentifier sf, ''.'', quoted stagingTableName, '' ADD COLUMN '',
          [dquote], ''ID'', [dquote], '' int AUTOINCREMENT start 1 increment 1'']"

definition mappingsCopyStatement :: "sql \<Rightarrow> string \<Rightarrow> sql \<Rightarrow> sql" where
  "mappingsCopyStatement target loadLocation auth =
      concat
       [''COPY INTO '', target, ''('', [dquote], ''MERGE_PROPERTY_TYPE'', [dquote], '', '',
          [dquote], ''MERGE_PROPERTY_VALUE'', [dquote], '', '', [dquote], ''RUDDER_ID'',
          [dquote], '', '', [dquote], ''UPDATED_AT'', [dquote], '') FROM '', [squote],
          loadLocation, [squote], '' '', auth, '' PATTERN = '', [squote], ''.*'', [backslash],
          ''.csv'', [backslash], ''.gz'', [squote], ''\<newline>'',
        tabs 2, ''FILE_FORMAT = ( TYPE = csv FIELD_OPTIONALLY_ENCLOSED_BY = '', [squote],
          [dquote], [squote], '' ESCAPE_UNENCLOSED_FIELD = NONE ) TRUNCATECOLUMNS = TRUE'']"

definition mappingsMergeStatement :: "ident \<Rightarrow> ident \<Rightarrow> sql \<Rightarrow> sql" where
  "mappingsMergeStatement tableName stagingTableName schemaIdent =
      concat
       [''MERGE INTO '', schemaIdent, ''.'', quoted tableName, '' AS original\<newline>'',
        tabs 9, ''USING (\<newline>'',
        tabs 10, ''SELECT * FROM (\<newline>'',
        tabs 11, ''SELECT *, row_number() OVER (PARTITION BY '', [dquote],
          ''MERGE_PROPERTY_TYPE'', [dquote], '', '', [dquote], ''MERGE_PROPERTY_VALUE'',
          [dquote], '' ORDER BY '', [dquote], ''ID'', [dquote],
          '' DESC) AS _rudder_staging_row_number FROM '', schemaIdent, ''.'',
          quoted stagingTableName, ''\<newline>'',
        tabs 10, '') AS q WHERE _rudder_staging_row_number = 1\<newline>'',
        tabs 9, '') AS staging\<newline>'',
        tabs 9, ''ON (original.'', [dquote], ''MERGE_PROPERTY_TYPE'', [dquote], '' = staging.'',
          [dquote], ''MERGE_PROPERTY_TYPE'', [dquote], '' AND original.'', [dquote],
          ''MERGE_PROPERTY_VALUE'', [dquote], '' = staging.'', [dquote],
          ''MERGE_PROPERTY_VALUE'', [dquote], '')\<newline>'',
        tabs 9, ''WHEN MATCHED THEN\<newline>'',
        tabs 9, ''UPDATE SET original.'', [dquote], ''RUDDER_ID'', [dquote], '' = staging.'',
          [dquote], ''RUDDER_ID'', [dquote], '', original.'', [dquote], ''UPDATED_AT'', [dquote],
          '' =  staging.'', [dquote], ''UPDATED_AT'', [dquote], ''\<newline>'',
        tabs 9, ''WHEN NOT MATCHED THEN\<newline>'',
        tabs 9, ''INSERT ('', [dquote], ''MERGE_PROPERTY_TYPE'', [dquote], '', '', [dquote],
          ''MERGE_PROPERTY_VALUE'', [dquote], '', '', [dquote], ''RUDDER_ID'', [dquote], '', '',
          [dquote], ''UPDATED_AT'', [dquote], '') VALUES (staging.'', [dquote],
          ''MERGE_PROPERTY_TYPE'', [dquote], '', staging.'', [dquote], ''MERGE_PROPERTY_VALUE'',
          [dquote], '', staging.'', [dquote], ''RUDDER_ID'', [dquote], '', staging.'', [dquote],
          ''UPDATED_AT'', [dquote], '')'']"

text \<open>
  The part of \<^verbatim>\<open>LoadIdentityMappingsTable\<close> after the surrogate key was added: the
  COPY into the staging table and the MERGE into the target. \<open>altered\<close> is what the
  call did so far.
\<close>

definition loadIdentityMappingsCopyAndMerge ::
  "env \<Rightarrow> snowflake \<Rightarrow> string \<Rightarrow> ident \<Rightarrow> event list \<Rightarrow> go_error option \<times> event list" where
  "loadIdentityMappingsCopyAndMerge env sf location stagingTableName altered =
     (let loadLocation = GetObjectLocation env (ObjectStorage sf) location;
          copyStmt = mappingsCopyStatement
                       (schemaIdentifier sf @ ''.'' @ quoted stagingTableName)
                       loadLocation (authString sf);
          copied = altered @
            [Logged (''SF: Dedup records for table:'' @ identityMappingsTable env
                      @ '' using staging table: '' @ copyStmt @ ''\<newline>''),
             Executed copyStmt]
      in case ExecContext env copyStmt of
           Some err \<Rightarrow>
             (Some err,
              copied @ [Logged (''SF: Error running MERGE for dedup: '' @ Error err
                                 @ ''\<newline>'')])
         | None \<Rightarrow>
             (let mergeStmt = mappingsMergeStatement (identityMappingsTable env)
                                stagingTableName (schemaIdentifier sf);
                  merged = copied @
                    [Logged (''SF: Dedup records for table:'' @ identityMappingsTable env
                              @ '' using staging table: '' @ mergeStmt @ ''\<newline>''),
                     Executed mergeStmt]
              in case ExecContext env mergeStmt of
                   Some err \<Rightarrow>
                     (Some err,
                      merged @ [Logged (''SF: Error running MERGE for dedup: '' @ Error err
                                         @ ''\<newline>'')])
                 | None \<Rightarrow>
                     (None,
                      merged @ [Logged (''SF: Complete load for table:''
                                 @ identityMappingsTable env @ ''\<newline>'')])))"

text \<open>
  \<^verbatim>\<open>LoadIdentityMappingsTable\<close>. The error of the ALTER that adds the surrogate key is
  passed over when \<open>checkAndIgnoreAlreadyExistError\<close> recognises it. Each statement is
  given to \<^verbatim>\<open>sf.logger.Infof\<close> as it is, the COPY with its authentication clause
  included. The connection is not closed by the method.
\<close>

definition LoadIdentityMappingsTable :: "env \<Rightarrow> snowflake \<Rightarrow> go_error option \<times> event list" where
  "LoadIdentityMappingsTable env sf =
     (let started = [Logged (''SF: Starting load for table:'' @ identityMappingsTable env
                              @ ''\<newline>''),
                     Logged (''SF: Fetching load file location for ''
                              @ identityMappingsTable env)]
      in case GetSingleLoadFile env (identityMappingsTable env) of
           Inl err \<Rightarrow> (Some err, started)
         | Inr location \<Rightarrow>
       (case connect env of
          Some err \<Rightarrow>
            (Some err,
             started @ connectEvents env
               @ [Logged (''SF: Error establishing connection for copying table:''
                    @ identityMappingsTable env @ '': '' @ Error err @ ''\<newline>'')])
        | None \<Rightarrow>
       (let stagingTableName = StagingTableName env (identityMappingsTable env);
            createStmt = mappingsCreateStatement env sf stagingTableName;
            created = started @ [Opened,
              Logged (''SF: Creating temporary table for table:'' @ identityMappingsTable env
                        @ '' at '' @ createStmt @ ''\<newline>''),
              Executed createStmt]
        in case ExecContext env createStmt of
             Some err \<Rightarrow>
               (Some err,
                created @ [Logged (''SF: Error creating temporary table for table:''
                  @ identityMappingsTable env @ '': '' @ Error err @ ''\<newline>'')])
           | None \<Rightarrow>
       (let alterStmt = mappingsAlterStatement sf stagingTableName;
            altered = created @
              [Logged (''SF: Adding autoincrement column for table:'' @ stagingTableName
                        @ '' at '' @ alterStmt @ ''\<newline>''),
               Executed alterStmt]
        in case ExecContext env alterStmt of
             Some err \<Rightarrow>
               if \<not> checkAndIgnoreAlreadyExistError (Some err) then
                 (Some err,
                  altered @ [Logged (''SF: Error adding autoincrement column for table:''
                    @ stagingTableName @ '': '' @ Error err @ ''\<newline>'')])
               else loadIdentityMappingsCopyAndMerge env sf location stagingTableName altered
           | None \<Rightarrow>
               loadIdentityMappingsCopyAndMerge env sf location stagingTableName altered))))"

subsection \<open>loadUserTables\<close>

definition firstValPropsQuery :: "string \<Rightarrow> string" where
  "firstValPropsQuery colName =
      concat
       [''\<newline>'',
        tabs 3, ''FIRST_VALUE('', quoted colName, '' IGNORE NULLS) OVER (\<newline>'',
        tabs 3, ''  PARTITION BY ID\<newline>'',
        tabs 3, ''  ORDER BY\<newline>'',
        tabs 4, ''RECEIVED_AT DESC ROWS BETWEEN UNBOUNDED PRECEDING\<newline>'',
        tabs 4, ''AND UNBOUNDED FOLLOWING\<newline>'',
        tabs 3, '') AS '', quoted colName, ''\<newline>'']"

definition usersStagingStatement ::
  "sql \<Rightarrow> ident \<Rightarrow> sql \<Rightarrow> ident \<Rightarrow> ident \<Rightarrow> sql \<Rightarrow> sql \<Rightarrow> sql" where
  "usersStagingStatement schemaIdent stagingTableName firstValProps usersTableName
       identifiesStagingTable userColNames identifyColNames =
      concat
       [''\<newline>'',
        tabs 2, ''CREATE TEMPORARY TABLE '', schemaIdent, ''.'', quoted stagingTableName,
          '' AS (\<newline>'',
        tabs 2, ''  SELECT\<newline>'',
        tabs 3, ''DISTINCT *\<newline>'',
        tabs 2, ''  FROM\<newline>'',
        tabs 3, ''(\<newline>'',
        tabs 3, ''  SELECT\<newline>'',
        tabs 4, [dquote], ''ID'', [dquote], '',\<newline>'',
        tabs 4, firstValProps, ''\<newline>'',
        tabs 3, ''  FROM\<newline>'',
        tabs 4, ''(\<newline>'',
        tabs 4, ''  (\<newline>'',
        tabs 5, ''SELECT\<newline>'',
        tabs 5, ''  '', [dquote], ''ID'', [dquote], '',\<newline>'',
        tabs 5, ''  '', userColNames, ''\<newline>'',
        tabs 5, ''FROM\<newline>'',
        tabs 5, ''  '', schemaIdent, ''.'', quoted usersTableName, ''\<newline>'',
        tabs 5, ''WHERE\<newline>'',
        tabs 5, ''  '', [dquote], ''ID'', [dquote], '' in (\<newline>'',
        tabs 6, ''SELECT\<newline>'',
        tabs 6, ''  '', [dquote], ''USER_ID'', [dquote], ''\<newline>'',
        tabs 6, ''FROM\<newline>'',
        tabs 6, ''  '', schemaIdent, ''.'', quoted identifiesStagingTable, ''\<newline>'',
        tabs 6, ''WHERE\<newline>'',
        tabs 6, ''  '', [dquote], ''USER_ID'', [dquote], '' IS NOT NULL\<newline>'',
        tabs 5, ''  )\<newline>'',
        tabs 4, ''  )\<newline>'',
        tabs 4, ''  UNION\<newline>'',
        tabs 5, ''(\<newline>'',
        tabs 5, ''  SELECT\<newline>'',
        tabs 6, [dquote], ''USER_ID'', [dquote], '',\<newline>'',
        tabs 6, identifyColNames, ''\<newline>'',
        tabs 5, ''  FROM\<newline>'',
        tabs 6, schemaIdent, ''.'', quoted identifiesStagingTable, ''\<newline>'',
        tabs 5, ''  WHERE\<newline>'',
        tabs 6, [dquote], ''USER_ID'', [dquote], '' IS NOT NULL\<newline>'',
        tabs 5, '')\<newline>'',
        tabs 4, '')\<newline>'',
        tabs 3, '')\<newline>'',
        tabs 2, '');\<newline>'']"

definition usersMergeStatement ::
  "ident \<Rightarrow> ident \<Rightarrow> sql \<Rightarrow> sql \<Rightarrow> sql \<Rightarrow> sql \<Rightarrow> sql \<Rightarrow> sql" where
  "usersMergeStatement usersTableName stagingTableName columnNamesStr primaryKey
       columnsWithValues stagingColumnValues schemaIdent =
      concat
       [''\<newline>'',
        tabs 2, ''MERGE INTO '', schemaIdent, ''.'', quoted usersTableName,
          '' AS original USING (\<newline>'',
        tabs 2, ''  SELECT\<newline>'',
        tabs 3, columnNamesStr, ''\<newline>'',
        tabs 2, ''  FROM\<newline>'',
        tabs 3, schemaIdent, ''.'', quoted stagingTableName, ''\<newline>'',
        tabs 2, '') AS staging ON (original.'', primaryKey, '' = staging.'', primaryKey,
          '')\<newline>'',
        tabs 2, ''WHEN NOT MATCHED THEN\<newline>'',
        tabs 3, ''INSERT ('', columnNamesStr, '') VALUES ('', stagingColumnValues,
          '')\<newline>'',
        tabs 2, ''WHEN MATCHED THEN\<newline>'',
        tabs 3, ''UPDATE SET '', columnsWithValues, '';\<newline>'',
        '';\<newline>'']"

text \<open>
  The part of \<^verbatim>\<open>loadUserTables\<close> that runs once the identifies table is loaded and
  the users schema of the upload is not empty: the staging table of the users and its
  MERGE, on the connection that \<^verbatim>\<open>loadTable\<close> left open. The two loops of the source
  that put a comma between the entries are the joins here.
\<close>

definition loadUsers ::
  "env \<Rightarrow> snowflake \<Rightarrow> TableSchema \<Rightarrow> tableLoadResp
     \<Rightarrow> (string \<rightharpoonup> go_error option) \<times> event list" where
  "loadUsers env sf identifiesSchema resp =
     (let userColMap = GetTableSchemaInWarehouse env (usersTable env);
          colNames = filter (\<lambda>colName. colName \<noteq> ''ID'') (map fst userColMap);
          userColNames = map quoted colNames;
          identifyColNames =
            map (\<lambda>colName. if colName \<in> fst ` set identifiesSchema then quoted colName
                            else ''NULL as '' @ quoted colName) colNames;
          firstValProps = map firstValPropsQuery colNames;
          stagingTableName = StagingTableName env (usersTable env);
          stagingStmt = usersStagingStatement (schemaIdentifier sf) stagingTableName
                          (Join firstValProps '','') (usersTable env) (stagingTable resp)
                          (Join userColNames '','') (Join identifyColNames '','');
          staged = [Logw ''creating staging table for users''
                      [(FieldTableName, ''users''), (FieldStagingTableName, stagingTableName),
                       (FieldQuery, stagingStmt)],
                    Executed stagingStmt]
      in case ExecContext env stagingStmt of
           Some err \<Rightarrow>
             ([identifiesTable env \<mapsto> None,
               usersTable env \<mapsto> Some (Wrapf ''creating staging table for users: '' err)],
              staged @ [Logw ''failure creating staging table for users''
                          [(FieldTableName, ''users''), (FieldError, Error err)]])
         | None \<Rightarrow>
       (let primaryKey = [dquote] @ ''ID'' @ [dquote];
            columnNames = ([dquote] @ ''ID'' @ [dquote]) # userColNames;
            columnNamesStr = Join columnNames '','';
            columnsWithValues =
              Join (map (\<lambda>colName. ''original.'' @ colName @ '' = staging.'' @ colName)
                      columnNames) '','';
            stagingColumnValues = Join (map (\<lambda>colName. ''staging.'' @ colName) columnNames) '','';
            mergeStmt = usersMergeStatement (usersTable env) stagingTableName columnNamesStr
                          primaryKey columnsWithValues stagingColumnValues (schemaIdentifier sf);
            merged = staged @
              [Logw ''deduplication'' [(FieldTableName, ''users''), (FieldQuery, mergeStmt)],
               Executed mergeStmt]
        in case QueryRowContext env mergeStmt of
             (Some rowErr, scan) \<Rightarrow>
               ([identifiesTable env \<mapsto> None,
                 usersTable env \<mapsto> Some (Wrapf ''running deduplication: '' rowErr)],
                merged @ [Logw ''failure running deduplication''
                            [(FieldTableName, ''users''), (FieldQuery, mergeStmt),
                             (FieldError, Error rowErr)]])
           | (None, Inl err) \<Rightarrow>
               ([identifiesTable env \<mapsto> None,
                 usersTable env \<mapsto> Some (Wrapf ''getting rows affected for dedup: '' err)],
                merged @ [Logw ''getting rows affected for dedup''
                            [(FieldTableName, ''users''), (FieldQuery, mergeStmt),
                             (FieldError, Error err)]])
           | (None, Inr (inserted, updated)) \<Rightarrow>
               ([identifiesTable env \<mapsto> None, usersTable env \<mapsto> None],
                merged @ [Counted ''dedup_rows'' ''users'' updated,
                          Logw ''completed loading for users and identifies tables'' []])))"

text \<open>
  \<^verbatim>\<open>loadUserTables\<close>: it loads the identifies table with
  \<^verbatim>\<open>skipClosingDBSession = true\<close>; when that fails it returns at once; otherwise it
  registers the deferred \<^verbatim>\<open>resp.db.Close()\<close> and goes on. The table tag of its log
  calls is \<^verbatim>\<open>warehouseutils.UsersTable\<close>, written \<open>''users''\<close> here.
\<close>

definition loadUserTables ::
  "env \<Rightarrow> snowflake \<Rightarrow> (string \<rightharpoonup> go_error option) outcome \<times> event list" where
  "loadUserTables env sf =
     (let identifiesSchema = GetTableSchemaInUpload env (identifiesTable env);
          usersSchema = GetTableSchemaInUpload env (usersTable env);
          started = Logw ''started loading for identifies and users tables'' []
      in case loadTable env sf (identifiesTable env) identifiesSchema True of
           (Panics msg, events) \<Rightarrow> (Panics msg, started # events)
         | (Returns (Inl err), events) \<Rightarrow>
             (Returns [identifiesTable env \<mapsto>
                         Some (Wrapf (''loading table '' @ identifiesTable env @ '': '') err)],
              started # events)
         | (Returns (Inr resp), events) \<Rightarrow>
             if length usersSchema = 0 then
               (Returns [identifiesTable env \<mapsto> None], started # events @ [Closed])
             else
               (case loadUsers env sf identifiesSchema resp of
                  (result, later) \<Rightarrow> (Returns result, started # events @ later @ [Closed])))"

subsection \<open>Schema reconciliation on the driver's shared connection\<close>

text \<open>
  \<^verbatim>\<open>sf.DB\<close> over a backend in state \<open>'db\<close>: \<^verbatim>\<open>ExecContext\<close> answers with an error or
  nil and leaves the backend in a new state; \<^verbatim>\<open>QueryRowContext(...).Scan(&exists)\<close>
  answers with an error or a boolean and changes nothing.
\<close>

record 'db handle =
  execContext :: "'db \<Rightarrow> string \<Rightarrow> go_error option \<times> 'db"
  scanExists :: "'db \<Rightarrow> string \<Rightarrow> go_error + bool"

text \<open>\<^verbatim>\<open>errors.Is\<close>: the error itself or one it wraps.\<close>

fun errorsIs :: "go_error \<Rightarrow> go_error \<Rightarrow> bool" where
  "errorsIs (Wrapf p e) target = (Wrapf p e = target \<or> errorsIs e target)"
| "errorsIs e target = (e = target)"

definition schemaExistsQuery :: "snowflake \<Rightarrow> string" where
  "schemaExistsQuery sf =
     concat [''SELECT EXISTS ( SELECT 1 FROM INFORMATION_SCHEMA.SCHEMATA WHERE SCHEMA_NAME = '',
             [squote], Namespace sf, [squote], '' )'']"

definition schemaExists :: "'db handle \<Rightarrow> snowflake \<Rightarrow> 'db \<Rightarrow> bool \<times> go_error option" where
  "schemaExists h sf d =
     (case scanExists h d (schemaExistsQuery sf) of
        Inr exists \<Rightarrow> (exists, None)
      | Inl err \<Rightarrow> if err = ErrNoRows then (False, None) else (False, Some err))"

definition createSchemaStatement :: "snowflake \<Rightarrow> string" where
  "createSchemaStatement sf = concat [''CREATE SCHEMA IF NOT EXISTS '', schemaIdentifier sf]"

definition createSchema ::
  "'db handle \<Rightarrow> snowflake \<Rightarrow> 'db \<Rightarrow> go_error option \<times> 'db \<times> event list" where
  "createSchema h sf d =
     (let sqlStatement = createSchemaStatement sf
      in case execContext h d sqlStatement of
           (err, d') \<Rightarrow>
             (err, d',
              [Logged (''SF: Creating schema name in snowflake for '' @ Namespace sf @ '':''
                        @ DestinationID sf @ '' : '' @ sqlStatement),
               Executed sqlStatement]))"

definition CreateSchema ::
  "'db handle \<Rightarrow> snowflake \<Rightarrow> 'db \<Rightarrow> go_error option \<times> 'db \<times> event list" where
  "CreateSchema h sf d =
     (case schemaExists h sf d of
        (exists, Some err) \<Rightarrow>
          (Some err, d,
           [Logged (''SF: Error checking if schema: '' @ schemaIdentifier sf @ '' exists: ''
                     @ Error err)])
      | (True, None) \<Rightarrow>
          (None, d,
           [Logged (''SF: Skipping creating schema: '' @ schemaIdentifier sf
                     @ '' since it already exists'')])
      | (False, None) \<Rightarrow> createSchema h sf d)"

text \<open>
  \<^verbatim>\<open>ColumnsWithDataTypes\<close>: the columns of the schema in the iteration order of this
  run, each as \<^verbatim>\<open>"<prefix><name>" <type>\<close>.
\<close>

definition ColumnsWithDataTypes :: "(string \<Rightarrow> string) \<Rightarrow> TableSchema \<Rightarrow> string \<Rightarrow> string" where
  "ColumnsWithDataTypes dataTypesMap columns prefix =
     Join (map (\<lambda>(name, dataType).
                  concat [[dquote], prefix, name, [dquote], '' '', dataTypesMap dataType])
             columns) '',''"

definition createTableStatement ::
  "(string \<Rightarrow> string) \<Rightarrow> snowflake \<Rightarrow> string \<Rightarrow> TableSchema \<Rightarrow> string" where
  "createTableStatement dataTypesMap sf tableName columns =
      concat
       [''CREATE TABLE IF NOT EXISTS '', schemaIdentifier sf, ''.'', quoted tableName, '' ( '',
          ColumnsWithDataTypes dataTypesMap columns '''', '' )'']"

definition createTable ::
  "(string \<Rightarrow> string) \<Rightarrow> 'db handle \<Rightarrow> snowflake \<Rightarrow> string \<Rightarrow> TableSchema \<Rightarrow> 'db
     \<Rightarrow> go_error option \<times> 'db \<times> event list" where
  "createTable dataTypesMap h sf tableName columns d =
     (let sqlStatement = createTableStatement dataTypesMap sf tableName columns
      in case execContext h d sqlStatement of
           (err, d') \<Rightarrow>
             (err, d',
              [Logged (''Creating table in snowflake for SF:'' @ DestinationID sf @ '' : ''
                        @ sqlStatement),
               Executed sqlStatement]))"

definition CreateTable ::
  "(string \<Rightarrow> string) \<Rightarrow> 'db handle \<Rightarrow> snowflake \<Rightarrow> string \<Rightarrow> TableSchema \<Rightarrow> 'db
     \<Rightarrow> go_error option \<times> 'db \<times> event list" where
  "CreateTable dataTypesMap h sf tableName columnMap d =
     createTable dataTypesMap h sf tableName columnMap d"

text \<open>
  What idempotence asks of the backend, in the words of the statements the driver
  sends. After \<^verbatim>\<open>CREATE SCHEMA IF NOT EXISTS\<close> succeeded for a namespace, the existence
  query for that namespace answers true. After a \<^verbatim>\<open>CREATE TABLE IF NOT EXISTS\<close> for a
  qualified table name succeeded, a further \<^verbatim>\<open>CREATE TABLE IF NOT EXISTS\<close> for the same
  name (whatever its column list) gives no error and changes nothing.
\<close>

definition createdSchemaExists :: "'db handle \<Rightarrow> snowflake \<Rightarrow> bool" where
  "createdSchemaExists h sf =
     (\<forall>d d'. execContext h d (createSchemaStatement sf) = (None, d')
               \<longrightarrow> scanExists h d' (schemaExistsQuery sf) = Inr True)"

definition createTableHead :: "snowflake \<Rightarrow> string \<Rightarrow> string" where
  "createTableHead sf tableName =
     concat [''CREATE TABLE IF NOT EXISTS '', schemaIdentifier sf, ''.'', quoted tableName, '' ( '']"

definition ifNotExistsIsNoOp :: "'db handle \<Rightarrow> snowflake \<Rightarrow> string \<Rightarrow> bool" where
  "ifNotExistsIsNoOp h sf tableName =
     (\<forall>d d' rest rest'.
        execContext h d (createTableHead sf tableName @ rest) = (None, d')
          \<longrightarrow> execContext h d' (createTableHead sf tableName @ rest') = (None, d'))"

subsection \<open>FetchSchema\<close>

text \<open>
  What \<^verbatim>\<open>FetchSchema\<close> takes from other files: \<^verbatim>\<open>calculateDataType\<close> (the mapping of
  a raw column type and its numeric scale to an abstract type, with its \<^verbatim>\<open>ok\<close> flag as
  \<open>option\<close>), the sentinel \<^verbatim>\<open>warehouseutils.MissingDatatype\<close> and the counter name
  \<^verbatim>\<open>warehouseutils.RudderMissingDatatype\<close>.
\<close>

record typing =
  calculateDataType :: "string \<Rightarrow> int option \<Rightarrow> string option"
  MissingDatatype :: string
  RudderMissingDatatype :: string

text \<open>\<^verbatim>\<open>model.Schema\<close>: table name to column name to type.\<close>

type_synonym Schema = "string \<rightharpoonup> (string \<rightharpoonup> string)"

text \<open>
  A row of the catalog query as \<^verbatim>\<open>rows.Scan\<close> gives it: an error, or the table name,
  the column name, the raw type and the numeric scale (a \<^verbatim>\<open>sql.NullInt64\<close>).
\<close>

type_synonym catalogRow = "go_error + (string \<times> string \<times> string \<times> int option)"

text \<open>\<^verbatim>\<open>schema[tableName][columnName] = datatype\<close> on a table that has its inner map.\<close>

definition setColumn :: "Schema \<Rightarrow> string \<Rightarrow> string \<Rightarrow> string \<Rightarrow> Schema" where
  "setColumn schema tableName columnName datatype =
     schema(tableName \<mapsto>
       (case schema tableName of None \<Rightarrow> Map.empty | Some columns \<Rightarrow> columns)
         (columnName \<mapsto> datatype))"

text \<open>\<^verbatim>\<open>if _, ok := schema[tableName]; !ok { schema[tableName] = make(...) }\<close>.\<close>

definition ensureTable :: "Schema \<Rightarrow> string \<Rightarrow> Schema" where
  "ensureTable schema tableName =
     (case schema tableName of None \<Rightarrow> schema(tableName \<mapsto> Map.empty) | Some columns \<Rightarrow> schema)"

text \<open>
  The loop over the rows. It stops at the first row that does not scan; the counters
  incremented until then stay incremented.
\<close>

fun fetchRows ::
  "typing \<Rightarrow> catalogRow list \<Rightarrow> Schema \<Rightarrow> Schema \<Rightarrow> event list
     \<Rightarrow> (go_error + Schema \<times> Schema) \<times> event list" where
  "fetchRows ty [] schema unrecognizedSchema events = (Inr (schema, unrecognizedSchema), events)"
| "fetchRows ty (Inl err # rest) schema unrecognizedSchema events =
     (Inl (Wrapf ''scanning schema: '' err), events)"
| "fetchRows ty (Inr (tableName, columnName, columnType, numericScale) # rest)
       schema unrecognizedSchema events =
     (case calculateDataType ty columnType numericScale of
        Some datatype \<Rightarrow>
          fetchRows ty rest (setColumn (ensureTable schema tableName) tableName columnName datatype)
            unrecognizedSchema events
      | None \<Rightarrow>
          fetchRows ty rest (ensureTable schema tableName)
            (setColumn (ensureTable unrecognizedSchema tableName) tableName columnName
               (MissingDatatype ty))
            (events @ [Counted (RudderMissingDatatype ty) columnType 1]))"

text \<open>
  \<^verbatim>\<open>FetchSchema\<close>. \<open>query\<close> is what \<^verbatim>\<open>QueryContext\<close> gives: an error, or the rows
  that \<^verbatim>\<open>rows.Next\<close> delivers and the final \<^verbatim>\<open>rows.Err()\<close>.
\<close>

definition FetchSchema ::
  "typing \<Rightarrow> go_error + (catalogRow list \<times> go_error option)
     \<Rightarrow> (go_error + Schema \<times> Schema) \<times> event list" where
  "FetchSchema ty query =
     (case query of
        Inl err \<Rightarrow>
          if errorsIs err ErrNoRows then (Inr (Map.empty, Map.empty), [])
          else (Inl (Wrapf ''fetching schema: '' err), [])
      | Inr (rows, rowsErr) \<Rightarrow>
          (case fetchRows ty rows Map.empty Map.empty [] of
             (Inl err, events) \<Rightarrow> (Inl err, events)
           | (Inr schemas, events) \<Rightarrow>
               (case rowsErr of
                  Some err \<Rightarrow> (Inl (Wrapf ''fetching schema: '' err), events)
                | None \<Rightarrow> (Inr schemas, events))))"

text \<open>The type that a schema gives the column of a table, when it gives one.\<close>

definition typeOfColumn :: "Schema \<Rightarrow> string \<Rightarrow> string \<Rightarrow> string option" where
  "typeOfColumn schema tableName columnName =
     (case schema tableName of None \<Rightarrow> None | Some columns \<Rightarrow> columns columnName)"

subsection \<open>The MERGE statements as values\<close>

text \<open>
  The parts of a MERGE of this file that decide what it does: the columns of
  \<^verbatim>\<open>PARTITION BY\<close>, the column and the direction of \<^verbatim>\<open>ORDER BY\<close>, the row number
  \<open>n\<close> of \<^verbatim>\<open>WHERE _rudder_staging_row_number = n\<close>, the columns \<open>c\<close> of the join
  condition \<^verbatim>\<open>original.c = staging.c AND ...\<close>, the columns of
  \<^verbatim>\<open>INSERT (...) VALUES (staging. ...)\<close> and the assignments of \<^verbatim>\<open>UPDATE SET\<close>, each
  \<^verbatim>\<open>original.c = staging.c'\<close> or \<^verbatim>\<open>original.c = original.c'\<close>.
\<close>

datatype source_expr = Staging string | Original string

datatype direction = Asc | Desc

record merge_stmt =
  partitionBy :: "string list"
  orderBy :: string
  direction :: direction
  rowNumber :: nat
  onColumns :: "string list"
  insertColumns :: "string list"
  updateSet :: "(string \<times> source_expr) list"













subsection \<open>Reading a statement\<close>

text \<open>
  What the backend makes of the text it is sent, for the statements of the shapes that
  this file sends. The text is cut into tokens: a word (a run of letters, digits and
  underscores: a keyword, an identifier without quotes, a number), an identifier between
  double quotes, or any other character by itself; blanks, tabs and line ends separate
  tokens and are dropped. A double quote that is not closed is left as a character, which
  no reader below accepts.
\<close>

datatype token = Word string | Ident string | Sym char

definition isBlank :: "char \<Rightarrow> bool" where
  "isBlank c = (c = CHR '' '' \<or> c = CHR 0x09 \<or> c = CHR 0x0A \<or> c = CHR 0x0D)"

definition isWordChar :: "char \<Rightarrow> bool" where
  "isWordChar c =
     (let n = of_char c :: nat
      in (48 \<le> n \<and> n \<le> 57) \<or> (65 \<le> n \<and> n \<le> 90) \<or> (97 \<le> n \<and> n \<le> 122) \<or> n = 95)"

function tokenize :: "string \<Rightarrow> token list" where
  "tokenize [] = []"
| "tokenize (c # cs) =
     (if isBlank c then tokenize cs
      else if c = dquote then
        (case dropWhile (\<lambda>x. x \<noteq> dquote) cs of
           [] \<Rightarrow> [Sym c]
         | closing # rest \<Rightarrow> Ident (takeWhile (\<lambda>x. x \<noteq> dquote) cs) # tokenize rest)
      else if isWordChar c then
        Word (c # takeWhile isWordChar cs) # tokenize (dropWhile isWordChar cs)
      else Sym c # tokenize cs)"
  by pat_completeness auto
termination
proof (relation "measure length")
  fix c cs closing rest
  assume "dropWhile (\<lambda>x. x \<noteq> dquote) cs = closing # rest"
  then have "length (closing # rest) \<le> length cs"
    using length_dropWhile_le[of "\<lambda>x. x \<noteq> dquote" cs] by simp
  then show "(rest, c # cs) \<in> measure length" by simp
next
  fix c :: char and cs :: string
  show "(dropWhile isWordChar cs, c # cs) \<in> measure length"
    using length_dropWhile_le[of isWordChar cs] by simp
qed simp_all

text \<open>
  An identifier without quotes names the column of that name in upper case; a word of
  digits is a number.
\<close>

definition upperCase :: "char \<Rightarrow> char" where
  "upperCase c =
     (let n = of_char c :: nat in if 97 \<le> n \<and> n \<le> 122 then char_of (n - 32) else c)"

fun digitsValue :: "nat \<Rightarrow> string \<Rightarrow> nat option" where
  "digitsValue acc [] = Some acc"
| "digitsValue acc (c # cs) =
     (let n = of_char c :: nat
      in if 48 \<le> n \<and> n \<le> 57 then digitsValue (10 * acc + (n - 48)) cs else None)"

text \<open>
  The readers take tokens from the left and give what they read with the tokens that are
  left, or \<open>None\<close>. \<open>expect\<close> takes the given tokens; \<open>qualifiedName\<close> takes
  \<^verbatim>\<open>"schema"."table"\<close>; \<open>columnOf alias\<close> takes \<^verbatim>\<open>alias."column"\<close>;
  \<open>assignmentItem\<close> takes \<^verbatim>\<open>original."c" = staging."c'"\<close> or
  \<^verbatim>\<open>original."c" = original."c'"\<close>; \<open>conditionItem\<close> takes a join condition
  \<^verbatim>\<open>original."c" = staging."c"\<close> on one column.
\<close>

fun expect :: "token list \<Rightarrow> token list \<Rightarrow> token list option" where
  "expect [] ts = Some ts"
| "expect (p # ps) [] = None"
| "expect (p # ps) (t # ts) = (if p = t then expect ps ts else None)"

fun qualifiedName :: "token list \<Rightarrow> ((string \<times> string) \<times> token list) option" where
  "qualifiedName (Ident s # Sym d # Ident t # ts) =
     (if d = CHR ''.'' then Some ((s, t), ts) else None)"
| "qualifiedName ts = None"

fun orderColumn :: "token list \<Rightarrow> (string \<times> token list) option" where
  "orderColumn (Ident c # ts) = Some (c, ts)"
| "orderColumn (Word w # ts) = Some (map upperCase w, ts)"
| "orderColumn ts = None"

fun directionWord :: "token list \<Rightarrow> (direction \<times> token list) option" where
  "directionWord (Word w # ts) =
     (if w = ''DESC'' then Some (Desc, ts) else if w = ''ASC'' then Some (Asc, ts) else None)"
| "directionWord ts = None"

fun number :: "token list \<Rightarrow> (nat \<times> token list) option" where
  "number (Word w # ts) = map_option (\<lambda>n. (n, ts)) (digitsValue 0 w)"
| "number ts = None"

fun identItem :: "token list \<Rightarrow> (string \<times> token list) option" where
  "identItem (Ident c # ts) = Some (c, ts)"
| "identItem ts = None"

fun columnOf :: "string \<Rightarrow> token list \<Rightarrow> (string \<times> token list) option" where
  "columnOf alias (Word w # Sym d # Ident c # ts) =
     (if w = alias \<and> d = CHR ''.'' then Some (c, ts) else None)"
| "columnOf alias ts = None"

definition assignmentItem :: "token list \<Rightarrow> ((string \<times> source_expr) \<times> token list) option" where
  "assignmentItem ts =
     (case columnOf ''original'' ts of
        None \<Rightarrow> None
      | Some (c, ts1) \<Rightarrow>
          (case expect [Sym CHR ''=''] ts1 of
             None \<Rightarrow> None
           | Some ts2 \<Rightarrow>
               (case columnOf ''staging'' ts2 of
                  Some (c', ts3) \<Rightarrow> Some ((c, Staging c'), ts3)
                | None \<Rightarrow>
                    (case columnOf ''original'' ts2 of
                       Some (c', ts3) \<Rightarrow> Some ((c, Original c'), ts3)
                     | None \<Rightarrow> None))))"

definition conditionItem :: "token list \<Rightarrow> (string \<times> token list) option" where
  "conditionItem ts =
     (case assignmentItem ts of
        Some ((c, Staging c'), rest) \<Rightarrow> if c = c' then Some (c, rest) else None
      | _ \<Rightarrow> None)"

text \<open>
  One or more items with a separator between them: after a separator another item has
  to follow. (The comparison of lengths holds for every reader that takes tokens from
  the left; it is there for the recursion.)
\<close>

function items ::
  "(token list \<Rightarrow> ('a \<times> token list) option) \<Rightarrow> token \<Rightarrow> token list
     \<Rightarrow> ('a list \<times> token list) option" where
  "items item sep ts =
     (case item ts of
        None \<Rightarrow> None
      | Some (x, rest) \<Rightarrow>
          (case rest of
             [] \<Rightarrow> Some ([x], [])
           | t # rest' \<Rightarrow>
               if t = sep \<and> length rest' < length ts
               then (case items item sep rest' of
                       None \<Rightarrow> None
                     | Some (xs, r) \<Rightarrow> Some (x # xs, r))
               else Some ([x], rest)))"
  by pat_completeness auto
termination
  by (relation "measure (\<lambda>(item, sep, ts). length ts)") auto

declare items.simps [simp del]

text \<open>
  The two clauses of a MERGE of this file, in either order:
  \<^verbatim>\<open>WHEN NOT MATCHED THEN INSERT (columns) VALUES (staging.columns)\<close> with the same
  columns on both sides, and \<^verbatim>\<open>WHEN MATCHED THEN UPDATE SET assignments\<close>.
\<close>

definition notMatchedClause :: "token list \<Rightarrow> (string list \<times> token list) option" where
  "notMatchedClause ts =
     (case expect (tokenize ''WHEN NOT MATCHED THEN INSERT ('') ts of
        None \<Rightarrow> None
      | Some ts1 \<Rightarrow>
     (case items identItem (Sym CHR '','') ts1 of
        None \<Rightarrow> None
      | Some (columns, ts2) \<Rightarrow>
     (case expect (tokenize '') VALUES ('') ts2 of
        None \<Rightarrow> None
      | Some ts3 \<Rightarrow>
     (case items (columnOf ''staging'') (Sym CHR '','') ts3 of
        None \<Rightarrow> None
      | Some (sources, ts4) \<Rightarrow>
     (case expect [Sym CHR '')''] ts4 of
        None \<Rightarrow> None
      | Some ts5 \<Rightarrow> if columns = sources then Some (columns, ts5) else None)))))"

definition matchedClause ::
  "token list \<Rightarrow> ((string \<times> source_expr) list \<times> token list) option" where
  "matchedClause ts =
     (case expect (tokenize ''WHEN MATCHED THEN UPDATE SET'') ts of
        None \<Rightarrow> None
      | Some ts1 \<Rightarrow> items assignmentItem (Sym CHR '','') ts1)"

definition whenClauses ::
  "token list \<Rightarrow> ((string list \<times> (string \<times> source_expr) list) \<times> token list) option" where
  "whenClauses ts =
     (case notMatchedClause ts of
        Some (columns, ts1) \<Rightarrow>
          (case matchedClause ts1 of
             Some (assignments, ts2) \<Rightarrow> Some ((columns, assignments), ts2)
           | None \<Rightarrow> None)
      | None \<Rightarrow>
          (case matchedClause ts of
             Some (assignments, ts1) \<Rightarrow>
               (case notMatchedClause ts1 of
                  Some (columns, ts2) \<Rightarrow> Some ((columns, assignments), ts2)
                | None \<Rightarrow> None)
           | None \<Rightarrow> None))"

text \<open>
  A MERGE as it is read: the table merged into, the table merged from, and the parts of
  the statement. The reader takes
  \<^verbatim>\<open>MERGE INTO target AS original USING (SELECT * FROM (SELECT *, row_number() OVER
  (PARTITION BY columns ORDER BY column direction) AS _rudder_staging_row_number FROM
  staging) AS q WHERE _rudder_staging_row_number = n) AS staging ON (conditions)\<close>, the
  two clauses, and a semicolon or nothing; the layout of the text does not count. A text
  of another shape is not read.
\<close>

record merge_query =
  targetTable :: "string \<times> string"
  sourceTable :: "string \<times> string"
  statementParts :: merge_stmt

definition readMerge :: "sql \<Rightarrow> merge_query option" where
  "readMerge query =
     (case expect (tokenize ''MERGE INTO'') (tokenize query) of
        None \<Rightarrow> None
      | Some ts1 \<Rightarrow>
     (case qualifiedName ts1 of
        None \<Rightarrow> None
      | Some (target, ts2) \<Rightarrow>
     (case expect (tokenize
             ''AS original USING ( SELECT * FROM ( SELECT *, row_number() OVER ( PARTITION BY'') ts2 of
        None \<Rightarrow> None
      | Some ts3 \<Rightarrow>
     (case items identItem (Sym CHR '','') ts3 of
        None \<Rightarrow> None
      | Some (keyColumns, ts4) \<Rightarrow>
     (case expect (tokenize ''ORDER BY'') ts4 of
        None \<Rightarrow> None
      | Some ts5 \<Rightarrow>
     (case orderColumn ts5 of
        None \<Rightarrow> None
      | Some (column, ts6) \<Rightarrow>
     (case directionWord ts6 of
        None \<Rightarrow> None
      | Some (dir, ts7) \<Rightarrow>
     (case expect (tokenize '') AS _rudder_staging_row_number FROM'') ts7 of
        None \<Rightarrow> None
      | Some ts8 \<Rightarrow>
     (case qualifiedName ts8 of
        None \<Rightarrow> None
      | Some (staging, ts9) \<Rightarrow>
     (case expect (tokenize '') AS q WHERE _rudder_staging_row_number ='') ts9 of
        None \<Rightarrow> None
      | Some ts10 \<Rightarrow>
     (case number ts10 of
        None \<Rightarrow> None
      | Some (n, ts11) \<Rightarrow>
     (case expect (tokenize '') AS staging ON ('') ts11 of
        None \<Rightarrow> None
      | Some ts12 \<Rightarrow>
     (case items conditionItem (Word ''AND'') ts12 of
        None \<Rightarrow> None
      | Some (conditions, ts13) \<Rightarrow>
     (case expect [Sym CHR '')''] ts13 of
        None \<Rightarrow> None
      | Some ts14 \<Rightarrow>
     (case whenClauses ts14 of
        None \<Rightarrow> None
      | Some ((columns, assignments), ts15) \<Rightarrow>
          if ts15 = [] \<or> ts15 = [Sym CHR '';'']
          then Some \<lparr>targetTable = target, sourceTable = staging,
                     statementParts = \<lparr>partitionBy = keyColumns, orderBy = column, direction = dir,
                                  rowNumber = n, onColumns = conditions,
                                  insertColumns = columns, updateSet = assignments\<rparr>\<rparr>
          else None)))))))))))))))"

text \<open>
  \<^verbatim>\<open>ALTER TABLE table ADD COLUMN "column" ...\<close>: the table, the column, and the tokens
  of what is said of the column. \<^verbatim>\<open>COPY INTO table(columns) FROM ...\<close>: the table
  copied into and its columns; the rest of the statement is not looked at.
\<close>

definition readAddColumn :: "sql \<Rightarrow> ((string \<times> string) \<times> string \<times> token list) option" where
  "readAddColumn query =
     (case expect (tokenize ''ALTER TABLE'') (tokenize query) of
        None \<Rightarrow> None
      | Some ts1 \<Rightarrow>
     (case qualifiedName ts1 of
        None \<Rightarrow> None
      | Some (table, ts2) \<Rightarrow>
     (case expect (tokenize ''ADD COLUMN'') ts2 of
        None \<Rightarrow> None
      | Some ts3 \<Rightarrow>
     (case identItem ts3 of
        None \<Rightarrow> None
      | Some (column, ts4) \<Rightarrow> Some (table, column, ts4)))))"

definition readCopyInto :: "sql \<Rightarrow> ((string \<times> string) \<times> string list) option" where
  "readCopyInto query =
     (case expect (tokenize ''COPY INTO'') (tokenize query) of
        None \<Rightarrow> None
      | Some ts1 \<Rightarrow>
     (case qualifiedName ts1 of
        None \<Rightarrow> None
      | Some (table, ts2) \<Rightarrow>
     (case expect [Sym CHR ''(''] ts2 of
        None \<Rightarrow> None
      | Some ts3 \<Rightarrow>
     (case items identItem (Sym CHR '','') ts3 of
        None \<Rightarrow> None
      | Some (columns, ts4) \<Rightarrow>
     (case expect (tokenize '') FROM'') ts4 of
        None \<Rightarrow> None
      | Some ts5 \<Rightarrow> Some (table, columns))))))"

text \<open>
  A name of ASCII characters that \<^verbatim>\<open>%q\<close> writes between the quotes as it is: no
  byte of it is escaped. The text of such a name is read back as the name.
  \<open>separated\<close> puts a separator between the items of a list.
\<close>

definition plainName :: "string \<Rightarrow> bool" where
  "plainName n = list_all (\<lambda>c. quoteByte c = [c] \<and> of_char c < (128 :: nat)) n"

fun separated :: "'a list list \<Rightarrow> 'a \<Rightarrow> 'a list" where
  "separated [] s = []"
| "separated [x] s = x"
| "separated (x # y # zs) s = x @ s # separated (y # zs) s"

subsection \<open>What a MERGE does to the tables\<close>

text \<open>
  A row gives each column its value, \<open>None\<close> for NULL (and for a column the table does
  not have); a table is the list of its rows, in the order in which they were put in.
  The values are of any linearly ordered type.
\<close>

type_synonym 'v row = "string \<rightharpoonup> 'v"

type_synonym 'v table = "'v row list"

text \<open>SQL equality in a join condition: true only for two equal values that are not NULL.\<close>

definition sqlEq :: "'v option \<Rightarrow> 'v option \<Rightarrow> bool" where
  "sqlEq a b = (case a of None \<Rightarrow> False | Some x \<Rightarrow> (case b of None \<Rightarrow> False | Some y \<Rightarrow> x = y))"

definition joined :: "string list \<Rightarrow> 'v row \<Rightarrow> 'v row \<Rightarrow> bool" where
  "joined columns original staging = list_all (\<lambda>c. sqlEq (original c) (staging c)) columns"

text \<open>\<^verbatim>\<open>PARTITION BY\<close> puts two rows together when they agree on the columns, NULL included.\<close>

definition samePartition :: "string list \<Rightarrow> 'v row \<Rightarrow> 'v row \<Rightarrow> bool" where
  "samePartition columns r r' = (map r columns = map r' columns)"

text \<open>
  \<open>precedes c r r'\<close>: the row \<open>r\<close> comes strictly before \<open>r'\<close> in \<^verbatim>\<open>ORDER BY c DESC\<close>.
  Snowflake orders NULL above every value, so in a descending order NULL comes first.
  \<^verbatim>\<open>ORDER BY c ASC\<close> is the same order read from the other end.
\<close>

definition precedes :: "string \<Rightarrow> ('v::linorder) row \<Rightarrow> 'v row \<Rightarrow> bool" where
  "precedes c r r' =
     (case r c of
        None \<Rightarrow> r' c \<noteq> None
      | Some x \<Rightarrow> (case r' c of None \<Rightarrow> False | Some y \<Rightarrow> y < x))"

fun comesBefore :: "direction \<Rightarrow> string \<Rightarrow> ('v::linorder) row \<Rightarrow> 'v row \<Rightarrow> bool" where
  "comesBefore Desc c r r' = precedes c r r'"
| "comesBefore Asc c r r' = precedes c r' r"

text \<open>
  The rows of a partition in the order of the statement: each row is put before the
  first row that it comes strictly before. Among rows that tie the statement leaves the
  order to the backend; here they stay in the order of the table.
\<close>

fun place :: "direction \<Rightarrow> string \<Rightarrow> ('v::linorder) row \<Rightarrow> 'v row list \<Rightarrow> 'v row list" where
  "place d c r [] = [r]"
| "place d c r (x # xs) = (if comesBefore d c r x then r # x # xs else x # place d c r xs)"

definition ordered :: "direction \<Rightarrow> string \<Rightarrow> ('v::linorder) row list \<Rightarrow> 'v row list" where
  "ordered d c rows = foldl (\<lambda>sorted r. place d c r sorted) [] rows"

text \<open>
  \<^verbatim>\<open>SELECT * FROM (SELECT *, row_number() OVER (PARTITION BY ... ORDER BY c direction)
  ...) WHERE _rudder_staging_row_number = n\<close>: of each partition the row that has the
  number \<open>n\<close> in the order, counted from 1, when the partition has that many rows.
\<close>

fun rowsOfNumber ::
  "nat \<Rightarrow> string list \<Rightarrow> direction \<Rightarrow> string \<Rightarrow> ('v::linorder) table \<Rightarrow> 'v table" where
  "rowsOfNumber n columns d c [] = []"
| "rowsOfNumber n columns d c (r # rs) =
     (if n = 0 then []
      else take 1 (drop (n - 1) (ordered d c (r # filter (samePartition columns r) rs))))
       @ rowsOfNumber n columns d c (filter (\<lambda>x. \<not> samePartition columns r x) rs)"

definition selectedRows :: "merge_stmt \<Rightarrow> ('v::linorder) table \<Rightarrow> 'v table" where
  "selectedRows m staged =
     rowsOfNumber (rowNumber m) (partitionBy m) (direction m) (orderBy m) staged"

text \<open>
  The row of number 1 in a descending order, by itself: among a row and the later rows
  of its partition, a later row takes the place only when it comes strictly before.
\<close>

fun firstOf :: "string \<Rightarrow> ('v::linorder) row \<Rightarrow> 'v row list \<Rightarrow> 'v row" where
  "firstOf c r [] = r"
| "firstOf c r (x # xs) = firstOf c (if precedes c x r then x else r) xs"

fun rowNumberOne :: "string list \<Rightarrow> string \<Rightarrow> ('v::linorder) table \<Rightarrow> 'v table" where
  "rowNumberOne columns c [] = []"
| "rowNumberOne columns c (r # rs) =
     firstOf c r (filter (samePartition columns r) rs)
       # rowNumberOne columns c (filter (\<lambda>x. \<not> samePartition columns r x) rs)"

text \<open>
  \<^verbatim>\<open>UPDATE SET\<close>: every right-hand side is read from the rows as they were; a column
  without an assignment keeps its value.
\<close>

fun valueOf :: "'v row \<Rightarrow> 'v row \<Rightarrow> source_expr \<Rightarrow> 'v option" where
  "valueOf original staging (Staging c) = staging c"
| "valueOf original staging (Original c) = original c"

definition updateRow :: "(string \<times> source_expr) list \<Rightarrow> 'v row \<Rightarrow> 'v row \<Rightarrow> 'v row" where
  "updateRow assignments original staging =
     (\<lambda>c. case map_of assignments c of
             None \<Rightarrow> original c
           | Some e \<Rightarrow> valueOf original staging e)"

text \<open>\<^verbatim>\<open>INSERT (columns) VALUES (staging.columns)\<close>: the other columns are NULL.\<close>

definition insertRow :: "string list \<Rightarrow> 'v row \<Rightarrow> 'v row" where
  "insertRow columns staging = (\<lambda>c. if c \<in> set columns then staging c else None)"

text \<open>
  The MERGE: each row of the target that a selected staged row joins is updated from it,
  each selected staged row that joins no row of the target is inserted. The result is
  the new target with the numbers of rows inserted and updated, which the statement
  reports.
\<close>

definition merge_into ::
  "merge_stmt \<Rightarrow> ('v::linorder) table \<Rightarrow> 'v table \<Rightarrow> 'v table \<times> nat \<times> nat" where
  "merge_into m target staged =
     (let selected = selectedRows m staged;
          updated = map (\<lambda>original.
                           case find (joined (onColumns m) original) selected of
                             None \<Rightarrow> original
                           | Some staging \<Rightarrow> updateRow (updateSet m) original staging) target;
          unmatched = filter (\<lambda>staging. \<not> list_ex (\<lambda>original.
                                 joined (onColumns m) original staging) target) selected
      in (updated @ map (insertRow (insertColumns m)) unmatched,
          length unmatched,
          length (filter (\<lambda>original. list_ex (joined (onColumns m) original) selected) target)))"

text \<open>
  What a statement sent as text does to the table it merges into, whose rows are
  \<open>target\<close>, when the rows of the table it merges from are \<open>staged\<close>: the statement is
  read, and what was read is carried out. \<open>valueAt\<close> reads a value of the table that
  results.
\<close>

definition runMerge ::
  "sql \<Rightarrow> ('v::linorder) table \<Rightarrow> 'v table \<Rightarrow> ('v table \<times> nat \<times> nat) option" where
  "runMerge query target staged =
     map_option (\<lambda>q. merge_into (statementParts q) target staged) (readMerge query)"

fun valueAt :: "('v table \<times> nat \<times> nat) option \<Rightarrow> nat \<Rightarrow> string \<Rightarrow> 'v option" where
  "valueAt None i c = None"
| "valueAt (Some (rows, inserted, updated)) i c = (if i < length rows then (rows ! i) c else None)"


subsection \<open>Redaction\<close>

text \<open>
  Modelled from the spec: \<^verbatim>\<open>misc.ReplaceMultiRegex\<close> is not in this file. Applied to
  the patterns \<^verbatim>\<open>KEY='[^']*'\<close> for \<^verbatim>\<open>AWS_KEY_ID\<close>, \<^verbatim>\<open>AWS_SECRET_KEY\<close> and
  \<^verbatim>\<open>AWS_TOKEN\<close> it replaces "a fixed set of key='...' patterns with a masked
  placeholder", \<^verbatim>\<open>KEY='***'\<close>. \<open>maskKey key n s\<close> reads \<open>s\<close> from the left; where
  \<^verbatim>\<open>key='\<close> is followed by a closing quote it writes the placeholder and passes over
  the \<open>n\<close> bytes of the match that are left.
\<close>

fun closingQuote :: "string \<Rightarrow> nat option" where
  "closingQuote [] = None"
| "closingQuote (c # cs) =
     (if c = squote then Some 0 else map_option Suc (closingQuote cs))"

definition assignmentStart :: "string \<Rightarrow> string" where
  "assignmentStart key = key @ ''='' @ [squote]"

fun maskKey :: "string \<Rightarrow> nat \<Rightarrow> string \<Rightarrow> string" where
  "maskKey key n [] = []"
| "maskKey key (Suc n) (c # cs) = maskKey key n cs"
| "maskKey key 0 (c # cs) =
     (if take (length (assignmentStart key)) (c # cs) = assignmentStart key then
        (case closingQuote (drop (length (assignmentStart key)) (c # cs)) of
           Some k \<Rightarrow>
             assignmentStart key @ ''***'' @ [squote] @ maskKey key (length (assignmentStart key) + k) cs
         | None \<Rightarrow> c # maskKey key 0 cs)
      else c # maskKey key 0 cs)"

definition maskSecrets :: "string \<Rightarrow> string" where
  "maskSecrets s =
     maskKey ''AWS_TOKEN'' 0 (maskKey ''AWS_SECRET_KEY'' 0 (maskKey ''AWS_KEY_ID'' 0 s))"

text \<open>\<open>occursIn sub s\<close>: the text \<open>sub\<close> is a part of \<open>s\<close>.\<close>

fun occursIn :: "string \<Rightarrow> string \<Rightarrow> bool" where
  "occursIn sub [] = (sub = [])"
| "occursIn sub (c # cs) = (take (length sub) (c # cs) = sub \<or> occursIn sub cs)"

text \<open>The texts that a call gave to the logger, the fields of a structured call included.\<close>

fun emitted :: "event \<Rightarrow> string list" where
  "emitted (Logged line) = [line]"
| "emitted (Logw message entries) = message # map snd entries"
| "emitted e = []"

definition emittedTexts :: "event list \<Rightarrow> string list" where
  "emittedTexts events = concat (map emitted events)"



text \<open>The statements that a call sent, in the order in which it sent them.\<close>

fun executed :: "event list \<Rightarrow> string list" where
  "executed [] = []"
| "executed (Executed statement # events) = statement # executed events"
| "executed (e # events) = executed events"

text \<open>
  The connections that a call opened and did not close: one more for each \<open>Opened\<close>,
  one less for each \<open>Closed\<close>.
\<close>

fun connectionsOpen :: "event list \<Rightarrow> int" where
  "connectionsOpen [] = 0"
| "connectionsOpen (Opened # events) = connectionsOpen events + 1"
| "connectionsOpen (Closed # events) = connectionsOpen events - 1"
| "connectionsOpen (e # events) = connectionsOpen events"

subsection \<open>Example values\<close>

text \<open>A driver set up for an AWS destination without a storage integration.\<close>

definition exampleDriver :: snowflake where
  "exampleDriver =
     \<lparr>Namespace = ''NS'', CloudProvider = ''AWS'', ObjectStorage = ''S3'',
      DestinationID = ''d1'', useRudderObjectStorage = False,
      storageIntegrationValue = '''',
      temporaryS3Cred = (''AKIAEXAMPLE'', ''s3cr3tValue'', ''t0kenValue'')\<rparr>"

definition columnExists :: go_error where
  "columnExists = SnowflakeError ''42601'' ''SQL compilation error: column already exists''"


text \<open>
  An environment in which every call succeeds, with the names of the tables in the case
  of the provider, the latest record preferred, and the merge reporting one updated row.
\<close>

definition exampleEnv :: env where
  "exampleEnv =
     \<lparr>usersTable = ''USERS'', identifiesTable = ''IDENTIFIES'',
      discardsTable = ''RUDDER_DISCARDS'',
      identityMergeRulesTable = ''RUDDER_IDENTITY_MERGE_RULES'',
      identityMappingsTable = ''RUDDER_IDENTITY_MAPPINGS'',
      DSN = None, sqlOpen = None, alterSession = None,
      ExecContext = (\<lambda>statement. None),
      QueryRowContext = (\<lambda>statement. (None, Inr (0, 1))),
      GetSampleLoadFileLocation = (\<lambda>tableName. Inr ''s3://bucket/load/file.csv.gz''),
      GetSingleLoadFile = (\<lambda>tableName. Inr ''s3://bucket/load/file.csv.gz''),
      ShouldOnDedupUseNewRecord = True,
      GetTableSchemaInUpload =
        (\<lambda>tableName. [(''V'', ''string''), (''ID'', ''string''), (''RECEIVED_AT'', ''datetime'')]),
      GetTableSchemaInWarehouse =
        (\<lambda>tableName. [(''V'', ''string''), (''ID'', ''string''), (''RECEIVED_AT'', ''datetime''),
                      (''W'', ''string'')]),
      StagingTableName = (\<lambda>tableName. ''RUDDER_STAGING_'' @ tableName),
      GetObjectFolder = (\<lambda>storage location. ''s3://bucket/load''),
      GetObjectLocation = (\<lambda>storage location. location),
      ReplaceMultiRegex = (\<lambda>statement. Inr (maskSecrets statement))\<rparr>"

text \<open>The same with the first record kept.\<close>

definition keepFirstEnv :: env where
  "keepFirstEnv = exampleEnv\<lparr>ShouldOnDedupUseNewRecord := False\<rparr>"

text \<open>
  Rows with integer values: a row of the target, which has a column \<open>W\<close> that the upload
  does not have, and staged rows for the same and for another key.
\<close>

definition storedRow :: "int row" where
  "storedRow = [''ID'' \<mapsto> 1, ''RECEIVED_AT'' \<mapsto> 10, ''V'' \<mapsto> 100, ''W'' \<mapsto> 7]"

definition earlyRow :: "int row" where
  "earlyRow = [''ID'' \<mapsto> 1, ''RECEIVED_AT'' \<mapsto> 20, ''V'' \<mapsto> 200]"

definition lateRow :: "int row" where
  "lateRow = [''ID'' \<mapsto> 1, ''RECEIVED_AT'' \<mapsto> 30, ''V'' \<mapsto> 300]"

definition otherRow :: "int row" where
  "otherRow = [''ID'' \<mapsto> 2, ''RECEIVED_AT'' \<mapsto> 5, ''V'' \<mapsto> 500]"


text \<open>
  An environment in which the ALTER that adds the surrogate key to the staging table of
  the identity mappings answers that the column exists already.
\<close>

definition rerunEnv :: env where
  "rerunEnv =
     exampleEnv\<lparr>ExecContext :=
       (\<lambda>statement.
          if statement = mappingsAlterStatement exampleDriver ''RUDDER_STAGING_RUDDER_IDENTITY_MAPPINGS''
          then Some columnExists else None)\<rparr>"

text \<open>Rows of the identity mappings: a stored one and two staged ones for the same property.\<close>

definition storedMapping :: "int row" where
  "storedMapping = [''MERGE_PROPERTY_TYPE'' \<mapsto> 1, ''MERGE_PROPERTY_VALUE'' \<mapsto> 42,
                    ''RUDDER_ID'' \<mapsto> 1000, ''UPDATED_AT'' \<mapsto> 5]"

definition firstMapping :: "int row" where
  "firstMapping = [''MERGE_PROPERTY_TYPE'' \<mapsto> 1, ''MERGE_PROPERTY_VALUE'' \<mapsto> 42,
                   ''RUDDER_ID'' \<mapsto> 2000, ''UPDATED_AT'' \<mapsto> 6, ''ID'' \<mapsto> 1]"

definition secondMapping :: "int row" where
  "secondMapping = [''MERGE_PROPERTY_TYPE'' \<mapsto> 1, ''MERGE_PROPERTY_VALUE'' \<mapsto> 42,
                    ''RUDDER_ID'' \<mapsto> 3000, ''UPDATED_AT'' \<mapsto> 7, ''ID'' \<mapsto> 2]"


text \<open>
  An environment in which the connection is opened and the creation of the temporary
  table fails.
\<close>

definition failingEnv :: env where
  "failingEnv =
     exampleEnv\<lparr>ExecContext := (\<lambda>statement. Some (PlainError ''Table does not exist''))\<rparr>"

text \<open>
  A backend whose state says whether the schema and the table are there. Every statement
  succeeds and leaves them there; the existence query answers with the state.
\<close>

definition toyHandle :: "bool handle" where
  "toyHandle = \<lparr>execContext = (\<lambda>d statement. (None, True)), scanExists = (\<lambda>d query. Inr d)\<rparr>"

text \<open>
  A type mapping that knows the raw type \<open>TEXT\<close> only, and a catalog with a column of
  that type and a column of a raw type that the mapping does not know.
\<close>

definition exampleTyping :: typing where
  "exampleTyping =
     \<lparr>calculateDataType = (\<lambda>columnType numericScale.
                              if columnType = ''TEXT'' then Some ''string'' else None),
      MissingDatatype = ''<missing_datatype>'',
      RudderMissingDatatype = ''warehouse_rudder_missing_datatype''\<rparr>"

definition exampleCatalog :: "(string \<times> string \<times> string \<times> int option) list" where
  "exampleCatalog = [(''TRACKS'', ''ID'', ''TEXT'', None), (''TRACKS'', ''SHAPE'', ''GEOGRAPHY'', None)]"


text \<open>The authentication clause with the three credentials masked.\<close>

definition maskedCredentials :: string where
  "maskedCredentials =
     concat [''CREDENTIALS = (AWS_KEY_ID='', [squote], ''***'', [squote],
             '' AWS_SECRET_KEY='', [squote], ''***'', [squote],
             '' AWS_TOKEN='', [squote], ''***'', [squote], '')'']"

section \<open>Properties\<close>

subsection \<open>The connection\<close>

lemma connect_succeeds [simp]:
  "DSN env = None \<Longrightarrow> sqlOpen env = None \<Longrightarrow> alterSession env = None \<Longrightarrow> connect env = None"
  by (simp add: connect_def)

subsection \<open>The selection of the row of number 1\<close>

lemma samePartition_refl: "samePartition cols r r"
  by (simp add: samePartition_def)

lemma samePartition_sym: "samePartition cols r r' \<Longrightarrow> samePartition cols r' r"
  by (simp add: samePartition_def)

lemma samePartition_trans:
  "samePartition cols r r' \<Longrightarrow> samePartition cols r' r'' \<Longrightarrow> samePartition cols r r''"
  by (simp add: samePartition_def)

lemma precedes_irrefl: "\<not> precedes c r r"
  by (simp add: precedes_def split: option.splits)

lemma precedes_trans: "precedes c r r' \<Longrightarrow> precedes c r' r'' \<Longrightarrow> precedes c r r''"
  by (auto simp: precedes_def split: option.splits)

lemma firstOf_mem: "firstOf c r xs \<in> set (r # xs)"
  by (induction xs arbitrary: r) (auto split: if_splits)

lemma firstOf_first:
  "(\<forall>y \<in> A. \<not> precedes c y r) \<Longrightarrow> y \<in> A \<union> set (r # xs) \<Longrightarrow> \<not> precedes c y (firstOf c r xs)"
proof (induction xs arbitrary: r A)
  case Nil
  then show ?case by (auto simp: precedes_irrefl)
next
  case (Cons x xs)
  show ?case
  proof (cases "precedes c x r")
    case True
    have "\<forall>z \<in> A \<union> {r}. \<not> precedes c z x"
      using Cons.prems(1) True precedes_trans precedes_irrefl by blast
    from Cons.IH[OF this] Cons.prems(2) True show ?thesis by auto
  next
    case False
    have "\<forall>z \<in> A \<union> {x}. \<not> precedes c z r"
      using Cons.prems(1) False by blast
    from Cons.IH[OF this] Cons.prems(2) False show ?thesis by auto
  qed
qed

lemma firstOf_none_before: "y \<in> set (r # xs) \<Longrightarrow> \<not> precedes c y (firstOf c r xs)"
  using firstOf_first[of "{}" c r y xs] by simp

lemma firstOf_samePartition:
  "\<forall>x \<in> set xs. samePartition cols r x \<Longrightarrow> samePartition cols r (firstOf c r xs)"
  using firstOf_mem[of c r xs] by (auto simp: samePartition_refl)

lemma rowNumberOne_subset: "set (rowNumberOne cols c xs) \<subseteq> set xs"
proof (induction cols c xs rule: rowNumberOne.induct)
  case (1 cols c)
  then show ?case by simp
next
  case (2 cols c r rs)
  have "firstOf c r (filter (samePartition cols r) rs) \<in> set (r # rs)"
    using firstOf_mem[of c r "filter (samePartition cols r) rs"] by auto
  with 2 show ?case by auto
qed

lemma rowNumberOne_covers:
  "r \<in> set xs \<Longrightarrow> \<exists>w \<in> set (rowNumberOne cols c xs). samePartition cols r w"
proof (induction cols c xs rule: rowNumberOne.induct)
  case (1 cols c)
  then show ?case by simp
next
  case (2 cols c x rs)
  let ?w = "firstOf c x (filter (samePartition cols x) rs)"
  have w: "samePartition cols x ?w"
    by (rule firstOf_samePartition) simp
  show ?case
  proof (cases "samePartition cols x r")
    case True
    then have "samePartition cols r ?w"
      using w samePartition_sym samePartition_trans by blast
    then show ?thesis by auto
  next
    case False
    with "2.prems" have "r \<in> set (filter (\<lambda>y. \<not> samePartition cols x y) rs)"
      by (auto simp: samePartition_refl)
    from "2.IH"[OF this] show ?thesis by auto
  qed
qed

lemma rowNumberOne_none_before:
  "w \<in> set (rowNumberOne cols c xs) \<Longrightarrow> r \<in> set xs \<Longrightarrow> samePartition cols w r
     \<Longrightarrow> \<not> precedes c r w"
proof (induction cols c xs rule: rowNumberOne.induct)
  case (1 cols c)
  then show ?case by simp
next
  case (2 cols c x rs)
  let ?same = "filter (samePartition cols x) rs"
  let ?rest = "filter (\<lambda>y. \<not> samePartition cols x y) rs"
  let ?w = "firstOf c x ?same"
  have wx: "samePartition cols x ?w"
    by (rule firstOf_samePartition) simp
  from "2.prems"(1) consider "w = ?w" | "w \<in> set (rowNumberOne cols c ?rest)" by auto
  then show ?case
  proof cases
    case 1
    then have "samePartition cols x r"
      using wx "2.prems"(3) samePartition_trans by blast
    then have "r \<in> set (x # ?same)" using "2.prems"(2) by auto
    then show ?thesis using firstOf_none_before 1 by blast
  next
    case 2
    then have "w \<in> set ?rest" using rowNumberOne_subset by blast
    then have nx: "\<not> samePartition cols x w" by simp
    have "\<not> samePartition cols x r"
      using nx "2.prems"(3) samePartition_sym samePartition_trans by blast
    then have "r \<in> set ?rest" using "2.prems"(2) by (auto simp: samePartition_refl)
    from "2.IH"[OF 2 this "2.prems"(3)] show ?thesis .
  qed
qed

lemma rowNumberOne_one_per_partition:
  "w \<in> set (rowNumberOne cols c xs) \<Longrightarrow> w' \<in> set (rowNumberOne cols c xs)
     \<Longrightarrow> samePartition cols w w' \<Longrightarrow> w = w'"
proof (induction cols c xs rule: rowNumberOne.induct)
  case (1 cols c)
  then show ?case by simp
next
  case (2 cols c x rs)
  let ?same = "filter (samePartition cols x) rs"
  let ?rest = "filter (\<lambda>y. \<not> samePartition cols x y) rs"
  let ?w = "firstOf c x ?same"
  have wx: "samePartition cols x ?w"
    by (rule firstOf_samePartition) simp
  have rest: "\<not> samePartition cols x v" if "v \<in> set (rowNumberOne cols c ?rest)" for v
    using that rowNumberOne_subset[of cols c ?rest] by auto
  have apart: "\<not> samePartition cols ?w v \<and> \<not> samePartition cols v ?w"
    if "v \<in> set (rowNumberOne cols c ?rest)" for v
    using rest[OF that] wx samePartition_sym samePartition_trans by blast
  from "2.prems"(1) "2.prems"(2) "2.prems"(3) apart "2.IH" show ?case by auto
qed

lemma rowNumberOne_latest:
  assumes "r \<in> set xs"
    and "\<forall>r' \<in> set xs. r' \<noteq> r \<and> samePartition cols r r' \<longrightarrow> precedes c r r'"
  shows "r \<in> set (rowNumberOne cols c xs)"
proof -
  from rowNumberOne_covers[OF assms(1)] obtain w
    where w: "w \<in> set (rowNumberOne cols c xs)" "samePartition cols r w" by blast
  have "w = r"
  proof (rule ccontr)
    assume "w \<noteq> r"
    moreover have "w \<in> set xs" using w(1) rowNumberOne_subset by blast
    ultimately have "precedes c r w" using assms(2) w(2) by blast
    moreover have "\<not> precedes c r w"
      using rowNumberOne_none_before[OF w(1) assms(1)] w(2) samePartition_sym by blast
    ultimately show False by blast
  qed
  with w show ?thesis by simp
qed

text \<open>The rows of number 1 of a descending order are those that \<open>rowNumberOne\<close> gives.\<close>

lemma ordered_first:
  "\<exists>later. foldl (\<lambda>sorted r. place Desc c r sorted) (h # others) xs = firstOf c h xs # later"
proof (induction xs arbitrary: h others)
  case Nil
  then show ?case by simp
next
  case (Cons x xs)
  show ?case
  proof (cases "precedes c x h")
    case True
    then show ?thesis using Cons.IH[of x "h # others"] by simp
  next
    case False
    then show ?thesis using Cons.IH[of h "place Desc c x others"] by simp
  qed
qed

lemma rowsOfNumber_one: "rowsOfNumber 1 columns Desc c rows = rowNumberOne columns c rows"
proof (induction columns c rows rule: rowNumberOne.induct)
  case (1 columns c)
  then show ?case by simp
next
  case (2 columns c r rs)
  from ordered_first[of c r "[]" "filter (samePartition columns r) rs"]
  obtain later where "ordered Desc c (r # filter (samePartition columns r) rs)
                        = firstOf c r (filter (samePartition columns r) rs) # later"
    by (auto simp: ordered_def)
  with 2 show ?case by simp
qed

lemma selectedRows_one:
  "direction m = Desc \<Longrightarrow> rowNumber m = 1 \<Longrightarrow>
   selectedRows m staged = rowNumberOne (partitionBy m) (orderBy m) staged"
  using rowsOfNumber_one by (simp add: selectedRows_def)

subsection \<open>The statements as text and as values\<close>

lemma enumerate_format: "map (\<lambda>(idx, name). f name) (enumerate n keys) = map f keys"
  by (induction keys arbitrary: n) auto

lemma JoinWithFormatting_plain:
  "JoinWithFormatting keys (\<lambda>idx name. f name) sep = Join (map f keys) sep"
  by (simp add: JoinWithFormatting_def enumerate_format)



lemma quoted_plain_names:
  "quoted ''TABLE_NAME'' = [dquote] @ ''TABLE_NAME'' @ [dquote]"
  "quoted ''COLUMN_NAME'' = [dquote] @ ''COLUMN_NAME'' @ [dquote]"
  by (simp_all add: quoted_def quoteByte_def dquote_def backslash_def)





subsection \<open>The effect of a MERGE\<close>

lemma sqlEq_eq: "sqlEq a b \<Longrightarrow> a = b \<and> a \<noteq> None"
  by (cases a; cases b; simp add: sqlEq_def)

lemma joined_agree:
  assumes "joined cols t r" "joined cols t w" "c \<in> set cols"
  shows "r c = w c"
proof -
  have a: "sqlEq (t c) (r c)" and b: "sqlEq (t c) (w c)"
    using assms by (simp_all add: joined_def list_all_iff)
  from sqlEq_eq[OF a] sqlEq_eq[OF b] show ?thesis by simp
qed

lemma joined_samePartition:
  assumes "joined on t r" "joined on t w" "set pk \<subseteq> set on"
  shows "samePartition pk r w"
proof -
  have "\<forall>c \<in> set pk. r c = w c"
  proof
    fix c assume "c \<in> set pk"
    then have "c \<in> set on" using assms(3) by blast
    then show "r c = w c" by (rule joined_agree[OF assms(1,2)])
  qed
  then show ?thesis by (simp add: samePartition_def)
qed

lemma find_the_one:
  "r \<in> set xs \<Longrightarrow> P r \<Longrightarrow> (\<forall>w \<in> set xs. P w \<longrightarrow> w = r) \<Longrightarrow> find P xs = Some r"
proof (induction xs)
  case Nil
  then show ?case by simp
next
  case (Cons x xs)
  show ?case
  proof (cases "P x")
    case True
    then have "x = r" using Cons.prems(3) by simp
    with True show ?thesis by simp
  next
    case False
    then have "r \<in> set xs" using Cons.prems(1,2) by auto
    moreover have "\<forall>w \<in> set xs. P w \<longrightarrow> w = r" using Cons.prems(3) by simp
    ultimately have "find P xs = Some r" using Cons.IH Cons.prems(2) by blast
    with False show ?thesis by simp
  qed
qed

lemma find_none: "(\<forall>w \<in> set xs. \<not> P w) \<Longrightarrow> find P xs = None"
  by (induction xs) auto

lemma map_of_staging:
  "map_of (map (\<lambda>name. (name, Staging name)) keys) c
     = (if c \<in> set keys then Some (Staging c) else None)"
  by (induction keys) auto

lemma updateRow_staging:
  "updateRow (map (\<lambda>name. (name, Staging name)) keys) t s
     = (\<lambda>c. if c \<in> set keys then s c else t c)"
  by (auto simp: updateRow_def map_of_staging fun_eq_iff)


lemma merge_into_target_row:
  "i < length target \<Longrightarrow>
   fst (merge_into m target staged) ! i =
     (case find (joined (onColumns m) (target ! i))
             (selectedRows m staged) of
        None \<Rightarrow> target ! i
      | Some s \<Rightarrow> updateRow (updateSet m) (target ! i) s)"
  by (simp add: merge_into_def Let_def nth_append)

lemma merge_into_length: "length target \<le> length (fst (merge_into m target staged))"
  by (simp add: merge_into_def Let_def)

lemma merge_into_inserted:
  "drop (length target) (fst (merge_into m target staged)) =
     map (insertRow (insertColumns m))
       (filter (\<lambda>s. \<not> list_ex (\<lambda>t. joined (onColumns m) t s) target)
          (selectedRows m staged))"
  by (simp add: merge_into_def Let_def)

lemma merge_into_unmatched_row:
  assumes "i < length target"
    and "\<forall>w \<in> set (selectedRows m staged). \<not> joined (onColumns m) (target ! i) w"
  shows "fst (merge_into m target staged) ! i = target ! i"
  using merge_into_target_row[OF assms(1), of m staged] find_none[OF assms(2)] by simp

text \<open>The row selected for a key decides what happens to the rows of the target it joins.\<close>

lemma merge_into_selected:
  assumes desc: "direction m = Desc" and one: "rowNumber m = 1"
    and sel: "r \<in> set (selectedRows m staged)"
    and keys: "set (partitionBy m) \<subseteq> set (onColumns m)"
  shows "\<forall>i < length target. joined (onColumns m) (target ! i) r \<longrightarrow>
           fst (merge_into m target staged) ! i = updateRow (updateSet m) (target ! i) r"
    and "(\<forall>t \<in> set target. \<not> joined (onColumns m) t r) \<longrightarrow>
           insertRow (insertColumns m) r \<in> set (drop (length target) (fst (merge_into m target staged)))"
proof -
  let ?sel = "selectedRows m staged"
  note rows = selectedRows_one[OF desc one, of staged]
  show "\<forall>i < length target. joined (onColumns m) (target ! i) r \<longrightarrow>
           fst (merge_into m target staged) ! i = updateRow (updateSet m) (target ! i) r"
  proof (intro allI impI)
    fix i assume i: "i < length target" and j: "joined (onColumns m) (target ! i) r"
    have "\<forall>w \<in> set ?sel. joined (onColumns m) (target ! i) w \<longrightarrow> w = r"
    proof (intro ballI impI)
      fix w assume w: "w \<in> set ?sel" and jw: "joined (onColumns m) (target ! i) w"
      have "samePartition (partitionBy m) w r"
        using joined_samePartition[OF jw j keys] .
      then show "w = r"
        using rowNumberOne_one_per_partition[of w "partitionBy m" "orderBy m" staged r] w sel
        unfolding rows by blast
    qed
    then have "find (joined (onColumns m) (target ! i)) ?sel = Some r"
      using find_the_one[of r ?sel "joined (onColumns m) (target ! i)"] sel j by blast
    then show "fst (merge_into m target staged) ! i = updateRow (updateSet m) (target ! i) r"
      using merge_into_target_row[OF i, of m staged] by simp
  qed
  show "(\<forall>t \<in> set target. \<not> joined (onColumns m) t r) \<longrightarrow>
           insertRow (insertColumns m) r \<in> set (drop (length target) (fst (merge_into m target staged)))"
    using sel by (auto simp: merge_into_inserted list_ex_iff)
qed


lemmas example_rows = storedRow_def earlyRow_def lateRow_def otherRow_def

subsection \<open>The statements as they are read\<close>

lemma plainName_quoted: "plainName n \<Longrightarrow> quoted n = dquote # n @ [dquote]"
  by (induction n) (simp_all add: plainName_def quoted_def)

lemma plainName_no_quote: "plainName n \<Longrightarrow> dquote \<notin> set n"
  by (induction n) (auto simp: plainName_def quoteByte_def)

lemma plainName_examples:
  "plainName ''ID''" "plainName ''ROW_ID''" "plainName ''TABLE_NAME''" "plainName ''COLUMN_NAME''"
  by (simp_all add: plainName_def quoteByte_def dquote_def backslash_def)

lemma tokenize_quoted: "plainName n \<Longrightarrow> tokenize (quoted n @ rest) = Ident n # tokenize rest"
proof -
  assume p: "plainName n"
  have nq: "dquote \<notin> set n" using p by (rule plainName_no_quote)
  have a: "takeWhile (\<lambda>x. x \<noteq> dquote) (n @ dquote # rest) = n"
    using nq by (induction n) auto
  have b: "dropWhile (\<lambda>x. x \<noteq> dquote) (n @ dquote # rest) = dquote # rest"
    using nq by (induction n) auto
  have "\<not> isBlank dquote" by (simp add: isBlank_def dquote_def)
  then show ?thesis
    by (simp add: plainName_quoted[OF p] a b)
qed

lemma tokenize_tabs: "tokenize (tabs n @ rest) = tokenize rest"
  by (induction n) (simp_all add: tabs_def isBlank_def tab_def)

lemmas reading = tokenize_quoted tokenize_tabs isBlank_def isWordChar_def dquote_def
  upperCase_def

lemmas readers = notMatchedClause_def matchedClause_def whenClauses_def assignmentItem_def
  conditionItem_def

lemmas items_Cons = items.simps[of _ _ "t # ts"] for t ts

text \<open>A list joined with commas is read as the list of what its items are read as.\<close>

lemma tokenize_Join:
  assumes "\<And>k rest. k \<in> set ks \<Longrightarrow> tokenize (f k @ rest) = g k @ tokenize rest"
  shows "tokenize (Join (map f ks) '','' @ rest)
           = separated (map g ks) (Sym CHR '','') @ tokenize rest"
  using assms
proof (induction ks rule: induct_list012)
  case 1
  then show ?case by simp
next
  case (2 k)
  then show ?case by simp
next
  case (3 k k' ks)
  have "tokenize (Join (map f (k # k' # ks)) '','' @ rest)
          = g k @ tokenize ('','' @ Join (map f (k' # ks)) '','' @ rest)"
    using "3.prems"[of k] by simp
  also have "tokenize ('','' @ Join (map f (k' # ks)) '','' @ rest)
          = Sym CHR '','' # tokenize (Join (map f (k' # ks)) '','' @ rest)"
    by (simp add: isBlank_def isWordChar_def dquote_def)
  also have "tokenize (Join (map f (k' # ks)) '','' @ rest)
          = separated (map g (k' # ks)) (Sym CHR '','') @ tokenize rest"
    using "3.IH"(2) "3.prems" by simp
  finally show ?case by simp
qed

lemma items_separated:
  assumes item: "\<And>x rest. x \<in> set xs \<Longrightarrow> item (shown x @ rest) = Some (x, rest)"
    and some: "xs \<noteq> []"
    and tail: "tail = [] \<or> hd tail \<noteq> sep"
  shows "items item sep (separated (map shown xs) sep @ tail) = Some (xs, tail)"
  using item some
proof (induction xs rule: induct_list012)
  case 1
  then show ?case by simp
next
  case (2 x)
  have "item (shown x @ tail) = Some (x, tail)" using "2.prems"(1) by simp
  then show ?case
    using tail by (subst items.simps) (cases tail; simp)
next
  case (3 x y zs)
  let ?rest = "separated (map shown (y # zs)) sep @ tail"
  have head: "item (shown x @ sep # ?rest) = Some (x, sep # ?rest)"
    using "3.prems"(1)[of x] by simp
  have later: "items item sep ?rest = Some (y # zs, tail)"
    using "3.IH"(2) "3.prems"(1) by simp
  show ?case
    using head later by (subst items.simps) simp
qed

lemma tokenize_columns:
  assumes "list_all plainName keys"
  shows "tokenize (Join (map quoted keys) '','' @ rest)
           = separated (map (\<lambda>k. [Ident k]) keys) (Sym CHR '','') @ tokenize rest"
  using assms by (intro tokenize_Join) (simp add: list_all_iff tokenize_quoted)

lemma tokenize_sources:
  assumes "list_all plainName keys"
  shows "tokenize (Join (map (\<lambda>name. ''staging.'' @ quoted name) keys) '','' @ rest)
           = separated (map (\<lambda>k. [Word ''staging'', Sym CHR ''.'', Ident k]) keys) (Sym CHR '','')
             @ tokenize rest"
  using assms by (intro tokenize_Join) (simp add: list_all_iff reading)

lemma tokenize_assignments:
  assumes "list_all plainName keys"
  shows "tokenize (Join (map (\<lambda>name. ''original.'' @ quoted name @ '' = staging.'' @ quoted name)
                      keys) '','' @ rest)
           = separated (map (\<lambda>k. [Word ''original'', Sym CHR ''.'', Ident k, Sym CHR ''='',
                                    Word ''staging'', Sym CHR ''.'', Ident k]) keys) (Sym CHR '','')
             @ tokenize rest"
  using assms by (intro tokenize_Join) (simp add: list_all_iff reading)

lemma items_columns:
  assumes "keys \<noteq> []" "tail = [] \<or> hd tail \<noteq> Sym CHR '',''"
  shows "items identItem (Sym CHR '','')
           (separated (map (\<lambda>k. [Ident k]) keys) (Sym CHR '','') @ tail) = Some (keys, tail)"
  using assms by (intro items_separated) simp_all

lemma items_sources:
  assumes "keys \<noteq> []" "tail = [] \<or> hd tail \<noteq> Sym CHR '',''"
  shows "items (columnOf ''staging'') (Sym CHR '','')
           (separated (map (\<lambda>k. [Word ''staging'', Sym CHR ''.'', Ident k]) keys) (Sym CHR '','')
              @ tail) = Some (keys, tail)"
  using assms by (intro items_separated) simp_all

lemma items_assignments:
  assumes "keys \<noteq> []" "tail = [] \<or> hd tail \<noteq> Sym CHR '',''"
  shows "items assignmentItem (Sym CHR '','')
           (separated (map (\<lambda>k. [Word ''original'', Sym CHR ''.'', Ident k, Sym CHR ''='',
                                    Word ''staging'', Sym CHR ''.'', Ident k]) keys) (Sym CHR '','')
              @ tail) = Some (map (\<lambda>k. (k, Staging k)) keys, tail)"
proof -
  have "items assignmentItem (Sym CHR '','')
           (separated (map (\<lambda>x. [Word ''original'', Sym CHR ''.'', Ident (fst x), Sym CHR ''='',
                                    Word ''staging'', Sym CHR ''.'', Ident (fst x)])
                         (map (\<lambda>k. (k, Staging k)) keys)) (Sym CHR '','') @ tail)
          = Some (map (\<lambda>k. (k, Staging k)) keys, tail)"
    using assms by (intro items_separated) (auto simp: assignmentItem_def)
  then show ?thesis by (simp add: comp_def)
qed

text \<open>
  The MERGE of \<open>loadTable\<close> as tokens: the words of the template in their order, with
  the tokens of the parts that the call puts in.
\<close>

lemma tokenize_mergeStatement:
  assumes names: "plainName ns" "plainName t" "plainName s" "plainName pk"
    and partition: "\<And>rest. tokenize (partitionKey @ rest) = ptoks @ tokenize rest"
    and additional: "\<And>rest. tokenize (additional @ rest) = atoks @ tokenize rest"
    and columns: "\<And>rest. tokenize (sortedColumnNames @ rest) = ctoks @ tokenize rest"
    and sources: "\<And>rest. tokenize (stagingColumnNames @ rest) = stoks @ tokenize rest"
    and updates: "\<And>rest. tokenize (assignments @ rest) = utoks @ tokenize rest"
  shows "tokenize (mergeStatement t s pk sortedColumnNames stagingColumnNames assignments
                     additional partitionKey (quoted ns))
           = tokenize ''MERGE INTO'' @ [Ident ns, Sym CHR ''.'', Ident t]
             @ tokenize ''AS original USING ( SELECT * FROM ( SELECT *, row_number() OVER (''
             @ tokenize ''PARTITION BY'' @ ptoks
             @ tokenize ''ORDER BY RECEIVED_AT DESC ) AS _rudder_staging_row_number FROM''
             @ [Ident ns, Sym CHR ''.'', Ident s]
             @ tokenize '') AS q WHERE _rudder_staging_row_number = 1 ) AS staging ON (''
             @ tokenize ''original.'' @ [Ident pk] @ tokenize ''= staging.'' @ [Ident pk] @ atoks
             @ tokenize '') WHEN NOT MATCHED THEN INSERT ('' @ ctoks
             @ tokenize '') VALUES ('' @ stoks
             @ tokenize '') WHEN MATCHED THEN UPDATE SET'' @ utoks @ tokenize '';''"
  using names
  by (simp add: mergeStatement_def reading partition additional columns sources updates)

lemma primaryKeyOf_cases:
  "primaryKeyOf env tableName = (if tableName = discardsTable env then ''ROW_ID'' else ''ID'')"
  by (simp add: primaryKeyOf_def primaryKeyMap_def)

lemma tokenize_partitionKeyOf:
  "tokenize (partitionKeyOf env tableName @ rest)
     = (if tableName = discardsTable env
        then [Ident ''ROW_ID'', Sym CHR '','', Ident ''COLUMN_NAME'', Sym CHR '','',
              Ident ''TABLE_NAME'']
        else [Ident ''ID'']) @ tokenize rest"
  by (simp add: partitionKeyOf_def partitionKeyMap_def reading)

lemma tokenize_additionalJoinClause:
  "tokenize (additionalJoinClause env tableName @ rest)
     = (if tableName = discardsTable env
        then [Word ''AND'', Word ''original'', Sym CHR ''.'', Ident ''TABLE_NAME'', Sym CHR ''='',
              Word ''staging'', Sym CHR ''.'', Ident ''TABLE_NAME'',
              Word ''AND'', Word ''original'', Sym CHR ''.'', Ident ''COLUMN_NAME'', Sym CHR ''='',
              Word ''staging'', Sym CHR ''.'', Ident ''COLUMN_NAME'']
        else []) @ tokenize rest"
  by (simp add: additionalJoinClause_def reading plainName_examples)

text \<open>
  The statement that \<open>loadTable\<close> builds when the latest record is preferred, as it is
  read: the tables, the partition key and the join columns of the table, the order by
  \<^verbatim>\<open>RECEIVED_AT\<close> descending, the row number 1, and the sorted columns of the upload
  schema in the INSERT and, each assigned from the staged row, in the UPDATE.
\<close>

lemma readMerge_dedupStatement:
  assumes keep: "ShouldOnDedupUseNewRecord env"
    and names: "plainName (Namespace sf)" "plainName tableName" "plainName stagingTableName"
               "list_all plainName strKeys"
    and some: "strKeys \<noteq> []"
    and sent: "dedupStatement env sf tableName stagingTableName strKeys = Returns query"
  shows "readMerge query =
           Some \<lparr>targetTable = (Namespace sf, tableName),
                 sourceTable = (Namespace sf, stagingTableName),
                 statementParts =
                   \<lparr>partitionBy = (if tableName = discardsTable env
                                   then [''ROW_ID'', ''COLUMN_NAME'', ''TABLE_NAME''] else [''ID'']),
                    orderBy = ''RECEIVED_AT'', direction = Desc, rowNumber = 1,
                    onColumns = (if tableName = discardsTable env
                                 then [''ROW_ID'', ''TABLE_NAME'', ''COLUMN_NAME''] else [''ID'']),
                    insertColumns = strKeys,
                    updateSet = map (\<lambda>name. (name, Staging name)) strKeys\<rparr>\<rparr>"
proof -
  have pk: "plainName (primaryKeyOf env tableName)"
    by (simp add: primaryKeyOf_cases plainName_examples)
  have query: "query = mergeStatement tableName stagingTableName (primaryKeyOf env tableName)
                 (Join (map quoted strKeys) '','')
                 (Join (map (\<lambda>name. ''staging.'' @ quoted name) strKeys) '','')
                 (Join (map (\<lambda>name. ''original.'' @ quoted name @ '' = staging.'' @ quoted name)
                    strKeys) '','')
                 (additionalJoinClause env tableName) (partitionKeyOf env tableName)
                 (quoted (Namespace sf))"
    using sent keep
    by (simp add: dedupStatement_def Let_def JoinWithFormatting_plain schemaIdentifier_def)
  note toks = tokenize_mergeStatement[OF names(1,2,3) pk tokenize_partitionKeyOf
      tokenize_additionalJoinClause tokenize_columns[OF names(4)] tokenize_sources[OF names(4)]
      tokenize_assignments[OF names(4)]]
  show ?thesis
    unfolding query readMerge_def toks
    using some
    by (simp add: reading readers items_Cons items_columns items_sources items_assignments
        primaryKeyOf_cases)
qed

subsection \<open>The rows that a MERGE selects and what it does with them\<close>

lemma selectedRows_rank_one:
  assumes desc: "direction m = Desc" and one: "rowNumber m = 1"
  shows "set (selectedRows m staged) \<subseteq> set staged"
    and "\<forall>s \<in> set staged. \<exists>w \<in> set (selectedRows m staged). samePartition (partitionBy m) s w"
    and "\<forall>w \<in> set (selectedRows m staged). \<forall>s \<in> set staged.
           samePartition (partitionBy m) w s \<longrightarrow> \<not> precedes (orderBy m) s w"
    and "\<forall>w \<in> set (selectedRows m staged). \<forall>w' \<in> set (selectedRows m staged).
           samePartition (partitionBy m) w w' \<longrightarrow> w = w'"
    and "\<forall>r \<in> set staged.
           (\<forall>r' \<in> set staged. r' \<noteq> r \<and> samePartition (partitionBy m) r r'
              \<longrightarrow> precedes (orderBy m) r r')
           \<longrightarrow> r \<in> set (selectedRows m staged)"
proof -
  note rows = selectedRows_one[OF desc one, of staged]
  show "set (selectedRows m staged) \<subseteq> set staged"
    unfolding rows by (rule rowNumberOne_subset)
  show "\<forall>s \<in> set staged. \<exists>w \<in> set (selectedRows m staged). samePartition (partitionBy m) s w"
    unfolding rows using rowNumberOne_covers by blast
  show "\<forall>w \<in> set (selectedRows m staged). \<forall>s \<in> set staged.
           samePartition (partitionBy m) w s \<longrightarrow> \<not> precedes (orderBy m) s w"
    unfolding rows using rowNumberOne_none_before by blast
  show "\<forall>w \<in> set (selectedRows m staged). \<forall>w' \<in> set (selectedRows m staged).
           samePartition (partitionBy m) w w' \<longrightarrow> w = w'"
    unfolding rows using rowNumberOne_one_per_partition by blast
  show "\<forall>r \<in> set staged.
           (\<forall>r' \<in> set staged. r' \<noteq> r \<and> samePartition (partitionBy m) r r'
              \<longrightarrow> precedes (orderBy m) r r')
           \<longrightarrow> r \<in> set (selectedRows m staged)"
    unfolding rows using rowNumberOne_latest by blast
qed

lemma selectedRows_of_two:
  assumes desc: "direction m = Desc" and one: "rowNumber m = 1"
    and same: "samePartition (partitionBy m) a b" and before: "precedes (orderBy m) a b"
  shows "selectedRows m [a, b] = [a]" and "selectedRows m [b, a] = [a]"
proof -
  have swapped: "samePartition (partitionBy m) b a" using same by (rule samePartition_sym)
  have later: "\<not> precedes (orderBy m) b a"
    using before precedes_trans precedes_irrefl by blast
  show "selectedRows m [a, b] = [a]"
    unfolding selectedRows_one[OF desc one] using same later by simp
  show "selectedRows m [b, a] = [a]"
    unfolding selectedRows_one[OF desc one] using swapped before by simp
qed

lemma merge_into_rows:
  assumes desc: "direction m = Desc" and one: "rowNumber m = 1"
    and keys: "set (partitionBy m) \<subseteq> set (onColumns m)"
  shows "\<forall>i < length target. \<forall>w \<in> set (selectedRows m staged).
           joined (onColumns m) (target ! i) w \<longrightarrow>
           fst (merge_into m target staged) ! i = updateRow (updateSet m) (target ! i) w"
    and "\<forall>i < length target.
           (\<forall>w \<in> set (selectedRows m staged). \<not> joined (onColumns m) (target ! i) w) \<longrightarrow>
           fst (merge_into m target staged) ! i = target ! i"
    and "drop (length target) (fst (merge_into m target staged))
           = map (insertRow (insertColumns m))
               (filter (\<lambda>w. \<not> list_ex (\<lambda>t. joined (onColumns m) t w) target)
                  (selectedRows m staged))"
proof -
  show "\<forall>i < length target. \<forall>w \<in> set (selectedRows m staged).
           joined (onColumns m) (target ! i) w \<longrightarrow>
           fst (merge_into m target staged) ! i = updateRow (updateSet m) (target ! i) w"
    using merge_into_selected(1)[OF desc one _ keys, of _ staged target] by blast
  show "\<forall>i < length target.
           (\<forall>w \<in> set (selectedRows m staged). \<not> joined (onColumns m) (target ! i) w) \<longrightarrow>
           fst (merge_into m target staged) ! i = target ! i"
    using merge_into_unmatched_row[of _ target m staged] by blast
  show "drop (length target) (fst (merge_into m target staged))
           = map (insertRow (insertColumns m))
               (filter (\<lambda>w. \<not> list_ex (\<lambda>t. joined (onColumns m) t w) target)
                  (selectedRows m staged))"
    by (rule merge_into_inserted)
qed

lemma valueAt_Some:
  "valueAt (Some result) i c = (if i < length (fst result) then (fst result ! i) c else None)"
  by (cases result) simp

lemma executed_append: "executed (xs @ ys) = executed xs @ executed ys"
  by (induction xs rule: executed.induct) simp_all

lemma sort_not_empty: "xs \<noteq> [] \<Longrightarrow> sort xs \<noteq> []"
  by (metis length_sort length_0_conv)

subsection \<open>The deduplication of loadTable\<close>

text \<open>
  A call of \<open>loadTable\<close> whose connection, temporary table, load file location and COPY
  succeed sends three statements, the last of them the MERGE, whatever the backend
  answers to the MERGE.
\<close>

lemma loadTable_sends_dedup:
  assumes conn: "connect env = None"
    and created: "ExecContext env
                    (createTemporaryTableStatement sf (StagingTableName env tableName) tableName) = None"
    and located: "GetSampleLoadFileLocation env tableName = Inr csvObjectLocation"
    and sorted: "strKeys = sort (GetColumnsFromTableSchema tableSchemaInUpload)"
    and copied: "ExecContext env
                   (copyStatement
                      (schemaIdentifier sf @ ''.'' @ quoted (StagingTableName env tableName))
                      (Join (map quoted strKeys) '','')
                      (GetObjectFolder env (ObjectStorage sf) csvObjectLocation) (authString sf)) = None"
    and sent: "dedupStatement env sf tableName (StagingTableName env tableName) strKeys
                 = Returns query"
  shows "executed (snd (loadTable env sf tableName tableSchemaInUpload skipClosingDBSession))
           = [createTemporaryTableStatement sf (StagingTableName env tableName) tableName,
              copyStatement
                (schemaIdentifier sf @ ''.'' @ quoted (StagingTableName env tableName))
                (Join (map quoted strKeys) '','')
                (GetObjectFolder env (ObjectStorage sf) csvObjectLocation) (authString sf),
              query]"
proof -
  have dedup: "executed (snd (loadTableDedup env sf tableName (StagingTableName env tableName)
                               strKeys)) = [query]"
    by (simp add: loadTableDedup_def sent Let_def executed_append
        split: prod.splits option.splits sum.splits)
  have staging: "executed (snd (loadTableStaging env sf tableName tableSchemaInUpload))
           = [createTemporaryTableStatement sf (StagingTableName env tableName) tableName,
              copyStatement
                (schemaIdentifier sf @ ''.'' @ quoted (StagingTableName env tableName))
                (Join (map quoted strKeys) '','')
                (GetObjectFolder env (ObjectStorage sf) csvObjectLocation) (authString sf),
              query]"
    using created copied dedup
    by (simp add: loadTableStaging_def Let_def located JoinWithFormatting_plain sorted[symmetric]
        executed_append split_beta)
  then show ?thesis
    by (simp add: loadTable_def Let_def conn executed_append split_beta)
qed

lemma dedupStatement_returns:
  "ShouldOnDedupUseNewRecord env \<Longrightarrow>
   \<exists>query. dedupStatement env sf tableName stagingTableName strKeys = Returns query"
  by (simp add: dedupStatement_def Let_def)

text \<open>
  C1, as amended. When the latest record is preferred, a call of \<open>loadTable\<close> whose
  connection, temporary table, load file location and COPY succeed sends the MERGE as
  its third statement. The names being such that \<^verbatim>\<open>%q\<close> escapes nothing in them, the
  statement is read as the merge of the staging table into the target table with the
  parts \<open>m\<close>: the partition key of the table (\<open>ID\<close>, or \<open>ROW_ID\<close>, \<open>COLUMN_NAME\<close>,
  \<open>TABLE_NAME\<close> for the discards table), the order by \<open>RECEIVED_AT\<close> descending, the row
  number 1, the join on the primary key (and on \<open>TABLE_NAME\<close> and \<open>COLUMN_NAME\<close> for the
  discards table), and the sorted columns of the upload schema, inserted and updated
  from the staged row. For every target and staging table:
  \<^item> the selected rows are staged rows, one for each partition key that occurs, and no
    staged row of its key comes before a selected row in the order;
  \<^item> a staged row that comes before every other staged row of its key is selected; of
    two rows of one key the one that comes before the other is the one selected, in
    both orders of the staging table;
  \<^item> a row of the target that a selected row joins takes from it the value of every
    column of the upload schema and keeps the value of every other column; a row of the
    target that no selected row joins stays as it is;
  \<^item> the rows after those of the target are the selected rows that join no row of the
    target, with the columns of the upload schema.
\<close>

theorem loadTable_dedup_keeps_latest:
  assumes keep: "ShouldOnDedupUseNewRecord env"
    and conn: "connect env = None"
    and created: "ExecContext env
                    (createTemporaryTableStatement sf (StagingTableName env tableName) tableName) = None"
    and located: "GetSampleLoadFileLocation env tableName = Inr csvObjectLocation"
    and sorted: "strKeys = sort (GetColumnsFromTableSchema tableSchemaInUpload)"
    and copied: "ExecContext env
                   (copyStatement
                      (schemaIdentifier sf @ ''.'' @ quoted (StagingTableName env tableName))
                      (Join (map quoted strKeys) '','')
                      (GetObjectFolder env (ObjectStorage sf) csvObjectLocation) (authString sf)) = None"
    and columns: "tableSchemaInUpload \<noteq> []"
    and names: "plainName (Namespace sf)" "plainName tableName"
               "plainName (StagingTableName env tableName)" "list_all plainName strKeys"
    and parts: "m = \<lparr>partitionBy = (if tableName = discardsTable env
                                     then [''ROW_ID'', ''COLUMN_NAME'', ''TABLE_NAME'']
                                     else [''ID'']),
                      orderBy = ''RECEIVED_AT'', direction = Desc, rowNumber = 1,
                      onColumns = (if tableName = discardsTable env
                                   then [''ROW_ID'', ''TABLE_NAME'', ''COLUMN_NAME'']
                                   else [''ID'']),
                      insertColumns = strKeys,
                      updateSet = map (\<lambda>name. (name, Staging name)) strKeys\<rparr>"
  shows "\<exists>query.
           executed (snd (loadTable env sf tableName tableSchemaInUpload skipClosingDBSession))
             = [createTemporaryTableStatement sf (StagingTableName env tableName) tableName,
                copyStatement
                  (schemaIdentifier sf @ ''.'' @ quoted (StagingTableName env tableName))
                  (Join (map quoted strKeys) '','')
                  (GetObjectFolder env (ObjectStorage sf) csvObjectLocation) (authString sf),
                query]
         \<and> readMerge query
             = Some \<lparr>targetTable = (Namespace sf, tableName),
                     sourceTable = (Namespace sf, StagingTableName env tableName),
                     statementParts = m\<rparr>
         \<and> runMerge query target staged = Some (merge_into m target staged)
         \<and> set (selectedRows m staged) \<subseteq> set staged
         \<and> (\<forall>s \<in> set staged. \<exists>w \<in> set (selectedRows m staged).
                samePartition (partitionBy m) s w)
         \<and> (\<forall>w \<in> set (selectedRows m staged). \<forall>s \<in> set staged.
                samePartition (partitionBy m) w s \<longrightarrow> \<not> precedes ''RECEIVED_AT'' s w)
         \<and> (\<forall>w \<in> set (selectedRows m staged). \<forall>w' \<in> set (selectedRows m staged).
                samePartition (partitionBy m) w w' \<longrightarrow> w = w')
         \<and> (\<forall>r \<in> set staged.
                (\<forall>r' \<in> set staged. r' \<noteq> r \<and> samePartition (partitionBy m) r r'
                   \<longrightarrow> precedes ''RECEIVED_AT'' r r')
                \<longrightarrow> r \<in> set (selectedRows m staged))
         \<and> (\<forall>a b. samePartition (partitionBy m) a b \<and> precedes ''RECEIVED_AT'' a b
                \<longrightarrow> selectedRows m [a, b] = [a] \<and> selectedRows m [b, a] = [a])
         \<and> (\<forall>i < length target. \<forall>w \<in> set (selectedRows m staged).
                joined (onColumns m) (target ! i) w \<longrightarrow>
                fst (merge_into m target staged) ! i
                  = (\<lambda>c. if c \<in> set strKeys then w c else (target ! i) c))
         \<and> (\<forall>i < length target.
                (\<forall>w \<in> set (selectedRows m staged). \<not> joined (onColumns m) (target ! i) w) \<longrightarrow>
                fst (merge_into m target staged) ! i = target ! i)
         \<and> drop (length target) (fst (merge_into m target staged))
             = map (insertRow strKeys)
                 (filter (\<lambda>w. \<not> list_ex (\<lambda>t. joined (onColumns m) t w) target)
                    (selectedRows m staged))"
proof -
  from dedupStatement_returns[OF keep] obtain query
    where sent: "dedupStatement env sf tableName (StagingTableName env tableName) strKeys
                   = Returns query" by blast
  have some: "strKeys \<noteq> []"
    using columns by (simp add: sorted GetColumnsFromTableSchema_def sort_not_empty)
  have run: "executed (snd (loadTable env sf tableName tableSchemaInUpload skipClosingDBSession))
             = [createTemporaryTableStatement sf (StagingTableName env tableName) tableName,
                copyStatement
                  (schemaIdentifier sf @ ''.'' @ quoted (StagingTableName env tableName))
                  (Join (map quoted strKeys) '','')
                  (GetObjectFolder env (ObjectStorage sf) csvObjectLocation) (authString sf),
                query]"
    by (rule loadTable_sends_dedup[OF conn created located sorted copied sent])
  have read: "readMerge query
             = Some \<lparr>targetTable = (Namespace sf, tableName),
                     sourceTable = (Namespace sf, StagingTableName env tableName),
                     statementParts = m\<rparr>"
    unfolding parts by (rule readMerge_dedupStatement[OF keep names some sent])
  have effect: "runMerge query target staged = Some (merge_into m target staged)"
    by (simp add: runMerge_def read)
  have desc: "direction m = Desc" and one: "rowNumber m = 1"
    and ob: "orderBy m = ''RECEIVED_AT''" and ic: "insertColumns m = strKeys"
    by (simp_all add: parts)
  have keys: "set (partitionBy m) \<subseteq> set (onColumns m)"
    by (auto simp: parts)
  have upd: "updateRow (updateSet m) t w = (\<lambda>c. if c \<in> set strKeys then w c else t c)" for t w
    by (simp add: parts updateRow_staging)
  note sel = selectedRows_rank_one[OF desc one, of staged, unfolded ob]
  have two: "\<forall>a b. samePartition (partitionBy m) a b \<and> precedes ''RECEIVED_AT'' a b
                \<longrightarrow> selectedRows m [a, b] = [a] \<and> selectedRows m [b, a] = [a]"
    using selectedRows_of_two[OF desc one] unfolding ob by blast
  note rows = merge_into_rows[OF desc one keys, of target staged, unfolded upd ic]
  from run read effect sel two rows show ?thesis by blast
qed

text \<open>
  C1 at an input: in the example environment the load of \<open>TRACKS\<close> sends three
  statements, and the third, carried out on a target with the stored row of the key 1
  and a staging table with two rows of that key, gives the stored row the value of \<open>V\<close>
  of the later staged row, in both orders of the staging table.
\<close>

theorem loadTable_dedup_keeps_latest_witness:
  "ShouldOnDedupUseNewRecord exampleEnv
   \<and> connect exampleEnv = None
   \<and> plainName ''TRACKS''
   \<and> plainName ''RUDDER_STAGING_TRACKS''
   \<and> precedes ''RECEIVED_AT'' lateRow earlyRow
   \<and> length (executed (snd (loadTable exampleEnv exampleDriver ''TRACKS''
         [(''V'', ''string''), (''ID'', ''string''), (''RECEIVED_AT'', ''datetime'')] False))) = 3
   \<and> valueAt (runMerge (executed (snd (loadTable exampleEnv exampleDriver ''TRACKS''
         [(''V'', ''string''), (''ID'', ''string''), (''RECEIVED_AT'', ''datetime'')] False)) ! 2)
         [storedRow] [earlyRow, lateRow]) 0 ''V'' = Some 300
   \<and> valueAt (runMerge (executed (snd (loadTable exampleEnv exampleDriver ''TRACKS''
         [(''V'', ''string''), (''ID'', ''string''), (''RECEIVED_AT'', ''datetime'')] False)) ! 2)
         [storedRow] [lateRow, earlyRow]) 0 ''V'' = Some 300"
proof -
  let ?schema = "[(''V'', ''string''), (''ID'', ''string''), (''RECEIVED_AT'', ''datetime'')]"
  let ?keys = "sort (GetColumnsFromTableSchema ?schema)"
  let ?m = "\<lparr>partitionBy = [''ID''], orderBy = ''RECEIVED_AT'', direction = Desc,
               rowNumber = 1, onColumns = [''ID''], insertColumns = ?keys,
               updateSet = map (\<lambda>name. (name, Staging name)) ?keys\<rparr>"
  let ?sent = "executed (snd (loadTable exampleEnv exampleDriver ''TRACKS'' ?schema False))"
  have keep: "ShouldOnDedupUseNewRecord exampleEnv"
    and conn: "connect exampleEnv = None"
    and exec: "ExecContext exampleEnv statement = None" for statement
    by (simp_all add: exampleEnv_def)
  have located: "GetSampleLoadFileLocation exampleEnv ''TRACKS'' = Inr ''s3://bucket/load/file.csv.gz''"
    by (simp add: exampleEnv_def)
  have columns: "?schema \<noteq> []" by simp
  have ns: "plainName (Namespace exampleDriver)" and tn: "plainName ''TRACKS''"
    and st: "plainName ''RUDDER_STAGING_TRACKS''"
    and sn: "plainName (StagingTableName exampleEnv ''TRACKS'')"
    and ks: "list_all plainName ?keys"
    by (simp_all add: exampleDriver_def exampleEnv_def GetColumnsFromTableSchema_def
        list_all_iff plainName_def quoteByte_def dquote_def backslash_def)
  have before: "precedes ''RECEIVED_AT'' lateRow earlyRow"
    by (simp add: precedes_def example_rows)
  have different: "lateRow \<noteq> earlyRow"
    using before precedes_irrefl by metis
  have j: "joined [''ID''] storedRow lateRow"
    by (simp add: joined_def sqlEq_def example_rows)
  have v: "lateRow ''V'' = Some 300" by (simp add: example_rows)
  have on: "onColumns ?m = [''ID'']" by simp
  have parts: "?m = \<lparr>partitionBy = (if ''TRACKS'' = discardsTable exampleEnv
                                       then [''ROW_ID'', ''COLUMN_NAME'', ''TABLE_NAME'']
                                       else [''ID'']),
                        orderBy = ''RECEIVED_AT'', direction = Desc, rowNumber = 1,
                        onColumns = (if ''TRACKS'' = discardsTable exampleEnv
                                     then [''ROW_ID'', ''TABLE_NAME'', ''COLUMN_NAME'']
                                     else [''ID'']),
                        insertColumns = ?keys,
                        updateSet = map (\<lambda>name. (name, Staging name)) ?keys\<rparr>"
    by (simp add: exampleEnv_def)
  have column: "''V'' \<in> set ?keys" by (simp add: GetColumnsFromTableSchema_def)
  have merged: "length ?sent = 3
      \<and> valueAt (runMerge (?sent ! 2) [storedRow] staged) 0 ''V'' = Some 300"
    if staged: "staged = [earlyRow, lateRow] \<or> staged = [lateRow, earlyRow]" for staged
  proof -
    from loadTable_dedup_keeps_latest
           [where env = exampleEnv and sf = exampleDriver and tableName = "''TRACKS''"
              and tableSchemaInUpload = ?schema and strKeys = ?keys and m = ?m
              and skipClosingDBSession = False and target = "[storedRow]" and staged = staged,
            OF keep conn exec located refl exec columns ns tn sn ks parts]
    obtain query where run: "?sent =
               [createTemporaryTableStatement exampleDriver (StagingTableName exampleEnv ''TRACKS'')
                  ''TRACKS'',
                copyStatement
                  (schemaIdentifier exampleDriver @ ''.''
                     @ quoted (StagingTableName exampleEnv ''TRACKS''))
                  (Join (map quoted ?keys) '','')
                  (GetObjectFolder exampleEnv (ObjectStorage exampleDriver)
                     ''s3://bucket/load/file.csv.gz'')
                  (authString exampleDriver),
                query]"
      and effect: "runMerge query [storedRow] staged = Some (merge_into ?m [storedRow] staged)"
      and latest: "\<forall>r \<in> set staged.
                (\<forall>r' \<in> set staged. r' \<noteq> r \<and> samePartition (partitionBy ?m) r r'
                   \<longrightarrow> precedes ''RECEIVED_AT'' r r')
                \<longrightarrow> r \<in> set (selectedRows ?m staged)"
      and updated: "\<forall>i < length [storedRow]. \<forall>w \<in> set (selectedRows ?m staged).
                joined (onColumns ?m) ([storedRow] ! i) w \<longrightarrow>
                fst (merge_into ?m [storedRow] staged) ! i
                  = (\<lambda>c. if c \<in> set ?keys then w c else ([storedRow] ! i) c)"
      by - (elim exE conjE, rule that; assumption)
    have "lateRow \<in> set staged" using staged by auto
    moreover have "\<forall>r' \<in> set staged. r' \<noteq> lateRow \<and> samePartition (partitionBy ?m) lateRow r'
                     \<longrightarrow> precedes ''RECEIVED_AT'' lateRow r'"
      using staged before by auto
    ultimately have sel: "lateRow \<in> set (selectedRows ?m staged)" using latest by blast
    have row: "fst (merge_into ?m [storedRow] staged) ! 0
                 = (\<lambda>c. if c \<in> set ?keys then lateRow c else storedRow c)"
      using updated[rule_format, of 0 lateRow] sel j unfolding on by (simp cong: if_cong)
    have "fst (merge_into ?m [storedRow] staged) \<noteq> []"
      using merge_into_length[of "[storedRow]" ?m staged] by auto
    then have "valueAt (runMerge query [storedRow] staged) 0 ''V'' = Some 300"
      using row column v by (simp add: effect valueAt_Some)
    with run show ?thesis by simp
  qed
  from merged[of "[earlyRow, lateRow]"] merged[of "[lateRow, earlyRow]"] keep conn tn st before
  show ?thesis by simp
qed

text \<open>
  C1 as stated does not hold for a column that the upload schema does not have: the
  stored row has \<open>W = 7\<close>, the selected staged row has no value for \<open>W\<close>, and after the
  MERGE that the load sends the stored row still has \<open>W = 7\<close>, while its \<open>V\<close> is that of
  the staged row.
\<close>

theorem loadTable_dedup_every_column_counterexample:
  "valueAt (runMerge (executed (snd (loadTable exampleEnv exampleDriver ''TRACKS''
       [(''V'', ''string''), (''ID'', ''string''), (''RECEIVED_AT'', ''datetime'')] False)) ! 2)
       [storedRow] [earlyRow, lateRow]) 0 ''W'' = Some 7
   \<and> lateRow ''W'' = None
   \<and> valueAt (runMerge (executed (snd (loadTable exampleEnv exampleDriver ''TRACKS''
       [(''V'', ''string''), (''ID'', ''string''), (''RECEIVED_AT'', ''datetime'')] False)) ! 2)
       [storedRow] [earlyRow, lateRow]) 0 ''V'' = lateRow ''V''"
proof -
  let ?schema = "[(''V'', ''string''), (''ID'', ''string''), (''RECEIVED_AT'', ''datetime'')]"
  let ?keys = "sort (GetColumnsFromTableSchema ?schema)"
  let ?sent = "executed (snd (loadTable exampleEnv exampleDriver ''TRACKS'' ?schema False))"
  have keep: "ShouldOnDedupUseNewRecord exampleEnv"
    and conn: "connect exampleEnv = None"
    and exec: "ExecContext exampleEnv statement = None" for statement
    by (simp_all add: exampleEnv_def)
  have located: "GetSampleLoadFileLocation exampleEnv ''TRACKS'' = Inr ''s3://bucket/load/file.csv.gz''"
    by (simp add: exampleEnv_def)
  have ns: "plainName (Namespace exampleDriver)" and tn: "plainName ''TRACKS''"
    and sn: "plainName (StagingTableName exampleEnv ''TRACKS'')"
    and ks: "list_all plainName ?keys"
    by (simp_all add: exampleDriver_def exampleEnv_def GetColumnsFromTableSchema_def
        list_all_iff plainName_def quoteByte_def dquote_def backslash_def)
  have some: "?keys \<noteq> []" by (simp add: GetColumnsFromTableSchema_def sort_not_empty)
  from dedupStatement_returns[OF keep] obtain query
    where sent: "dedupStatement exampleEnv exampleDriver ''TRACKS''
                   (StagingTableName exampleEnv ''TRACKS'') ?keys = Returns query" by blast
  have run: "?sent ! 2 = query"
    using loadTable_sends_dedup[OF conn exec located refl exec sent, of False] by simp
  have read: "runMerge query [storedRow] [earlyRow, lateRow]
                = Some (merge_into
                    \<lparr>partitionBy = [''ID''], orderBy = ''RECEIVED_AT'', direction = Desc,
                     rowNumber = 1, onColumns = [''ID''], insertColumns = ?keys,
                     updateSet = map (\<lambda>name. (name, Staging name)) ?keys\<rparr>
                    [storedRow] [earlyRow, lateRow])"
    using readMerge_dedupStatement[OF keep ns tn sn ks some sent]
    by (simp add: runMerge_def exampleEnv_def)
  have rows: "fst (merge_into
                    \<lparr>partitionBy = [''ID''], orderBy = ''RECEIVED_AT'', direction = Desc,
                     rowNumber = 1, onColumns = [''ID''], insertColumns = ?keys,
                     updateSet = map (\<lambda>name. (name, Staging name)) ?keys\<rparr>
                    [storedRow] [earlyRow, lateRow])
                = [(\<lambda>c. if c \<in> set ?keys then lateRow c else storedRow c)]"
    by (simp add: merge_into_def Let_def selectedRows_def ordered_def samePartition_def
        precedes_def joined_def sqlEq_def updateRow_staging example_rows cong: if_cong)
  have w: "''W'' \<notin> set ?keys" and v: "''V'' \<in> set ?keys"
    by (simp_all add: GetColumnsFromTableSchema_def)
  have "lateRow ''W'' = None" and "storedRow ''W'' = Some 7"
    by (simp_all add: example_rows)
  with w v run read rows show ?thesis
    by (simp add: valueAt_Some)
qed

subsection \<open>The deduplication of loadTable when the first record is kept\<close>





subsection \<open>The identity mappings\<close>

text \<open>
  The statements of \<open>LoadIdentityMappingsTable\<close> as they are read: the ALTER adds the
  column \<open>ID\<close>, an autoincrement integer, to the staging table; the COPY copies into the
  four columns of the staging table; the MERGE merges the staging table into the table
  of the identity mappings, partitioned and joined on \<open>MERGE_PROPERTY_TYPE\<close> and
  \<open>MERGE_PROPERTY_VALUE\<close>, ordered by \<open>ID\<close> descending, with the row number 1.
\<close>

lemma readAddColumn_mappings:
  assumes "plainName (Namespace sf)" "plainName stagingTableName"
  shows "readAddColumn (mappingsAlterStatement sf stagingTableName)
           = Some ((Namespace sf, stagingTableName), ''ID'',
                   [Word ''int'', Word ''AUTOINCREMENT'', Word ''start'', Word ''1'',
                    Word ''increment'', Word ''1''])"
  using assms
  by (simp add: readAddColumn_def mappingsAlterStatement_def schemaIdentifier_def reading)

lemma readCopyInto_mappings:
  assumes "plainName (Namespace sf)" "plainName stagingTableName"
  shows "readCopyInto (mappingsCopyStatement (schemaIdentifier sf @ ''.'' @ quoted stagingTableName)
                         loadLocation auth)
           = Some ((Namespace sf, stagingTableName),
                   [''MERGE_PROPERTY_TYPE'', ''MERGE_PROPERTY_VALUE'', ''RUDDER_ID'', ''UPDATED_AT''])"
  using assms
  by (simp add: readCopyInto_def mappingsCopyStatement_def schemaIdentifier_def reading items_Cons)

lemma readMerge_mappings:
  assumes "plainName ns" "plainName t" "plainName s"
  shows "readMerge (mappingsMergeStatement t s (quoted ns)) =
     Some \<lparr>targetTable = (ns, t), sourceTable = (ns, s),
       statementParts =
       \<lparr>partitionBy = [''MERGE_PROPERTY_TYPE'', ''MERGE_PROPERTY_VALUE''],
          orderBy = ''ID'', direction = Desc, rowNumber = 1,
          onColumns = [''MERGE_PROPERTY_TYPE'', ''MERGE_PROPERTY_VALUE''],
          insertColumns =
            [''MERGE_PROPERTY_TYPE'', ''MERGE_PROPERTY_VALUE'',
             ''RUDDER_ID'', ''UPDATED_AT''],
          updateSet =
            [(''RUDDER_ID'', Staging ''RUDDER_ID''),
             (''UPDATED_AT'', Staging ''UPDATED_AT'')]\<rparr>\<rparr>"
  using assms
  by (simp add: readMerge_def mappingsMergeStatement_def reading readers items_Cons)

lemma updateRow_mappings:
  "updateRow [(''RUDDER_ID'', Staging ''RUDDER_ID''), (''UPDATED_AT'', Staging ''UPDATED_AT'')] t r
     = t(''RUDDER_ID'' := r ''RUDDER_ID'', ''UPDATED_AT'' := r ''UPDATED_AT'')"
  by (auto simp: updateRow_def fun_eq_iff)

lemma LoadIdentityMappingsTable_sends:
  assumes loadFile: "GetSingleLoadFile env (identityMappingsTable env) = Inr location"
    and conn: "connect env = None"
    and staging: "stagingTableName = StagingTableName env (identityMappingsTable env)"
    and created: "ExecContext env (mappingsCreateStatement env sf stagingTableName) = None"
    and altered: "checkAndIgnoreAlreadyExistError
                    (ExecContext env (mappingsAlterStatement sf stagingTableName))"
    and copied: "ExecContext env
                   (mappingsCopyStatement (schemaIdentifier sf @ ''.'' @ quoted stagingTableName)
                      (GetObjectLocation env (ObjectStorage sf) location) (authString sf)) = None"
    and merged: "ExecContext env
                   (mappingsMergeStatement (identityMappingsTable env) stagingTableName
                      (schemaIdentifier sf)) = None"
  shows "fst (LoadIdentityMappingsTable env sf) = None"
    and "executed (snd (LoadIdentityMappingsTable env sf))
           = [mappingsCreateStatement env sf stagingTableName,
              mappingsAlterStatement sf stagingTableName,
              mappingsCopyStatement (schemaIdentifier sf @ ''.'' @ quoted stagingTableName)
                (GetObjectLocation env (ObjectStorage sf) location) (authString sf),
              mappingsMergeStatement (identityMappingsTable env) stagingTableName
                (schemaIdentifier sf)]"
proof -
  have tail: "loadIdentityMappingsCopyAndMerge env sf location stagingTableName evs
                = (None, evs @
                    [Logged (''SF: Dedup records for table:'' @ identityMappingsTable env
                       @ '' using staging table: ''
                       @ mappingsCopyStatement (schemaIdentifier sf @ ''.'' @ quoted stagingTableName)
                           (GetObjectLocation env (ObjectStorage sf) location) (authString sf)
                       @ ''\<newline>''),
                     Executed (mappingsCopyStatement (schemaIdentifier sf @ ''.'' @ quoted stagingTableName)
                           (GetObjectLocation env (ObjectStorage sf) location) (authString sf)),
                     Logged (''SF: Dedup records for table:'' @ identityMappingsTable env
                       @ '' using staging table: ''
                       @ mappingsMergeStatement (identityMappingsTable env) stagingTableName
                           (schemaIdentifier sf) @ ''\<newline>''),
                     Executed (mappingsMergeStatement (identityMappingsTable env) stagingTableName
                           (schemaIdentifier sf)),
                     Logged (''SF: Complete load for table:'' @ identityMappingsTable env
                       @ ''\<newline>'')])" for evs
    using copied merged by (simp add: loadIdentityMappingsCopyAndMerge_def Let_def)
  have run: "fst (LoadIdentityMappingsTable env sf) = None
       \<and> executed (snd (LoadIdentityMappingsTable env sf))
           = [mappingsCreateStatement env sf stagingTableName,
              mappingsAlterStatement sf stagingTableName,
              mappingsCopyStatement (schemaIdentifier sf @ ''.'' @ quoted stagingTableName)
                (GetObjectLocation env (ObjectStorage sf) location) (authString sf),
              mappingsMergeStatement (identityMappingsTable env) stagingTableName
                (schemaIdentifier sf)]"
    using altered created
    by (cases "ExecContext env (mappingsAlterStatement sf stagingTableName)")
       (simp_all add: LoadIdentityMappingsTable_def Let_def loadFile conn staging[symmetric] tail)
  from run show "fst (LoadIdentityMappingsTable env sf) = None" by blast
  from run show "executed (snd (LoadIdentityMappingsTable env sf))
           = [mappingsCreateStatement env sf stagingTableName,
              mappingsAlterStatement sf stagingTableName,
              mappingsCopyStatement (schemaIdentifier sf @ ''.'' @ quoted stagingTableName)
                (GetObjectLocation env (ObjectStorage sf) location) (authString sf),
              mappingsMergeStatement (identityMappingsTable env) stagingTableName
                (schemaIdentifier sf)]" by blast
qed

text \<open>
  C7, as amended. When every statement succeeds, the ALTER being allowed to answer with
  an error that \<open>checkAndIgnoreAlreadyExistError\<close> recognises,
  \<open>LoadIdentityMappingsTable\<close> returns nil after sending four statements in this
  order: the creation of the staging table, the ALTER that adds the autoincrement
  surrogate key \<open>ID\<close> to the staging table, the COPY into the staging table, and the
  MERGE. The names being such that \<^verbatim>\<open>%q\<close> escapes nothing in them, the MERGE is read
  as the merge of the staging table into the table of the identity mappings with the
  parts \<open>m\<close>. For every target and staging table:
  \<^item> the selected rows are staged rows, one for each pair of \<open>MERGE_PROPERTY_TYPE\<close> and
    \<open>MERGE_PROPERTY_VALUE\<close> that occurs, and no staged row of its pair has a higher \<open>ID\<close>
    than a selected row;
  \<^item> a staged row whose \<open>ID\<close> is above that of every other staged row of its pair is
    selected; of two rows of one pair the one with the higher \<open>ID\<close> is the one selected,
    in both orders of the staging table;
  \<^item> a row of the target that a selected row joins takes its \<open>RUDDER_ID\<close> and
    \<open>UPDATED_AT\<close> and keeps its other columns; a row of the target that no selected row
    joins stays as it is;
  \<^item> the rows after those of the target are the selected rows that join no row of the
    target, with their four columns.
\<close>

theorem LoadIdentityMappingsTable_keeps_highest_surrogate_key:
  assumes loadFile: "GetSingleLoadFile env (identityMappingsTable env) = Inr location"
    and conn: "connect env = None"
    and staging: "stagingTableName = StagingTableName env (identityMappingsTable env)"
    and created: "ExecContext env (mappingsCreateStatement env sf stagingTableName) = None"
    and altered: "checkAndIgnoreAlreadyExistError
                    (ExecContext env (mappingsAlterStatement sf stagingTableName))"
    and copied: "ExecContext env
                   (mappingsCopyStatement (schemaIdentifier sf @ ''.'' @ quoted stagingTableName)
                      (GetObjectLocation env (ObjectStorage sf) location) (authString sf)) = None"
    and merged: "ExecContext env
                   (mappingsMergeStatement (identityMappingsTable env) stagingTableName
                      (schemaIdentifier sf)) = None"
    and names: "plainName (Namespace sf)" "plainName (identityMappingsTable env)"
               "plainName stagingTableName"
    and sent: "sent = executed (snd (LoadIdentityMappingsTable env sf))"
    and parts: "m = \<lparr>partitionBy = [''MERGE_PROPERTY_TYPE'', ''MERGE_PROPERTY_VALUE''],
                      orderBy = ''ID'', direction = Desc, rowNumber = 1,
                      onColumns = [''MERGE_PROPERTY_TYPE'', ''MERGE_PROPERTY_VALUE''],
                      insertColumns = [''MERGE_PROPERTY_TYPE'', ''MERGE_PROPERTY_VALUE'',
                                       ''RUDDER_ID'', ''UPDATED_AT''],
                      updateSet = [(''RUDDER_ID'', Staging ''RUDDER_ID''),
                                   (''UPDATED_AT'', Staging ''UPDATED_AT'')]\<rparr>"
  shows "fst (LoadIdentityMappingsTable env sf) = None
       \<and> sent = [mappingsCreateStatement env sf stagingTableName,
                 mappingsAlterStatement sf stagingTableName,
                 mappingsCopyStatement (schemaIdentifier sf @ ''.'' @ quoted stagingTableName)
                   (GetObjectLocation env (ObjectStorage sf) location) (authString sf),
                 mappingsMergeStatement (identityMappingsTable env) stagingTableName
                   (schemaIdentifier sf)]
       \<and> readAddColumn (sent ! 1)
           = Some ((Namespace sf, stagingTableName), ''ID'',
                   [Word ''int'', Word ''AUTOINCREMENT'', Word ''start'', Word ''1'',
                    Word ''increment'', Word ''1''])
       \<and> readCopyInto (sent ! 2)
           = Some ((Namespace sf, stagingTableName),
                   [''MERGE_PROPERTY_TYPE'', ''MERGE_PROPERTY_VALUE'', ''RUDDER_ID'', ''UPDATED_AT''])
       \<and> readMerge (sent ! 3)
           = Some \<lparr>targetTable = (Namespace sf, identityMappingsTable env),
                   sourceTable = (Namespace sf, stagingTableName),
                   statementParts = m\<rparr>
       \<and> runMerge (sent ! 3) target staged = Some (merge_into m target staged)
       \<and> set (selectedRows m staged) \<subseteq> set staged
       \<and> (\<forall>s \<in> set staged. \<exists>w \<in> set (selectedRows m staged).
              samePartition (partitionBy m) s w)
       \<and> (\<forall>w \<in> set (selectedRows m staged). \<forall>s \<in> set staged.
              samePartition (partitionBy m) w s \<longrightarrow> \<not> precedes ''ID'' s w)
       \<and> (\<forall>w \<in> set (selectedRows m staged). \<forall>w' \<in> set (selectedRows m staged).
              samePartition (partitionBy m) w w' \<longrightarrow> w = w')
       \<and> (\<forall>r \<in> set staged.
              (\<forall>r' \<in> set staged. r' \<noteq> r \<and> samePartition (partitionBy m) r r'
                 \<longrightarrow> precedes ''ID'' r r')
              \<longrightarrow> r \<in> set (selectedRows m staged))
       \<and> (\<forall>a b. samePartition (partitionBy m) a b \<and> precedes ''ID'' a b
              \<longrightarrow> selectedRows m [a, b] = [a] \<and> selectedRows m [b, a] = [a])
       \<and> (\<forall>i < length target. \<forall>w \<in> set (selectedRows m staged).
              joined (onColumns m) (target ! i) w \<longrightarrow>
              fst (merge_into m target staged) ! i
                = (target ! i)(''RUDDER_ID'' := w ''RUDDER_ID'', ''UPDATED_AT'' := w ''UPDATED_AT''))
       \<and> (\<forall>i < length target.
              (\<forall>w \<in> set (selectedRows m staged). \<not> joined (onColumns m) (target ! i) w) \<longrightarrow>
              fst (merge_into m target staged) ! i = target ! i)
       \<and> drop (length target) (fst (merge_into m target staged))
           = map (insertRow [''MERGE_PROPERTY_TYPE'', ''MERGE_PROPERTY_VALUE'', ''RUDDER_ID'',
                             ''UPDATED_AT''])
               (filter (\<lambda>w. \<not> list_ex (\<lambda>t. joined (onColumns m) t w) target)
                  (selectedRows m staged))"
proof -
  note run = LoadIdentityMappingsTable_sends[OF loadFile conn staging created altered copied merged]
  have list: "sent = [mappingsCreateStatement env sf stagingTableName,
                 mappingsAlterStatement sf stagingTableName,
                 mappingsCopyStatement (schemaIdentifier sf @ ''.'' @ quoted stagingTableName)
                   (GetObjectLocation env (ObjectStorage sf) location) (authString sf),
                 mappingsMergeStatement (identityMappingsTable env) stagingTableName
                   (schemaIdentifier sf)]"
    unfolding sent by (rule run(2))
  have key: "readAddColumn (sent ! 1)
           = Some ((Namespace sf, stagingTableName), ''ID'',
                   [Word ''int'', Word ''AUTOINCREMENT'', Word ''start'', Word ''1'',
                    Word ''increment'', Word ''1''])"
    using readAddColumn_mappings[OF names(1,3)] by (simp add: list)
  have copy: "readCopyInto (sent ! 2)
           = Some ((Namespace sf, stagingTableName),
                   [''MERGE_PROPERTY_TYPE'', ''MERGE_PROPERTY_VALUE'', ''RUDDER_ID'', ''UPDATED_AT''])"
    using readCopyInto_mappings[OF names(1,3)] by (simp add: list)
  have read: "readMerge (sent ! 3)
           = Some \<lparr>targetTable = (Namespace sf, identityMappingsTable env),
                   sourceTable = (Namespace sf, stagingTableName),
                   statementParts = m\<rparr>"
    using readMerge_mappings[OF names(1,2,3)] by (simp add: list schemaIdentifier_def parts)
  have effect: "runMerge (sent ! 3) target staged = Some (merge_into m target staged)"
    by (simp add: runMerge_def read)
  have desc: "direction m = Desc" and one: "rowNumber m = 1"
    and ob: "orderBy m = ''ID''"
    and ic: "insertColumns m = [''MERGE_PROPERTY_TYPE'', ''MERGE_PROPERTY_VALUE'', ''RUDDER_ID'',
                                ''UPDATED_AT'']"
    by (simp_all add: parts)
  have keys: "set (partitionBy m) \<subseteq> set (onColumns m)"
    by (simp add: parts)
  have upd: "updateRow (updateSet m) t w
               = t(''RUDDER_ID'' := w ''RUDDER_ID'', ''UPDATED_AT'' := w ''UPDATED_AT'')" for t w
    by (simp add: parts updateRow_mappings)
  note sel = selectedRows_rank_one[OF desc one, of staged, unfolded ob]
  have two: "\<forall>a b. samePartition (partitionBy m) a b \<and> precedes ''ID'' a b
                \<longrightarrow> selectedRows m [a, b] = [a] \<and> selectedRows m [b, a] = [a]"
    using selectedRows_of_two[OF desc one] unfolding ob by blast
  note rows = merge_into_rows[OF desc one keys, of target staged, unfolded upd ic]
  from run(1) list key copy read effect sel two rows show ?thesis by blast
qed

lemmas example_mappings = storedMapping_def firstMapping_def secondMapping_def

text \<open>
  C7 at an input: the ALTER answers that the column exists, the load returns nil after
  four statements, and the fourth, carried out on a target with the stored mapping and a
  staging table with two mappings of the same property, gives the stored mapping the
  \<open>RUDDER_ID\<close> of the staged mapping with the surrogate key 2, in both orders of the
  staging table.
\<close>

theorem LoadIdentityMappingsTable_keeps_highest_surrogate_key_witness:
  "ExecContext rerunEnv
     (mappingsAlterStatement exampleDriver ''RUDDER_STAGING_RUDDER_IDENTITY_MAPPINGS'')
     = Some columnExists
   \<and> plainName ''RUDDER_IDENTITY_MAPPINGS''
   \<and> fst (LoadIdentityMappingsTable rerunEnv exampleDriver) = None
   \<and> length (executed (snd (LoadIdentityMappingsTable rerunEnv exampleDriver))) = 4
   \<and> precedes ''ID'' secondMapping firstMapping
   \<and> valueAt (runMerge (executed (snd (LoadIdentityMappingsTable rerunEnv exampleDriver)) ! 3)
         [storedMapping] [firstMapping, secondMapping]) 0 ''RUDDER_ID'' = Some 3000
   \<and> valueAt (runMerge (executed (snd (LoadIdentityMappingsTable rerunEnv exampleDriver)) ! 3)
         [storedMapping] [secondMapping, firstMapping]) 0 ''RUDDER_ID'' = Some 3000"
proof -
  let ?stg = "''RUDDER_STAGING_RUDDER_IDENTITY_MAPPINGS''"
  let ?key = "[''MERGE_PROPERTY_TYPE'', ''MERGE_PROPERTY_VALUE'']"
  let ?m = "\<lparr>partitionBy = ?key, orderBy = ''ID'', direction = Desc, rowNumber = 1,
               onColumns = ?key,
               insertColumns = [''MERGE_PROPERTY_TYPE'', ''MERGE_PROPERTY_VALUE'',
                                ''RUDDER_ID'', ''UPDATED_AT''],
               updateSet = [(''RUDDER_ID'', Staging ''RUDDER_ID''),
                            (''UPDATED_AT'', Staging ''UPDATED_AT'')]\<rparr>"
  let ?sent = "executed (snd (LoadIdentityMappingsTable rerunEnv exampleDriver))"
  have loadFile: "GetSingleLoadFile rerunEnv (identityMappingsTable rerunEnv)
                    = Inr ''s3://bucket/load/file.csv.gz''"
    by (simp add: rerunEnv_def exampleEnv_def)
  have conn: "connect rerunEnv = None" by (simp add: rerunEnv_def exampleEnv_def)
  have staging: "?stg = StagingTableName rerunEnv (identityMappingsTable rerunEnv)"
    by (simp add: rerunEnv_def exampleEnv_def)
  have alter: "ExecContext rerunEnv (mappingsAlterStatement exampleDriver ?stg) = Some columnExists"
    by (simp add: rerunEnv_def)
  have altered: "checkAndIgnoreAlreadyExistError
                   (ExecContext rerunEnv (mappingsAlterStatement exampleDriver ?stg))"
    by (simp add: alter columnExists_def)
  have created: "ExecContext rerunEnv (mappingsCreateStatement rerunEnv exampleDriver ?stg) = None"
    by (simp add: rerunEnv_def mappingsCreateStatement_def mappingsAlterStatement_def)
  have copied: "ExecContext rerunEnv
                   (mappingsCopyStatement (schemaIdentifier exampleDriver @ ''.'' @ quoted ?stg)
                      (GetObjectLocation rerunEnv (ObjectStorage exampleDriver)
                         ''s3://bucket/load/file.csv.gz'') (authString exampleDriver)) = None"
    by (simp add: rerunEnv_def mappingsCopyStatement_def mappingsAlterStatement_def)
  have merged: "ExecContext rerunEnv
                   (mappingsMergeStatement (identityMappingsTable rerunEnv) ?stg
                      (schemaIdentifier exampleDriver)) = None"
    by (simp add: rerunEnv_def mappingsMergeStatement_def mappingsAlterStatement_def)
  have ns: "plainName (Namespace exampleDriver)"
    and tn: "plainName ''RUDDER_IDENTITY_MAPPINGS''"
    and it: "plainName (identityMappingsTable rerunEnv)"
    and sn: "plainName ?stg"
    by (simp_all add: exampleDriver_def rerunEnv_def exampleEnv_def plainName_def quoteByte_def
        dquote_def backslash_def)
  have before: "precedes ''ID'' secondMapping firstMapping"
    by (simp add: precedes_def example_mappings)
  have j: "joined ?key storedMapping secondMapping"
    by (simp add: joined_def sqlEq_def example_mappings)
  have v: "secondMapping ''RUDDER_ID'' = Some 3000" by (simp add: example_mappings)
  have merged_rows: "fst (LoadIdentityMappingsTable rerunEnv exampleDriver) = None
      \<and> length ?sent = 4
      \<and> valueAt (runMerge (?sent ! 3) [storedMapping] staged) 0 ''RUDDER_ID'' = Some 3000"
    if staged: "staged = [firstMapping, secondMapping] \<or> staged = [secondMapping, firstMapping]"
    for staged
  proof -
    from LoadIdentityMappingsTable_keeps_highest_surrogate_key
           [where env = rerunEnv and sf = exampleDriver and stagingTableName = ?stg
              and sent = ?sent and m = ?m and target = "[storedMapping]" and staged = staged,
            OF loadFile conn staging created altered copied merged ns it sn refl refl]
    have nil: "fst (LoadIdentityMappingsTable rerunEnv exampleDriver) = None"
      and four: "?sent
                 = [mappingsCreateStatement rerunEnv exampleDriver ?stg,
                    mappingsAlterStatement exampleDriver ?stg,
                    mappingsCopyStatement (schemaIdentifier exampleDriver @ ''.'' @ quoted ?stg)
                      (GetObjectLocation rerunEnv (ObjectStorage exampleDriver)
                         ''s3://bucket/load/file.csv.gz'') (authString exampleDriver),
                    mappingsMergeStatement (identityMappingsTable rerunEnv) ?stg
                      (schemaIdentifier exampleDriver)]"
      and effect: "runMerge (?sent ! 3) [storedMapping] staged
                     = Some (merge_into ?m [storedMapping] staged)"
      and latest: "\<forall>r \<in> set staged.
              (\<forall>r' \<in> set staged. r' \<noteq> r \<and> samePartition (partitionBy ?m) r r'
                 \<longrightarrow> precedes ''ID'' r r')
              \<longrightarrow> r \<in> set (selectedRows ?m staged)"
      and updated: "\<forall>i < length [storedMapping]. \<forall>w \<in> set (selectedRows ?m staged).
              joined (onColumns ?m) ([storedMapping] ! i) w \<longrightarrow>
              fst (merge_into ?m [storedMapping] staged) ! i
                = ([storedMapping] ! i)(''RUDDER_ID'' := w ''RUDDER_ID'',
                                        ''UPDATED_AT'' := w ''UPDATED_AT'')"
      by - (elim conjE, assumption)+
    have "secondMapping \<in> set staged" using staged by auto
    moreover have "\<forall>r' \<in> set staged.
                     r' \<noteq> secondMapping \<and> samePartition (partitionBy ?m) secondMapping r'
                     \<longrightarrow> precedes ''ID'' secondMapping r'"
      using staged before by auto
    ultimately have sel: "secondMapping \<in> set (selectedRows ?m staged)" using latest by blast
    have row: "fst (merge_into ?m [storedMapping] staged) ! 0
                 = storedMapping(''RUDDER_ID'' := secondMapping ''RUDDER_ID'',
                                 ''UPDATED_AT'' := secondMapping ''UPDATED_AT'')"
      using updated[rule_format, of 0 secondMapping] sel j by simp
    have "fst (merge_into ?m [storedMapping] staged) \<noteq> []"
      using merge_into_length[of "[storedMapping]" ?m staged] by auto
    then have "valueAt (runMerge (?sent ! 3) [storedMapping] staged) 0 ''RUDDER_ID'' = Some 3000"
      using row v by (simp add: effect valueAt_Some)
    with nil four show ?thesis by simp
  qed
  from merged_rows[of "[firstMapping, secondMapping]"] merged_rows[of "[secondMapping, firstMapping]"]
    alter tn before
  show ?thesis by simp
qed

text \<open>
  C7 as stated has the bulk copy before the surrogate key. In the example environment
  the second statement that the load sends is the ALTER that adds the key and the third
  is the COPY: the key is there when the rows are copied in, and it numbers them.
\<close>

lemma readCopyInto_alter: "readCopyInto (mappingsAlterStatement sf stagingTableName) = None"
  by (simp add: readCopyInto_def mappingsAlterStatement_def reading)

lemma readAddColumn_copy:
  "readAddColumn (mappingsCopyStatement target loadLocation auth) = None"
  by (simp add: readAddColumn_def mappingsCopyStatement_def reading)

theorem LoadIdentityMappingsTable_key_before_copy_counterexample:
  "readAddColumn (executed (snd (LoadIdentityMappingsTable exampleEnv exampleDriver)) ! 1)
     = Some ((''NS'', ''RUDDER_STAGING_RUDDER_IDENTITY_MAPPINGS''), ''ID'',
             [Word ''int'', Word ''AUTOINCREMENT'', Word ''start'', Word ''1'',
              Word ''increment'', Word ''1''])
   \<and> readCopyInto (executed (snd (LoadIdentityMappingsTable exampleEnv exampleDriver)) ! 1) = None
   \<and> readCopyInto (executed (snd (LoadIdentityMappingsTable exampleEnv exampleDriver)) ! 2)
       = Some ((''NS'', ''RUDDER_STAGING_RUDDER_IDENTITY_MAPPINGS''),
               [''MERGE_PROPERTY_TYPE'', ''MERGE_PROPERTY_VALUE'', ''RUDDER_ID'', ''UPDATED_AT''])
   \<and> readAddColumn (executed (snd (LoadIdentityMappingsTable exampleEnv exampleDriver)) ! 2) = None"
proof -
  let ?stg = "''RUDDER_STAGING_RUDDER_IDENTITY_MAPPINGS''"
  have loadFile: "GetSingleLoadFile exampleEnv (identityMappingsTable exampleEnv)
                    = Inr ''s3://bucket/load/file.csv.gz''"
    and conn: "connect exampleEnv = None"
    and staging: "?stg = StagingTableName exampleEnv (identityMappingsTable exampleEnv)"
    and exec: "ExecContext exampleEnv statement = None" for statement
    by (simp_all add: exampleEnv_def)
  have altered: "checkAndIgnoreAlreadyExistError
                   (ExecContext exampleEnv (mappingsAlterStatement exampleDriver ?stg))"
    by (simp add: exec)
  have ns: "plainName (Namespace exampleDriver)" and sn: "plainName ?stg"
    by (simp_all add: exampleDriver_def plainName_def quoteByte_def dquote_def backslash_def)
  have space: "Namespace exampleDriver = ''NS''" by (simp add: exampleDriver_def)
  note sent = LoadIdentityMappingsTable_sends(2)[OF loadFile conn staging exec altered exec exec]
  show ?thesis
    using readAddColumn_mappings[OF ns sn] readCopyInto_mappings[OF ns sn]
    by (simp add: sent readCopyInto_alter readAddColumn_copy space)
qed

subsection \<open>loadTable on an empty upload schema\<close>

lemma dedupStatement_no_panic:
  "strKeys \<noteq> [] \<Longrightarrow> \<exists>statement. dedupStatement env sf tableName stagingTableName strKeys = Returns statement"
  by (cases strKeys) (simp_all add: dedupStatement_def Let_def)

lemma loadTableDedup_no_panic:
  assumes "strKeys \<noteq> []"
  shows "fst (loadTableDedup env sf tableName stagingTableName strKeys) \<noteq> Panics msg"
proof -
  from dedupStatement_no_panic[OF assms] obtain statement
    where "dedupStatement env sf tableName stagingTableName strKeys = Returns statement" by blast
  then show ?thesis
    by (simp add: loadTableDedup_def Let_def split_beta split: option.splits sum.splits)
qed

lemma loadTableStaging_no_panic:
  assumes "tableSchemaInUpload \<noteq> []"
  shows "fst (loadTableStaging env sf tableName tableSchemaInUpload) \<noteq> Panics msg"
proof -
  have "sort (GetColumnsFromTableSchema tableSchemaInUpload) \<noteq> []"
    using assms by (simp add: GetColumnsFromTableSchema_def sort_not_empty)
  from loadTableDedup_no_panic[OF this, of env sf tableName "StagingTableName env tableName" msg]
  show ?thesis
    by (simp add: loadTableStaging_def Let_def split_beta split: option.splits sum.splits)
qed

text \<open>
  C10. When the first record is kept and the upload schema has no column, a call of
  \<open>loadTable\<close> whose connection, temporary table, load file location and COPY succeed
  panics at \<^verbatim>\<open>strKeys[0]\<close> instead of returning an error. With a column in the upload
  schema no call of \<open>loadTable\<close> in these surroundings panics.
\<close>

theorem loadTable_panics_on_empty_schema:
  assumes first: "\<not> ShouldOnDedupUseNewRecord env"
    and conn: "connect env = None"
    and created: "ExecContext env
                    (createTemporaryTableStatement sf (StagingTableName env tableName) tableName) = None"
    and located: "GetSampleLoadFileLocation env tableName = Inr csvObjectLocation"
    and copied: "ExecContext env
                   (copyStatement
                      (schemaIdentifier sf @ ''.'' @ quoted (StagingTableName env tableName)) ''''
                      (GetObjectFolder env (ObjectStorage sf) csvObjectLocation) (authString sf)) = None"
  shows "fst (loadTable env sf tableName [] skipClosingDBSession)
           = Panics ''runtime error: index out of range [0] with length 0''
       \<and> (\<forall>tableSchemaInUpload msg. tableSchemaInUpload \<noteq> [] \<longrightarrow>
             fst (loadTable env sf tableName tableSchemaInUpload skipClosingDBSession) \<noteq> Panics msg)"
proof -
  have stmt: "dedupStatement env sf tableName (StagingTableName env tableName) []
                = Panics ''runtime error: index out of range [0] with length 0''"
    using first by (simp add: dedupStatement_def Let_def)
  have dedup: "loadTableDedup env sf tableName (StagingTableName env tableName) []
                 = (Panics ''runtime error: index out of range [0] with length 0'', [])"
    by (simp add: loadTableDedup_def stmt)
  have join: "JoinWithFormatting [] (\<lambda>idx name. quoted name) '','' = ''''"
    by (simp add: JoinWithFormatting_def)
  have staging: "fst (loadTableStaging env sf tableName [])
                   = Panics ''runtime error: index out of range [0] with length 0''"
    using created copied
    by (simp add: loadTableStaging_def Let_def GetColumnsFromTableSchema_def join located dedup)
  have a: "fst (loadTable env sf tableName [] skipClosingDBSession)
           = Panics ''runtime error: index out of range [0] with length 0''"
    using staging by (simp add: loadTable_def Let_def conn split_beta)
  have b: "fst (loadTable env sf tableName tableSchemaInUpload skipClosingDBSession) \<noteq> Panics msg"
    if "tableSchemaInUpload \<noteq> []" for tableSchemaInUpload msg
    using loadTableStaging_no_panic[OF that, of env sf tableName msg]
    by (simp add: loadTable_def Let_def split_beta split: option.splits)
  from a b show ?thesis by blast
qed

text \<open>
  C10 at an input: in the environment that keeps the first record, \<open>loadTable\<close> and the
  exported \<open>LoadTable\<close> panic on the empty schema.
\<close>

theorem loadTable_panics_on_empty_schema_witness:
  "\<not> ShouldOnDedupUseNewRecord keepFirstEnv
   \<and> connect keepFirstEnv = None
   \<and> fst (loadTable keepFirstEnv exampleDriver ''TRACKS'' [] False)
       = Panics ''runtime error: index out of range [0] with length 0''
   \<and> fst (LoadTable (keepFirstEnv\<lparr>GetTableSchemaInUpload := (\<lambda>tableName. [])\<rparr>) exampleDriver ''TRACKS'')
       = Panics ''runtime error: index out of range [0] with length 0''"
proof -
  have first: "\<not> ShouldOnDedupUseNewRecord keepFirstEnv"
    and conn: "connect keepFirstEnv = None"
    and located: "GetSampleLoadFileLocation keepFirstEnv ''TRACKS'' = Inr ''s3://bucket/load/file.csv.gz''"
    and exec: "ExecContext keepFirstEnv statement = None" for statement
    by (simp_all add: keepFirstEnv_def exampleEnv_def)
  let ?env = "keepFirstEnv\<lparr>GetTableSchemaInUpload := (\<lambda>tableName. [])\<rparr>"
  have first': "\<not> ShouldOnDedupUseNewRecord ?env"
    and conn': "connect ?env = None"
    and located': "GetSampleLoadFileLocation ?env ''TRACKS'' = Inr ''s3://bucket/load/file.csv.gz''"
    and exec': "ExecContext ?env statement = None" for statement
    by (simp_all add: keepFirstEnv_def exampleEnv_def)
  from loadTable_panics_on_empty_schema
         [where env = keepFirstEnv and sf = exampleDriver and tableName = "''TRACKS''"
            and skipClosingDBSession = False, OF first conn exec located exec]
  have a: "fst (loadTable keepFirstEnv exampleDriver ''TRACKS'' [] False)
             = Panics ''runtime error: index out of range [0] with length 0''" by blast
  from loadTable_panics_on_empty_schema
         [where env = ?env and sf = exampleDriver and tableName = "''TRACKS''"
            and skipClosingDBSession = False, OF first' conn' exec' located' exec']
  have "fst (loadTable ?env exampleDriver ''TRACKS'' [] False)
             = Panics ''runtime error: index out of range [0] with length 0''" by blast
  then have b: "fst (LoadTable ?env exampleDriver ''TRACKS'')
             = Panics ''runtime error: index out of range [0] with length 0''"
    by (cases "loadTable ?env exampleDriver ''TRACKS'' [] False") (simp add: LoadTable_def)
  from first conn a b show ?thesis by blast
qed

subsection \<open>The connection of a load\<close>

lemma connectionsOpen_append:
  "connectionsOpen (xs @ ys) = connectionsOpen xs + connectionsOpen ys"
  by (induction xs rule: connectionsOpen.induct) simp_all

lemma loadTableDedup_no_connection:
  "connectionsOpen (snd (loadTableDedup env sf tableName stagingTableName strKeys)) = 0"
  by (simp add: loadTableDedup_def Let_def connectionsOpen_append
      split: outcome.splits prod.splits option.splits sum.splits)

lemma loadTableStaging_no_connection:
  "connectionsOpen (snd (loadTableStaging env sf tableName tableSchemaInUpload)) = 0"
  using loadTableDedup_no_connection
  by (simp add: loadTableStaging_def Let_def connectionsOpen_append split_beta
      split: option.splits sum.splits)

lemma loadTable_closes_its_connection:
  "connect env = None \<Longrightarrow>
   connectionsOpen (snd (loadTable env sf tableName tableSchemaInUpload False)) = 0"
  using loadTableStaging_no_connection
  by (simp add: loadTable_def Let_def connectionsOpen_append split_beta)

text \<open>
  A handle on which the \<^verbatim>\<open>ALTER SESSION\<close> of \<^verbatim>\<open>sf.connect\<close> fails stays open, with
  and without \<open>skipClosingDBSession\<close>.
\<close>

lemma loadTable_connect_leaves_handle:
  "DSN env = None \<Longrightarrow> sqlOpen env = None \<Longrightarrow> alterSession env = Some err \<Longrightarrow>
   connectionsOpen (snd (loadTable env sf tableName tableSchemaInUpload skipClosingDBSession)) = 1"
  by (simp add: loadTable_def Let_def connect_def connectEvents_def)

lemma loadTable_keeps_its_connection:
  "connect env = None \<Longrightarrow>
   connectionsOpen (snd (loadTable env sf tableName tableSchemaInUpload True)) = 1"
  using loadTableStaging_no_connection
  by (simp add: loadTable_def Let_def connectionsOpen_append split_beta)

lemma loadUsers_no_connection:
  "connectionsOpen (snd (loadUsers env sf identifiesSchema resp)) = 0"
  by (simp add: loadUsers_def Let_def connectionsOpen_append
      split: prod.splits option.splits sum.splits)

lemma loadUserTables_connection:
  assumes "connect env = None"
  shows "connectionsOpen (snd (loadUserTables env sf))
           = (case fst (loadTable env sf (identifiesTable env)
                          (GetTableSchemaInUpload env (identifiesTable env)) True) of
                Returns (Inr resp) \<Rightarrow> 0 | Returns (Inl err) \<Rightarrow> 1 | Panics msg \<Rightarrow> 1)"
  using loadTable_keeps_its_connection[OF assms, of sf "identifiesTable env"
          "GetTableSchemaInUpload env (identifiesTable env)"]
        loadUsers_no_connection
  by (simp add: loadUserTables_def Let_def connectionsOpen_append split_beta
      split: outcome.splits sum.splits prod.splits)

text \<open>
  C9 fails on the code. When the creation of the temporary table fails, \<open>loadTable\<close>
  called with \<open>skipClosingDBSession\<close> returns the error with its connection open, and
  \<open>loadUserTables\<close>, which returns before it registers its deferred close, leaves that
  connection open; the same call of \<open>loadTable\<close> without \<open>skipClosingDBSession\<close> closes it.
\<close>

theorem loadUserTables_leaves_connection_open:
  "fst (loadTable failingEnv exampleDriver ''IDENTIFIES''
          (GetTableSchemaInUpload failingEnv ''IDENTIFIES'') True)
     = Returns (Inl (Wrapf ''create temporary table: '' (PlainError ''Table does not exist'')))
   \<and> connectionsOpen (snd (loadTable failingEnv exampleDriver ''IDENTIFIES''
          (GetTableSchemaInUpload failingEnv ''IDENTIFIES'') True)) = 1
   \<and> connectionsOpen (snd (loadUserTables failingEnv exampleDriver)) = 1
   \<and> connectionsOpen (snd (loadTable failingEnv exampleDriver ''IDENTIFIES''
          (GetTableSchemaInUpload failingEnv ''IDENTIFIES'') False)) = 0"
proof -
  have conn: "connect failingEnv = None" and it: "identifiesTable failingEnv = ''IDENTIFIES''"
    and exec: "ExecContext failingEnv statement = Some (PlainError ''Table does not exist'')"
    for statement
    by (simp_all add: failingEnv_def exampleEnv_def)
  have a: "fst (loadTable failingEnv exampleDriver ''IDENTIFIES''
          (GetTableSchemaInUpload failingEnv ''IDENTIFIES'') True)
     = Returns (Inl (Wrapf ''create temporary table: '' (PlainError ''Table does not exist'')))"
    by (simp add: loadTable_def loadTableStaging_def Let_def conn exec)
  have b: "connectionsOpen (snd (loadTable failingEnv exampleDriver ''IDENTIFIES''
          (GetTableSchemaInUpload failingEnv ''IDENTIFIES'') True)) = 1"
    by (rule loadTable_keeps_its_connection[OF conn])
  have c: "connectionsOpen (snd (loadUserTables failingEnv exampleDriver)) = 1"
    using loadUserTables_connection[OF conn, of exampleDriver] a by (simp add: it)
  have d: "connectionsOpen (snd (loadTable failingEnv exampleDriver ''IDENTIFIES''
          (GetTableSchemaInUpload failingEnv ''IDENTIFIES'') False)) = 0"
    by (rule loadTable_closes_its_connection[OF conn])
  from a b c d show ?thesis by blast
qed

subsection \<open>The COPY statement of loadTable\<close>

lemma sort_same_columns:
  "mset xs = mset ys \<Longrightarrow> sort xs = sort (ys :: string list)"
  by (rule properties_for_sort) simp_all

text \<open>
  C8. A call of \<open>loadTable\<close> that gets as far as the COPY sends, after the creation of
  the temporary table, the COPY statement of the template: the staging table with the
  column names of the upload schema in parentheses, each in double quotes, joined by
  commas and sorted, so that another iteration order of the schema gives the same
  statement; then the load folder and the authentication clause, the pattern
  \<^verbatim>\<open>.*\.csv\.gz\<close>, the CSV format with \<^verbatim>\<open>FIELD_OPTIONALLY_ENCLOSED_BY = '"'\<close> and
  \<^verbatim>\<open>ESCAPE_UNENCLOSED_FIELD = NONE\<close>, and \<^verbatim>\<open>TRUNCATECOLUMNS = TRUE\<close>.
\<close>

theorem loadTable_copy_statement:
  assumes conn: "connect env = None"
    and created: "ExecContext env
                    (createTemporaryTableStatement sf (StagingTableName env tableName) tableName) = None"
    and located: "GetSampleLoadFileLocation env tableName = Inr csvObjectLocation"
    and columns: "sortedColumnNames
                    = Join (map quoted (sort (GetColumnsFromTableSchema tableSchemaInUpload))) '',''"
    and statement: "copy = copyStatement
                      (schemaIdentifier sf @ ''.'' @ quoted (StagingTableName env tableName))
                      sortedColumnNames
                      (GetObjectFolder env (ObjectStorage sf) csvObjectLocation) (authString sf)"
  shows "take 2 (executed (snd (loadTable env sf tableName tableSchemaInUpload skipClosingDBSession)))
           = [createTemporaryTableStatement sf (StagingTableName env tableName) tableName, copy]
       \<and> sorted (sort (GetColumnsFromTableSchema tableSchemaInUpload))
       \<and> mset (sort (GetColumnsFromTableSchema tableSchemaInUpload))
           = mset (GetColumnsFromTableSchema tableSchemaInUpload)
       \<and> (\<forall>otherOrder. mset otherOrder = mset tableSchemaInUpload \<longrightarrow>
             take 2 (executed (snd (loadTable env sf tableName otherOrder skipClosingDBSession)))
               = [createTemporaryTableStatement sf (StagingTableName env tableName) tableName, copy])
       \<and> copy = ''\<newline>'' @ tabs 2 @ ''COPY INTO\<newline>'' @ tabs 3
                  @ schemaIdentifier sf @ ''.'' @ quoted (StagingTableName env tableName)
                  @ ''('' @ sortedColumnNames @ '')\<newline>'' @ tabs 2 @ ''FROM\<newline>'' @ tabs 2 @ ''  ''
                  @ [squote] @ GetObjectFolder env (ObjectStorage sf) csvObjectLocation @ [squote]
                  @ '' '' @ authString sf @ ''\<newline>'' @ tabs 2
                  @ ''PATTERN = '' @ [squote] @ ''.*'' @ [backslash] @ ''.csv'' @ [backslash] @ ''.gz''
                  @ [squote] @ ''\<newline>'' @ tabs 2
                  @ ''FILE_FORMAT = ( TYPE = csv FIELD_OPTIONALLY_ENCLOSED_BY = '' @ [squote]
                  @ [dquote] @ [squote] @ '' ESCAPE_UNENCLOSED_FIELD = NONE)\<newline>'' @ tabs 2
                  @ ''TRUNCATECOLUMNS = TRUE;\<newline>''"
proof -
  let ?create = "createTemporaryTableStatement sf (StagingTableName env tableName) tableName"
  have join: "JoinWithFormatting keys (\<lambda>idx name. quoted name) '','' = Join (map quoted keys) '',''"
    for keys by (rule JoinWithFormatting_plain)
  have run: "take 2 (executed (snd (loadTable env sf tableName schema skipClosingDBSession)))
               = [?create, copy]"
    if "sort (GetColumnsFromTableSchema schema)
          = sort (GetColumnsFromTableSchema tableSchemaInUpload)" for schema
    using created statement columns
    by (simp add: loadTable_def loadTableStaging_def Let_def conn located join that
        executed_append split_beta split: option.splits)
  have a: "take 2 (executed (snd (loadTable env sf tableName tableSchemaInUpload skipClosingDBSession)))
           = [?create, copy]"
    by (rule run) simp
  have b: "take 2 (executed (snd (loadTable env sf tableName otherOrder skipClosingDBSession)))
               = [?create, copy]"
    if "mset otherOrder = mset tableSchemaInUpload" for otherOrder
  proof (rule run)
    have "mset (map fst otherOrder) = mset (map fst tableSchemaInUpload)"
      using that by (metis mset_map)
    then show "sort (GetColumnsFromTableSchema otherOrder)
                 = sort (GetColumnsFromTableSchema tableSchemaInUpload)"
      unfolding GetColumnsFromTableSchema_def by (rule sort_same_columns)
  qed
  have c: "sorted (sort (GetColumnsFromTableSchema tableSchemaInUpload))" by simp
  have d: "mset (sort (GetColumnsFromTableSchema tableSchemaInUpload))
             = mset (GetColumnsFromTableSchema tableSchemaInUpload)" by simp
  have e: "copy = ''\<newline>'' @ tabs 2 @ ''COPY INTO\<newline>'' @ tabs 3
                  @ schemaIdentifier sf @ ''.'' @ quoted (StagingTableName env tableName)
                  @ ''('' @ sortedColumnNames @ '')\<newline>'' @ tabs 2 @ ''FROM\<newline>'' @ tabs 2 @ ''  ''
                  @ [squote] @ GetObjectFolder env (ObjectStorage sf) csvObjectLocation @ [squote]
                  @ '' '' @ authString sf @ ''\<newline>'' @ tabs 2
                  @ ''PATTERN = '' @ [squote] @ ''.*'' @ [backslash] @ ''.csv'' @ [backslash] @ ''.gz''
                  @ [squote] @ ''\<newline>'' @ tabs 2
                  @ ''FILE_FORMAT = ( TYPE = csv FIELD_OPTIONALLY_ENCLOSED_BY = '' @ [squote]
                  @ [dquote] @ [squote] @ '' ESCAPE_UNENCLOSED_FIELD = NONE)\<newline>'' @ tabs 2
                  @ ''TRUNCATECOLUMNS = TRUE;\<newline>''"
    by (simp add: statement copyStatement_def)
  from a b c d e show ?thesis by blast
qed

text \<open>
  C8 at an input: the schema with the columns \<open>V\<close>, \<open>ID\<close>, \<open>RECEIVED_AT\<close> gives the
  column list \<^verbatim>\<open>"ID","RECEIVED_AT","V"\<close> in two iteration orders.
\<close>

theorem loadTable_copy_statement_witness:
  "connect exampleEnv = None
   \<and> Join (map quoted (sort (GetColumnsFromTableSchema
         [(''V'', ''string''), (''ID'', ''string''), (''RECEIVED_AT'', ''datetime'')]))) '',''
       = concat [[dquote], ''ID'', [dquote], '','', [dquote], ''RECEIVED_AT'', [dquote], '','',
                 [dquote], ''V'', [dquote]]
   \<and> take 2 (executed (snd (loadTable exampleEnv exampleDriver ''TRACKS''
         [(''V'', ''string''), (''ID'', ''string''), (''RECEIVED_AT'', ''datetime'')] False)))
       = [createTemporaryTableStatement exampleDriver ''RUDDER_STAGING_TRACKS'' ''TRACKS'',
          copyStatement (schemaIdentifier exampleDriver @ ''.'' @ quoted ''RUDDER_STAGING_TRACKS'')
            (concat [[dquote], ''ID'', [dquote], '','', [dquote], ''RECEIVED_AT'', [dquote], '','',
                     [dquote], ''V'', [dquote]])
            ''s3://bucket/load'' (authString exampleDriver)]
   \<and> take 2 (executed (snd (loadTable exampleEnv exampleDriver ''TRACKS''
         [(''RECEIVED_AT'', ''datetime''), (''V'', ''string''), (''ID'', ''string'')] False)))
       = [createTemporaryTableStatement exampleDriver ''RUDDER_STAGING_TRACKS'' ''TRACKS'',
          copyStatement (schemaIdentifier exampleDriver @ ''.'' @ quoted ''RUDDER_STAGING_TRACKS'')
            (concat [[dquote], ''ID'', [dquote], '','', [dquote], ''RECEIVED_AT'', [dquote], '','',
                     [dquote], ''V'', [dquote]])
            ''s3://bucket/load'' (authString exampleDriver)]"
proof -
  let ?schema = "[(''V'', ''string''), (''ID'', ''string''), (''RECEIVED_AT'', ''datetime'')]"
  let ?other = "[(''RECEIVED_AT'', ''datetime''), (''V'', ''string''), (''ID'', ''string'')]"
  let ?cols = "concat [[dquote], ''ID'', [dquote], '','', [dquote], ''RECEIVED_AT'', [dquote], '','',
                 [dquote], ''V'', [dquote]]"
  have conn: "connect exampleEnv = None"
    and created: "ExecContext exampleEnv
        (createTemporaryTableStatement exampleDriver (StagingTableName exampleEnv ''TRACKS'') ''TRACKS'')
          = None"
    and located: "GetSampleLoadFileLocation exampleEnv ''TRACKS'' = Inr ''s3://bucket/load/file.csv.gz''"
    and stg: "StagingTableName exampleEnv ''TRACKS'' = ''RUDDER_STAGING_TRACKS''"
    and folder: "GetObjectFolder exampleEnv (ObjectStorage exampleDriver) ''s3://bucket/load/file.csv.gz''
                   = ''s3://bucket/load''"
    by (simp_all add: exampleEnv_def)
  have columns: "?cols = Join (map quoted (sort (GetColumnsFromTableSchema ?schema))) '',''"
    by (simp add: GetColumnsFromTableSchema_def quoted_def quoteByte_def dquote_def backslash_def)
  have other: "mset ?other = mset ?schema" by (simp add: add_mset_commute)
  from loadTable_copy_statement[OF conn created located columns refl, of False] other
  have "take 2 (executed (snd (loadTable exampleEnv exampleDriver ''TRACKS'' ?schema False)))
       = [createTemporaryTableStatement exampleDriver ''RUDDER_STAGING_TRACKS'' ''TRACKS'',
          copyStatement (schemaIdentifier exampleDriver @ ''.'' @ quoted ''RUDDER_STAGING_TRACKS'')
            ?cols ''s3://bucket/load'' (authString exampleDriver)]
   \<and> take 2 (executed (snd (loadTable exampleEnv exampleDriver ''TRACKS'' ?other False)))
       = [createTemporaryTableStatement exampleDriver ''RUDDER_STAGING_TRACKS'' ''TRACKS'',
          copyStatement (schemaIdentifier exampleDriver @ ''.'' @ quoted ''RUDDER_STAGING_TRACKS'')
            ?cols ''s3://bucket/load'' (authString exampleDriver)]"
    unfolding stg folder by blast
  with conn columns show ?thesis by simp
qed


subsection \<open>Credentials in the log\<close>

lemma occursIn_here: "occursIn sub (sub @ post)"
proof (cases "sub @ post")
  case Nil
  then show ?thesis by simp
next
  case (Cons a list)
  have "take (length sub) (sub @ post) = sub" by simp
  then have "take (length sub) (a # list) = sub" by (simp only: Cons)
  then have "occursIn sub (a # list)" by simp
  then show ?thesis by (simp only: Cons)
qed

lemma occursIn_middle: "occursIn sub (pre @ sub @ post)"
  by (induction pre) (auto simp: occursIn_here)

lemma authString_credentials:
  assumes "useRudderObjectStorage sf \<or> (CloudProvider sf = ''AWS'' \<and> storageIntegrationValue sf = '''')"
    and "temporaryS3Cred sf = (tempAccessKeyId, tempSecretAccessKey, token)"
  shows "authString sf =
           (''CREDENTIALS = (AWS_KEY_ID='' @ [squote] @ tempAccessKeyId @ [squote] @ '' '')
           @ (''AWS_SECRET_KEY='' @ [squote] @ tempSecretAccessKey @ [squote])
           @ ('' AWS_TOKEN='' @ [squote] @ token @ [squote] @ '')'')"
  using assms by (auto simp: authString_def)

lemma mappingsCopyStatement_auth:
  "\<exists>pre post. mappingsCopyStatement target loadLocation auth = pre @ auth @ post"
proof -
  have "mappingsCopyStatement target loadLocation auth
          = (concat [''COPY INTO '', target, ''('', [dquote], ''MERGE_PROPERTY_TYPE'', [dquote], '', '',
          [dquote], ''MERGE_PROPERTY_VALUE'', [dquote], '', '', [dquote], ''RUDDER_ID'',
          [dquote], '', '', [dquote], ''UPDATED_AT'', [dquote], '') FROM '', [squote],
          loadLocation, [squote], '' '']) @ auth @
            (concat ['' PATTERN = '', [squote], ''.*'', [backslash],
          ''.csv'', [backslash], ''.gz'', [squote], ''\<newline>'',
        tabs 2, ''FILE_FORMAT = ( TYPE = csv FIELD_OPTIONALLY_ENCLOSED_BY = '', [squote],
          [dquote], [squote], '' ESCAPE_UNENCLOSED_FIELD = NONE ) TRUNCATECOLUMNS = TRUE''])"
    by (simp add: mappingsCopyStatement_def)
  then show ?thesis by blast
qed

lemma LoadIdentityMappingsTable_logs_copy:
  assumes loadFile: "GetSingleLoadFile env (identityMappingsTable env) = Inr location"
    and conn: "connect env = None"
    and created: "ExecContext env
       (mappingsCreateStatement env sf (StagingTableName env (identityMappingsTable env))) = None"
    and altered: "checkAndIgnoreAlreadyExistError
       (ExecContext env (mappingsAlterStatement sf (StagingTableName env (identityMappingsTable env))))"
  shows "Logged (''SF: Dedup records for table:'' @ identityMappingsTable env
                  @ '' using staging table: ''
                  @ mappingsCopyStatement
                      (schemaIdentifier sf @ ''.''
                         @ quoted (StagingTableName env (identityMappingsTable env)))
                      (GetObjectLocation env (ObjectStorage sf) location) (authString sf)
                  @ ''\<newline>'')
           \<in> set (snd (LoadIdentityMappingsTable env sf))"
proof -
  have tail: "Logged (''SF: Dedup records for table:'' @ identityMappingsTable env
                  @ '' using staging table: ''
                  @ mappingsCopyStatement
                      (schemaIdentifier sf @ ''.''
                         @ quoted (StagingTableName env (identityMappingsTable env)))
                      (GetObjectLocation env (ObjectStorage sf) location) (authString sf)
                  @ ''\<newline>'')
           \<in> set (snd (loadIdentityMappingsCopyAndMerge env sf location
                          (StagingTableName env (identityMappingsTable env)) evs))" for evs
    by (simp add: loadIdentityMappingsCopyAndMerge_def Let_def split: option.splits)
  show ?thesis
    using altered created tail
    by (cases "ExecContext env (mappingsAlterStatement sf
                  (StagingTableName env (identityMappingsTable env)))")
       (simp_all add: LoadIdentityMappingsTable_def Let_def loadFile conn)
qed

lemma emitted_logged:
  "Logged line \<in> set events \<Longrightarrow> P line \<Longrightarrow> list_ex P (emittedTexts events)"
  by (force simp: emittedTexts_def list_ex_iff)

lemma LoadIdentityMappingsTable_emits_secret:
  assumes loadFile: "GetSingleLoadFile env (identityMappingsTable env) = Inr location"
    and conn: "connect env = None"
    and created: "ExecContext env
       (mappingsCreateStatement env sf (StagingTableName env (identityMappingsTable env))) = None"
    and altered: "checkAndIgnoreAlreadyExistError
       (ExecContext env (mappingsAlterStatement sf (StagingTableName env (identityMappingsTable env))))"
    and aws: "useRudderObjectStorage sf \<or> (CloudProvider sf = ''AWS'' \<and> storageIntegrationValue sf = '''')"
    and cred: "temporaryS3Cred sf = (tempAccessKeyId, tempSecretAccessKey, token)"
  shows "list_ex (occursIn (''AWS_SECRET_KEY='' @ [squote] @ tempSecretAccessKey @ [squote]))
           (emittedTexts (snd (LoadIdentityMappingsTable env sf)))"
proof -
  let ?secret = "''AWS_SECRET_KEY='' @ [squote] @ tempSecretAccessKey @ [squote]"
  obtain pre post where copy: "mappingsCopyStatement
                      (schemaIdentifier sf @ ''.''
                         @ quoted (StagingTableName env (identityMappingsTable env)))
                      (GetObjectLocation env (ObjectStorage sf) location) (authString sf)
                    = pre @ authString sf @ post"
    using mappingsCopyStatement_auth by blast
  have "occursIn ?secret (a @ (pre @ (b @ ?secret @ c) @ post) @ d)" for a b c d
    using occursIn_middle[of ?secret "a @ pre @ b" "c @ post @ d"] by simp
  then have "occursIn ?secret (a @ (pre @ authString sf @ post) @ d)" for a d
    using authString_credentials[OF aws cred] by metis
  then have "occursIn ?secret (''SF: Dedup records for table:'' @ identityMappingsTable env
                  @ '' using staging table: ''
                  @ mappingsCopyStatement
                      (schemaIdentifier sf @ ''.''
                         @ quoted (StagingTableName env (identityMappingsTable env)))
                      (GetObjectLocation env (ObjectStorage sf) location) (authString sf)
                  @ ''\<newline>'')"
    unfolding copy
    by (metis append.assoc)
  with LoadIdentityMappingsTable_logs_copy[OF loadFile conn created altered]
  show ?thesis by (rule emitted_logged)
qed

lemmas text_defs = quoted_def quoteByte_def dquote_def backslash_def squote_def tab_def tabs_def
  schemaIdentifier_def assignmentStart_def

lemma masked_copy:
  "maskSecrets (copyStatement (schemaIdentifier exampleDriver @ ''.'' @ quoted ''RUDDER_STAGING_TRACKS'')
      (Join (map quoted [''ID'', ''RECEIVED_AT'', ''V'']) '','') ''s3://bucket/load''
      (authString exampleDriver))
   = copyStatement (schemaIdentifier exampleDriver @ ''.'' @ quoted ''RUDDER_STAGING_TRACKS'')
      (Join (map quoted [''ID'', ''RECEIVED_AT'', ''V'']) '','') ''s3://bucket/load''
      maskedCredentials"
  by code_simp

lemma loadTable_logs_sanitised:
  assumes conn: "connect env = None"
    and created: "ExecContext env
                    (createTemporaryTableStatement sf (StagingTableName env tableName) tableName) = None"
    and located: "GetSampleLoadFileLocation env tableName = Inr csvObjectLocation"
    and sanitised: "ReplaceMultiRegex env
                      (copyStatement
                         (schemaIdentifier sf @ ''.'' @ quoted (StagingTableName env tableName))
                         (Join (map quoted (sort (GetColumnsFromTableSchema tableSchemaInUpload))) '','')
                         (GetObjectFolder env (ObjectStorage sf) csvObjectLocation) (authString sf))
                    = Inr sanitisedQuery"
  shows "Logw ''copy command'' [(FieldTableName, tableName), (FieldQuery, sanitisedQuery)]
           \<in> set (snd (loadTable env sf tableName tableSchemaInUpload skipClosingDBSession))"
  using created sanitised
  by (simp add: loadTable_def loadTableStaging_def Let_def conn located JoinWithFormatting_plain
      split_beta split: option.splits)

text \<open>
  C3 fails on the code. For an AWS destination without a storage integration,
  \<open>LoadIdentityMappingsTable\<close> gives its COPY statement to the logger as it is, so the
  emitted text has the secret key in it; \<open>loadTable\<close> in the same surroundings logs the
  COPY statement with the three credentials masked.
\<close>

theorem LoadIdentityMappingsTable_logs_credentials:
  "list_ex (occursIn (''AWS_SECRET_KEY='' @ [squote] @ ''s3cr3tValue'' @ [squote]))
     (emittedTexts (snd (LoadIdentityMappingsTable exampleEnv exampleDriver)))
   \<and> Logw ''copy command''
         [(FieldTableName, ''TRACKS''),
          (FieldQuery,
           copyStatement (schemaIdentifier exampleDriver @ ''.'' @ quoted ''RUDDER_STAGING_TRACKS'')
             (Join (map quoted [''ID'', ''RECEIVED_AT'', ''V'']) '','') ''s3://bucket/load''
             maskedCredentials)]
       \<in> set (snd (loadTable exampleEnv exampleDriver ''TRACKS''
                      (GetTableSchemaInUpload exampleEnv ''TRACKS'') False))"
proof -
  have loadFile: "GetSingleLoadFile exampleEnv (identityMappingsTable exampleEnv)
                    = Inr ''s3://bucket/load/file.csv.gz''"
    and conn: "connect exampleEnv = None"
    and exec: "ExecContext exampleEnv statement = None"
    and located: "GetSampleLoadFileLocation exampleEnv ''TRACKS'' = Inr ''s3://bucket/load/file.csv.gz''"
    and stg: "StagingTableName exampleEnv ''TRACKS'' = ''RUDDER_STAGING_TRACKS''"
    and folder: "GetObjectFolder exampleEnv (ObjectStorage exampleDriver) ''s3://bucket/load/file.csv.gz''
                   = ''s3://bucket/load''"
    and schema: "GetTableSchemaInUpload exampleEnv ''TRACKS''
                   = [(''V'', ''string''), (''ID'', ''string''), (''RECEIVED_AT'', ''datetime'')]"
    and mask: "ReplaceMultiRegex exampleEnv query = Inr (maskSecrets query)"
    for statement query
    by (simp_all add: exampleEnv_def)
  have altered: "checkAndIgnoreAlreadyExistError (ExecContext exampleEnv statement)" for statement
    by (simp add: exec)
  have aws: "useRudderObjectStorage exampleDriver
               \<or> (CloudProvider exampleDriver = ''AWS'' \<and> storageIntegrationValue exampleDriver = '''')"
    and cred: "temporaryS3Cred exampleDriver = (''AKIAEXAMPLE'', ''s3cr3tValue'', ''t0kenValue'')"
    by (simp_all add: exampleDriver_def)
  have a: "list_ex (occursIn (''AWS_SECRET_KEY='' @ [squote] @ ''s3cr3tValue'' @ [squote]))
     (emittedTexts (snd (LoadIdentityMappingsTable exampleEnv exampleDriver)))"
    by (rule LoadIdentityMappingsTable_emits_secret[OF loadFile conn exec altered aws cred])
  have sorted: "sort (GetColumnsFromTableSchema
                  [(''V'', ''string''), (''ID'', ''string''), (''RECEIVED_AT'', ''datetime'')])
                = [''ID'', ''RECEIVED_AT'', ''V'']"
    by (simp add: GetColumnsFromTableSchema_def)
  have sanitised: "ReplaceMultiRegex exampleEnv
                      (copyStatement
                         (schemaIdentifier exampleDriver @ ''.''
                            @ quoted (StagingTableName exampleEnv ''TRACKS''))
                         (Join (map quoted (sort (GetColumnsFromTableSchema
                            (GetTableSchemaInUpload exampleEnv ''TRACKS'')))) '','')
                         (GetObjectFolder exampleEnv (ObjectStorage exampleDriver)
                            ''s3://bucket/load/file.csv.gz'') (authString exampleDriver))
                    = Inr (copyStatement
                         (schemaIdentifier exampleDriver @ ''.'' @ quoted ''RUDDER_STAGING_TRACKS'')
                         (Join (map quoted [''ID'', ''RECEIVED_AT'', ''V'']) '','') ''s3://bucket/load''
                         maskedCredentials)"
    unfolding mask stg folder schema sorted by (simp only: masked_copy)
  have b: "Logw ''copy command''
         [(FieldTableName, ''TRACKS''),
          (FieldQuery,
           copyStatement (schemaIdentifier exampleDriver @ ''.'' @ quoted ''RUDDER_STAGING_TRACKS'')
             (Join (map quoted [''ID'', ''RECEIVED_AT'', ''V'']) '','') ''s3://bucket/load''
             maskedCredentials)]
       \<in> set (snd (loadTable exampleEnv exampleDriver ''TRACKS''
                      (GetTableSchemaInUpload exampleEnv ''TRACKS'') False))"
    by (rule loadTable_logs_sanitised[OF conn exec located sanitised])
  from a b show ?thesis by blast
qed

subsection \<open>CreateSchema and CreateTable\<close>

lemma CreateSchema_skips_existing:
  assumes "scanExists h d (schemaExistsQuery sf) = Inr True"
  shows "CreateSchema h sf d
           = (None, d, [Logged (''SF: Skipping creating schema: '' @ schemaIdentifier sf
                                 @ '' since it already exists'')])"
  using assms by (simp add: CreateSchema_def schemaExists_def)

lemma CreateSchema_success:
  assumes "CreateSchema h sf d = (None, d', events)"
  shows "(scanExists h d (schemaExistsQuery sf) = Inr True \<and> d' = d)
       \<or> execContext h d (createSchemaStatement sf) = (None, d')"
  using assms
  by (auto simp: CreateSchema_def schemaExists_def createSchema_def Let_def
      split: sum.splits if_splits bool.splits prod.splits)

lemma createTableStatement_head:
  "createTableStatement dataTypesMap sf tableName columns
     = createTableHead sf tableName @ (ColumnsWithDataTypes dataTypesMap columns '''' @ '' )'')"
  by (simp add: createTableStatement_def createTableHead_def)

text \<open>
  C5. On a backend that answers the existence query with true once its
  \<^verbatim>\<open>CREATE SCHEMA IF NOT EXISTS\<close> succeeded, and for which a \<^verbatim>\<open>CREATE TABLE IF NOT EXISTS\<close>
  on a table created that way gives no error and changes nothing: a \<open>CreateSchema\<close> that
  follows a successful \<open>CreateSchema\<close> returns nil, sends no statement and leaves the
  backend as it is, and a \<open>CreateTable\<close> that follows a successful \<open>CreateTable\<close> of the
  same table returns nil and leaves the backend as it is. \<open>CreateSchema\<close> sends nothing
  when the existence query answers true, and the statements of the two methods are of
  the \<^verbatim>\<open>IF NOT EXISTS\<close> form.
\<close>

theorem CreateSchema_CreateTable_idempotent:
  assumes schemaContract: "createdSchemaExists h sf"
    and tableContract: "ifNotExistsIsNoOp h sf tableName"
  shows "(\<forall>d d' events. CreateSchema h sf d = (None, d', events) \<longrightarrow>
            (\<exists>again. CreateSchema h sf d' = (None, d', again) \<and> executed again = []))
       \<and> (\<forall>d d' events columns columns'.
            CreateTable dataTypesMap h sf tableName columns d = (None, d', events) \<longrightarrow>
            (\<exists>again. CreateTable dataTypesMap h sf tableName columns' d' = (None, d', again)))
       \<and> (\<forall>d. scanExists h d (schemaExistsQuery sf) = Inr True \<longrightarrow>
            executed (snd (snd (CreateSchema h sf d))) = [])
       \<and> createSchemaStatement sf = ''CREATE SCHEMA IF NOT EXISTS '' @ quoted (Namespace sf)
       \<and> (\<forall>columns d. executed (snd (snd (CreateTable dataTypesMap h sf tableName columns d)))
            = [''CREATE TABLE IF NOT EXISTS '' @ quoted (Namespace sf) @ ''.'' @ quoted tableName
                 @ '' ( '' @ ColumnsWithDataTypes dataTypesMap columns '''' @ '' )''])"
proof -
  have a: "\<exists>again. CreateSchema h sf d' = (None, d', again) \<and> executed again = []"
    if first: "CreateSchema h sf d = (None, d', events)" for d d' events
  proof -
    have "scanExists h d' (schemaExistsQuery sf) = Inr True"
      using CreateSchema_success[OF first] schemaContract
      by (auto simp: createdSchemaExists_def)
    from CreateSchema_skips_existing[OF this] show ?thesis by simp
  qed
  have b: "\<exists>again. CreateTable dataTypesMap h sf tableName columns' d' = (None, d', again)"
    if first: "CreateTable dataTypesMap h sf tableName columns d = (None, d', events)"
    for d d' events columns columns'
  proof -
    have "execContext h d (createTableHead sf tableName
            @ (ColumnsWithDataTypes dataTypesMap columns '''' @ '' )'')) = (None, d')"
      using first
      by (auto simp: CreateTable_def createTable_def Let_def createTableStatement_head
          split: prod.splits)
    then have "execContext h d' (createTableHead sf tableName
            @ (ColumnsWithDataTypes dataTypesMap columns' '''' @ '' )'')) = (None, d')"
      using tableContract unfolding ifNotExistsIsNoOp_def by blast
    then show ?thesis
      by (simp add: CreateTable_def createTable_def Let_def createTableStatement_head)
  qed
  have c: "executed (snd (snd (CreateSchema h sf d))) = []"
    if "scanExists h d (schemaExistsQuery sf) = Inr True" for d
    by (simp add: CreateSchema_skips_existing[OF that])
  have d: "createSchemaStatement sf = ''CREATE SCHEMA IF NOT EXISTS '' @ quoted (Namespace sf)"
    by (simp add: createSchemaStatement_def schemaIdentifier_def)
  have e: "executed (snd (snd (CreateTable dataTypesMap h sf tableName columns d)))
            = [''CREATE TABLE IF NOT EXISTS '' @ quoted (Namespace sf) @ ''.'' @ quoted tableName
                 @ '' ( '' @ ColumnsWithDataTypes dataTypesMap columns '''' @ '' )'']" for columns d
    by (simp add: CreateTable_def createTable_def Let_def createTableStatement_def
        schemaIdentifier_def split_beta)
  from a b c d e show ?thesis by blast
qed

text \<open>
  C5 at an input: on the backend whose state says whether the schema is there, the
  first \<open>CreateSchema\<close> sends the statement and the second one sends nothing; both return
  nil.
\<close>

theorem CreateSchema_CreateTable_idempotent_witness:
  "createdSchemaExists toyHandle exampleDriver
   \<and> ifNotExistsIsNoOp toyHandle exampleDriver ''TRACKS''
   \<and> fst (CreateSchema toyHandle exampleDriver False) = None
   \<and> fst (snd (CreateSchema toyHandle exampleDriver False)) = True
   \<and> executed (snd (snd (CreateSchema toyHandle exampleDriver False)))
       = [createSchemaStatement exampleDriver]
   \<and> fst (CreateSchema toyHandle exampleDriver True) = None
   \<and> fst (snd (CreateSchema toyHandle exampleDriver True)) = True
   \<and> executed (snd (snd (CreateSchema toyHandle exampleDriver True))) = []
   \<and> fst (CreateTable (\<lambda>t. ''varchar'') toyHandle exampleDriver ''TRACKS''
            [(''ID'', ''string'')] True) = None"
proof -
  have sc: "createdSchemaExists toyHandle exampleDriver"
    by (simp add: createdSchemaExists_def toyHandle_def)
  have tc: "ifNotExistsIsNoOp toyHandle exampleDriver ''TRACKS''"
    by (simp add: ifNotExistsIsNoOp_def toyHandle_def)
  have first: "CreateSchema toyHandle exampleDriver False
                 = (None, True,
                    [Logged (''SF: Creating schema name in snowflake for '' @ Namespace exampleDriver
                       @ '':'' @ DestinationID exampleDriver @ '' : ''
                       @ createSchemaStatement exampleDriver),
                     Executed (createSchemaStatement exampleDriver)])"
    by (simp add: CreateSchema_def schemaExists_def createSchema_def toyHandle_def Let_def)
  have table: "CreateTable (\<lambda>t. ''varchar'') toyHandle exampleDriver ''TRACKS'' [(''ID'', ''string'')] False
                 = (None, True,
                    [Logged (''Creating table in snowflake for SF:'' @ DestinationID exampleDriver
                       @ '' : '' @ createTableStatement (\<lambda>t. ''varchar'') exampleDriver ''TRACKS''
                                     [(''ID'', ''string'')]),
                     Executed (createTableStatement (\<lambda>t. ''varchar'') exampleDriver ''TRACKS''
                                     [(''ID'', ''string'')])])"
    by (simp add: CreateTable_def createTable_def toyHandle_def Let_def)
  from CreateSchema_CreateTable_idempotent[OF sc tc, of "\<lambda>t. ''varchar''"] first table
  obtain again again'
    where "CreateSchema toyHandle exampleDriver True = (None, True, again)" "executed again = []"
      and "CreateTable (\<lambda>t. ''varchar'') toyHandle exampleDriver ''TRACKS'' [(''ID'', ''string'')] True
             = (None, True, again')"
    by blast
  with sc tc first show ?thesis by simp
qed

subsection \<open>FetchSchema\<close>

lemma typeOfColumn_ensureTable:
  "typeOfColumn (ensureTable schema t') t c = typeOfColumn schema t c"
  by (simp add: typeOfColumn_def ensureTable_def split: option.splits)

lemma typeOfColumn_setColumn:
  "typeOfColumn (setColumn schema t' c' v) t c
     = (if t = t' \<and> c = c' then Some v else typeOfColumn schema t c)"
  by (simp add: typeOfColumn_def setColumn_def split: option.splits)

lemma ensureTable_known: "ensureTable schema t' t \<noteq> None \<longleftrightarrow> schema t \<noteq> None \<or> t = t'"
  by (simp add: ensureTable_def split: option.splits)

lemma setColumn_known: "setColumn schema t' c' v t \<noteq> None \<longleftrightarrow> schema t \<noteq> None \<or> t = t'"
  by (simp add: setColumn_def)

lemma fetchRows_returns:
  "\<exists>schema' unrecognized' events'.
     fetchRows ty (map Inr rows) schema unrecognized events
       = (Inr (schema', unrecognized'), events')"
proof (induction rows arbitrary: schema unrecognized events)
  case Nil
  then show ?case by simp
next
  case (Cons row rows)
  obtain t c ct sc where row: "row = (t, c, ct, sc)" by (cases row) auto
  show ?case
    using Cons.IH by (cases "calculateDataType ty ct sc") (simp_all add: row)
qed

lemma fetchRows_keeps_unrecognized:
  assumes "fetchRows ty (map Inr rows) schema unrecognized events
             = (Inr (schema', unrecognized'), events')"
    and "typeOfColumn unrecognized t c = Some (MissingDatatype ty)"
  shows "typeOfColumn unrecognized' t c = Some (MissingDatatype ty)"
  using assms
proof (induction rows arbitrary: schema unrecognized events)
  case Nil
  then show ?case by simp
next
  case (Cons row rows)
  obtain t2 c2 ct sc where row: "row = (t2, c2, ct, sc)" by (cases row) auto
  show ?case
  proof (cases "calculateDataType ty ct sc")
    case None
    have "typeOfColumn (setColumn (ensureTable unrecognized t2) t2 c2 (MissingDatatype ty)) t c
            = Some (MissingDatatype ty)"
      using Cons.prems(2) by (simp add: typeOfColumn_setColumn typeOfColumn_ensureTable)
    with Cons.IH Cons.prems(1) None show ?thesis by (simp add: row)
  next
    case (Some known)
    with Cons.IH Cons.prems show ?thesis by (simp add: row)
  qed
qed

lemma fetchRows_keeps_events:
  assumes "fetchRows ty (map Inr rows) schema unrecognized events
             = (Inr (schema', unrecognized'), events')"
  shows "set events \<subseteq> set events'"
  using assms
proof (induction rows arbitrary: schema unrecognized events)
  case Nil
  then show ?case by simp
next
  case (Cons row rows)
  obtain t2 c2 ct sc where row: "row = (t2, c2, ct, sc)" by (cases row) auto
  show ?case
  proof (cases "calculateDataType ty ct sc")
    case None
    with Cons.prems have "set (events @ [Counted (RudderMissingDatatype ty) ct 1]) \<subseteq> set events'"
      by (intro Cons.IH) (simp add: row)
    then show ?thesis by simp
  next
    case (Some known)
    with Cons.IH Cons.prems show ?thesis by (simp add: row)
  qed
qed

lemma fetchRows_unrecognized:
  assumes "fetchRows ty (map Inr rows) schema unrecognized events
             = (Inr (schema', unrecognized'), events')"
    and "(t, c, ct, sc) \<in> set rows"
    and "calculateDataType ty ct sc = None"
  shows "typeOfColumn unrecognized' t c = Some (MissingDatatype ty)
       \<and> Counted (RudderMissingDatatype ty) ct 1 \<in> set events'"
  using assms
proof (induction rows arbitrary: schema unrecognized events)
  case Nil
  then show ?case by simp
next
  case (Cons row rows)
  obtain t2 c2 ct2 sc2 where row: "row = (t2, c2, ct2, sc2)" by (cases row) auto
  show ?case
  proof (cases "row = (t, c, ct, sc)")
    case True
    let ?u = "setColumn (ensureTable unrecognized t) t c (MissingDatatype ty)"
    let ?e = "events @ [Counted (RudderMissingDatatype ty) ct 1]"
    have run: "fetchRows ty (map Inr rows) (ensureTable schema t) ?u ?e
                 = (Inr (schema', unrecognized'), events')"
      using Cons.prems(1,3) True by simp
    have "typeOfColumn ?u t c = Some (MissingDatatype ty)"
      by (simp add: typeOfColumn_setColumn)
    from fetchRows_keeps_unrecognized[OF run this]
    have a: "typeOfColumn unrecognized' t c = Some (MissingDatatype ty)" .
    have "set ?e \<subseteq> set events'"
      by (rule fetchRows_keeps_events[OF run])
    then have b: "Counted (RudderMissingDatatype ty) ct 1 \<in> set events'" by auto
    from a b show ?thesis by blast
  next
    case False
    then have mem: "(t, c, ct, sc) \<in> set rows" using Cons.prems(2) by auto
    show ?thesis
      using Cons.IH[OF _ mem Cons.prems(3)] Cons.prems(1)
      by (cases "calculateDataType ty ct2 sc2") (simp_all add: row)
  qed
qed

lemma fetchRows_keeps_tables:
  assumes "fetchRows ty (map Inr rows) schema unrecognized events
             = (Inr (schema', unrecognized'), events')"
    and "schema t \<noteq> None \<or> t \<in> fst ` set rows"
  shows "schema' t \<noteq> None"
  using assms
proof (induction rows arbitrary: schema unrecognized events)
  case Nil
  then show ?case by simp
next
  case (Cons row rows)
  obtain t2 c2 ct sc where row: "row = (t2, c2, ct, sc)" by (cases row) auto
  have known: "ensureTable schema t2 t \<noteq> None \<or> t \<in> fst ` set rows"
    using Cons.prems(2) ensureTable_known[of schema t2 t] by (auto simp: row)
  show ?case
  proof (cases "calculateDataType ty ct sc")
    case None
    with Cons.prems(1) have "fetchRows ty (map Inr rows) (ensureTable schema t2)
            (setColumn (ensureTable unrecognized t2) t2 c2 (MissingDatatype ty))
            (events @ [Counted (RudderMissingDatatype ty) ct 1])
          = (Inr (schema', unrecognized'), events')"
      by (simp add: row)
    from Cons.IH[OF this known] show ?thesis .
  next
    case (Some known_type)
    with Cons.prems(1) have run: "fetchRows ty (map Inr rows)
            (setColumn (ensureTable schema t2) t2 c2 known_type) unrecognized events
          = (Inr (schema', unrecognized'), events')"
      by (simp add: row)
    have "setColumn (ensureTable schema t2) t2 c2 known_type t \<noteq> None
            \<or> t \<in> fst ` set rows"
      using known setColumn_known[of "ensureTable schema t2" t2 c2 known_type t] by blast
    from Cons.IH[OF run this] show ?thesis .
  qed
qed

lemma fetchRows_leaves_out:
  assumes "fetchRows ty (map Inr rows) schema unrecognized events
             = (Inr (schema', unrecognized'), events')"
    and "typeOfColumn schema t c = None"
    and "\<forall>(t', c', ct, sc) \<in> set rows. t' = t \<and> c' = c \<longrightarrow> calculateDataType ty ct sc = None"
  shows "typeOfColumn schema' t c = None"
  using assms
proof (induction rows arbitrary: schema unrecognized events)
  case Nil
  then show ?case by simp
next
  case (Cons row rows)
  obtain t2 c2 ct sc where row: "row = (t2, c2, ct, sc)" by (cases row) auto
  have rest: "\<forall>(t', c', ct, sc) \<in> set rows. t' = t \<and> c' = c \<longrightarrow> calculateDataType ty ct sc = None"
    using Cons.prems(3) by simp
  show ?case
  proof (cases "calculateDataType ty ct sc")
    case None
    with Cons.prems(1) have run: "fetchRows ty (map Inr rows) (ensureTable schema t2)
            (setColumn (ensureTable unrecognized t2) t2 c2 (MissingDatatype ty))
            (events @ [Counted (RudderMissingDatatype ty) ct 1])
          = (Inr (schema', unrecognized'), events')"
      by (simp add: row)
    have "typeOfColumn (ensureTable schema t2) t c = None"
      using Cons.prems(2) by (simp add: typeOfColumn_ensureTable)
    from Cons.IH[OF run this rest] show ?thesis .
  next
    case (Some known_type)
    with Cons.prems(1) have run: "fetchRows ty (map Inr rows)
            (setColumn (ensureTable schema t2) t2 c2 known_type) unrecognized events
          = (Inr (schema', unrecognized'), events')"
      by (simp add: row)
    have other: "\<not> (t = t2 \<and> c = c2)"
      using Cons.prems(3) Some by (auto simp: row)
    have "typeOfColumn (setColumn (ensureTable schema t2) t2 c2 known_type) t c = None"
      using Cons.prems(2) other by (simp add: typeOfColumn_setColumn typeOfColumn_ensureTable)
    from Cons.IH[OF run this rest] show ?thesis .
  qed
qed

text \<open>
  C6. When the catalog query succeeds, every row scans and no two rows are for the same
  column of the same table, \<open>FetchSchema\<close> returns the two schemas without an error,
  and for a row whose raw type \<open>calculateDataType\<close> does not map: the unrecognized schema
  gives the column the sentinel \<open>MissingDatatype\<close>, the returned schema has the table and
  gives the column no type, and the counter \<open>RudderMissingDatatype\<close> was incremented with
  the raw type as its tag.
\<close>

theorem FetchSchema_unrecognized_column:
  assumes catalog: "distinct (map (\<lambda>(tableName, columnName, columnType, numericScale).
                                     (tableName, columnName)) rows)"
    and row: "(tableName, columnName, columnType, numericScale) \<in> set rows"
    and unmapped: "calculateDataType ty columnType numericScale = None"
  shows "\<exists>schema unrecognizedSchema events.
           FetchSchema ty (Inr (map Inr rows, None)) = (Inr (schema, unrecognizedSchema), events)
         \<and> typeOfColumn unrecognizedSchema tableName columnName = Some (MissingDatatype ty)
         \<and> typeOfColumn schema tableName columnName = None
         \<and> schema tableName \<noteq> None
         \<and> Counted (RudderMissingDatatype ty) columnType 1 \<in> set events"
proof -
  obtain schema unrecognizedSchema events
    where run: "fetchRows ty (map Inr rows) Map.empty Map.empty []
                  = (Inr (schema, unrecognizedSchema), events)"
    using fetchRows_returns by blast
  have fetch: "FetchSchema ty (Inr (map Inr rows, None)) = (Inr (schema, unrecognizedSchema), events)"
    by (simp add: FetchSchema_def run)
  have only: "\<forall>(t', c', ct, sc) \<in> set rows.
                t' = tableName \<and> c' = columnName \<longrightarrow> calculateDataType ty ct sc = None"
  proof (clarify)
    fix ct sc assume other: "(tableName, columnName, ct, sc) \<in> set rows"
    have "inj_on (\<lambda>(tableName, columnName, columnType, numericScale). (tableName, columnName))
            (set rows)"
      using catalog by (simp add: distinct_map)
    from inj_onD[OF this _ other row] have "(tableName, columnName, ct, sc)
            = (tableName, columnName, columnType, numericScale)" by simp
    with unmapped show "calculateDataType ty ct sc = None" by simp
  qed
  have a: "typeOfColumn unrecognizedSchema tableName columnName = Some (MissingDatatype ty)"
    and d: "Counted (RudderMissingDatatype ty) columnType 1 \<in> set events"
    using fetchRows_unrecognized[OF run row unmapped] by simp_all
  have b: "typeOfColumn schema tableName columnName = None"
    by (rule fetchRows_leaves_out[OF run _ only]) (simp add: typeOfColumn_def)
  have c: "schema tableName \<noteq> None"
    by (rule fetchRows_keeps_tables[OF run]) (use row in force)
  from fetch a b c d show ?thesis by blast
qed

text \<open>
  C6 at an input: a catalog with a column of the raw type \<open>GEOGRAPHY\<close>, which the example
  mapping does not know.
\<close>

theorem FetchSchema_unrecognized_column_witness:
  "distinct (map (\<lambda>(tableName, columnName, columnType, numericScale). (tableName, columnName))
      exampleCatalog)
   \<and> (''TRACKS'', ''SHAPE'', ''GEOGRAPHY'', None) \<in> set exampleCatalog
   \<and> calculateDataType exampleTyping ''GEOGRAPHY'' None = None
   \<and> (\<exists>schema unrecognizedSchema events.
         FetchSchema exampleTyping (Inr (map Inr exampleCatalog, None))
           = (Inr (schema, unrecognizedSchema), events)
       \<and> typeOfColumn unrecognizedSchema ''TRACKS'' ''SHAPE'' = Some ''<missing_datatype>''
       \<and> typeOfColumn schema ''TRACKS'' ''SHAPE'' = None
       \<and> Counted ''warehouse_rudder_missing_datatype'' ''GEOGRAPHY'' 1 \<in> set events)"
proof -
  have catalog: "distinct (map (\<lambda>(tableName, columnName, columnType, numericScale).
                                  (tableName, columnName)) exampleCatalog)"
    by (simp add: exampleCatalog_def)
  have row: "(''TRACKS'', ''SHAPE'', ''GEOGRAPHY'', None) \<in> set exampleCatalog"
    by (simp add: exampleCatalog_def)
  have unmapped: "calculateDataType exampleTyping ''GEOGRAPHY'' None = None"
    by (simp add: exampleTyping_def)
  have names: "MissingDatatype exampleTyping = ''<missing_datatype>''"
    "RudderMissingDatatype exampleTyping = ''warehouse_rudder_missing_datatype''"
    by (simp_all add: exampleTyping_def)
  from FetchSchema_unrecognized_column[OF catalog row unmapped] catalog row unmapped
  show ?thesis unfolding names by blast
qed

subsection \<open>Properties of AddColumns\<close>

text \<open>
  C4. With exactly one column and a backend error that
  \<open>checkAndIgnoreAlreadyExistError\<close> recognises, \<open>AddColumns\<close> returns nil; with more
  than one column it returns whatever the backend answered to its one ALTER statement.
\<close>

theorem AddColumns_swallows_only_single_column:
  "(length columnsInfo = 1 \<and> checkAndIgnoreAlreadyExistError err
      \<and> db (addColumnsQuery dataTypesMap sf tableName columnsInfo) = err
    \<longrightarrow> fst (AddColumns dataTypesMap db sf tableName columnsInfo) = None)
   \<and> (1 < length columnsInfo
    \<longrightarrow> fst (AddColumns dataTypesMap db sf tableName columnsInfo)
          = db (addColumnsQuery dataTypesMap sf tableName columnsInfo))"
  by (auto simp: AddColumns_def Let_def split: option.splits)

theorem AddColumns_swallows_only_single_column_witness:
  "fst (AddColumns (\<lambda>t. ''varchar'') (\<lambda>q. Some columnExists) exampleDriver ''TRACKS''
          [\<lparr>Name = ''A'', Type = ''string''\<rparr>]) = None
   \<and> fst (AddColumns (\<lambda>t. ''varchar'') (\<lambda>q. Some columnExists) exampleDriver ''TRACKS''
          [\<lparr>Name = ''A'', Type = ''string''\<rparr>, \<lparr>Name = ''B'', Type = ''string''\<rparr>])
       = Some columnExists"
  using AddColumns_swallows_only_single_column
          [of "[\<lparr>Name = ''A'', Type = ''string''\<rparr>]" "Some columnExists"
              "\<lambda>q. Some columnExists" "\<lambda>t. ''varchar''" exampleDriver "''TRACKS''"]
        AddColumns_swallows_only_single_column
          [of "[\<lparr>Name = ''A'', Type = ''string''\<rparr>, \<lparr>Name = ''B'', Type = ''string''\<rparr>]"
              "Some columnExists"
              "\<lambda>q. Some columnExists" "\<lambda>t. ''varchar''" exampleDriver "''TRACKS''"]
  by (simp add: columnExists_def)

end
